theory Spec2Isabelle
  imports Complex_Main
begin

section \<open>Numbers and scalars\<close>

text \<open>
  The interpreter (\<^verbatim>\<open>src/language/interpreter.ts\<close>) computes with JavaScript
  values. A scalar (\<^verbatim>\<open>MScalar\<close>) is a JavaScript string or a JavaScript number.

  Numbers are modelled as exact rationals together with the three special
  values of a double, so that division by zero is what it is in the program
  (an infinity or NaN) and not the \<open>0\<close> of HOL. The rounding of doubles and the
  negative zero are not modelled: a finite result is the exact one.
  Strings are lists of code units; the model has the code units below 256.
\<close>

datatype number = Finite rat | PosInf | NegInf | NaN

fun nNeg :: "number \<Rightarrow> number" where
  "nNeg (Finite q) = Finite (- q)"
| "nNeg PosInf = NegInf"
| "nNeg NegInf = PosInf"
| "nNeg NaN = NaN"

text \<open>The sign of a number that is not NaN.\<close>

fun nSign :: "number \<Rightarrow> int" where
  "nSign (Finite q) = (if q < 0 then - 1 else if q = 0 then 0 else 1)"
| "nSign PosInf = 1"
| "nSign NegInf = - 1"
| "nSign NaN = 0"

definition signedInf :: "int \<Rightarrow> number" where
  "signedInf s = (if s = 0 then NaN else if 0 < s then PosInf else NegInf)"

fun nAdd :: "number \<Rightarrow> number \<Rightarrow> number" where
  "nAdd (Finite a) (Finite b) = Finite (a + b)"
| "nAdd NaN _ = NaN"
| "nAdd _ NaN = NaN"
| "nAdd PosInf NegInf = NaN"
| "nAdd NegInf PosInf = NaN"
| "nAdd PosInf _ = PosInf"
| "nAdd _ PosInf = PosInf"
| "nAdd NegInf _ = NegInf"
| "nAdd _ NegInf = NegInf"

definition nSub :: "number \<Rightarrow> number \<Rightarrow> number" where
  "nSub a b = nAdd a (nNeg b)"

fun nMul :: "number \<Rightarrow> number \<Rightarrow> number" where
  "nMul (Finite a) (Finite b) = Finite (a * b)"
| "nMul NaN _ = NaN"
| "nMul _ NaN = NaN"
| "nMul a b = signedInf (nSign a * nSign b)"

fun nDiv :: "number \<Rightarrow> number \<Rightarrow> number" where
  "nDiv (Finite a) (Finite b) =
     (if b = 0 then signedInf (nSign (Finite a)) else Finite (a / b))"
| "nDiv NaN _ = NaN"
| "nDiv _ NaN = NaN"
| "nDiv (Finite a) _ = Finite 0"
| "nDiv a (Finite b) = signedInf (nSign a * (if b < 0 then - 1 else 1))"
| "nDiv _ _ = NaN"

text \<open>\<^verbatim>\<open>Math.floor\<close>.\<close>

fun nFloor :: "number \<Rightarrow> number" where
  "nFloor (Finite q) = Finite (of_int \<lfloor>q\<rfloor>)"
| "nFloor x = x"

text \<open>Truncation towards zero, as the remainder \<^verbatim>\<open>%\<close> of JavaScript uses it.\<close>

definition truncRat :: "rat \<Rightarrow> int" where
  "truncRat q = (if q < 0 then - \<lfloor>- q\<rfloor> else \<lfloor>q\<rfloor>)"

fun nMod :: "number \<Rightarrow> number \<Rightarrow> number" where
  "nMod (Finite n) (Finite d) =
     (if d = 0 then NaN else Finite (n - d * of_int (truncRat (n / d))))"
| "nMod NaN _ = NaN"
| "nMod _ NaN = NaN"
| "nMod (Finite n) _ = Finite n"
| "nMod _ _ = NaN"

definition isInteger :: "rat \<Rightarrow> bool" where
  "isInteger q = (of_int \<lfloor>q\<rfloor> = q)"

definition isOddInteger :: "number \<Rightarrow> bool" where
  "isOddInteger x = (case x of Finite q \<Rightarrow> isInteger q \<and> odd \<lfloor>q\<rfloor> | _ \<Rightarrow> False)"

text \<open>
  \<^verbatim>\<open>Math.pow\<close>. With a finite base and a finite exponent that is not an
  integer the result of the program is the double nearest to a real that is
  irrational in general; the model takes it from \<open>fractionalPower\<close>, a
  parameter.
\<close>

definition nPow :: "(rat \<Rightarrow> rat \<Rightarrow> number) \<Rightarrow> number \<Rightarrow> number \<Rightarrow> number" where
  "nPow fractionalPower base exponent =
     (case exponent of
        NaN \<Rightarrow> NaN
      | Finite e \<Rightarrow>
          (if e = 0 then Finite 1
           else (case base of
                   NaN \<Rightarrow> NaN
                 | PosInf \<Rightarrow> (if 0 < e then PosInf else Finite 0)
                 | NegInf \<Rightarrow>
                     (if 0 < e then (if isOddInteger exponent then NegInf else PosInf)
                      else Finite 0)
                 | Finite b \<Rightarrow>
                     (if b = 0 then (if 0 < e then Finite 0 else PosInf)
                      else if isInteger e then
                        (if 0 < e then Finite (b ^ nat \<lfloor>e\<rfloor>)
                         else Finite (1 / b ^ nat (- \<lfloor>e\<rfloor>)))
                      else if b < 0 then NaN
                      else fractionalPower b e)))
      | PosInf \<Rightarrow>
          (case base of
             NaN \<Rightarrow> NaN
           | Finite b \<Rightarrow>
               (if 1 < \<bar>b\<bar> then PosInf else if \<bar>b\<bar> = 1 then NaN else Finite 0)
           | _ \<Rightarrow> PosInf)
      | NegInf \<Rightarrow>
          (case base of
             NaN \<Rightarrow> NaN
           | Finite b \<Rightarrow>
               (if 1 < \<bar>b\<bar> then Finite 0 else if \<bar>b\<bar> = 1 then NaN else PosInf)
           | _ \<Rightarrow> Finite 0))"

text \<open>The comparisons of two JavaScript numbers: \<^verbatim>\<open>===\<close> and \<^verbatim>\<open><\<close>.\<close>

fun nEq :: "number \<Rightarrow> number \<Rightarrow> bool" where
  "nEq NaN _ = False"
| "nEq _ NaN = False"
| "nEq a b = (a = b)"

fun nLess :: "number \<Rightarrow> number \<Rightarrow> bool" where
  "nLess (Finite a) (Finite b) = (a < b)"
| "nLess NaN _ = False"
| "nLess _ NaN = False"
| "nLess _ NegInf = False"
| "nLess NegInf _ = True"
| "nLess PosInf _ = False"
| "nLess _ PosInf = True"

datatype MScalar = MStr string | MNum number

subsection \<open>Decimal digits\<close>

definition isDigit :: "char \<Rightarrow> bool" where
  "isDigit c = (48 \<le> (of_char c :: nat) \<and> (of_char c :: nat) \<le> 57)"

definition digitsToNat :: "string \<Rightarrow> nat" where
  "digitsToNat ds = foldl (\<lambda>acc c. 10 * acc + ((of_char c :: nat) - 48)) 0 ds"

text \<open>The decimal digits of a natural number, by repeated division.\<close>

fun natDigits :: "nat \<Rightarrow> nat \<Rightarrow> string" where
  "natDigits 0 n = []"
| "natDigits (Suc fuel) n =
     (if n < 10 then [char_of (48 + n)]
      else natDigits fuel (n div 10) @ [char_of (48 + n mod 10)])"

definition natToString :: "nat \<Rightarrow> string" where
  "natToString n = natDigits (Suc n) n"

text \<open>The digits after the decimal point of a rational in \<open>[0, 1)\<close>, at most \<open>fuel\<close> of them.\<close>

fun fractionDigits :: "nat \<Rightarrow> rat \<Rightarrow> string" where
  "fractionDigits 0 r = []"
| "fractionDigits (Suc fuel) r =
     (if r = 0 then []
      else (let d = nat \<lfloor>r * 10\<rfloor> in char_of (48 + d) # fractionDigits fuel (r * 10 - of_nat d)))"

text \<open>
  \<^verbatim>\<open>Number.prototype.toString\<close>. An integer prints as its digits, another
  finite value as integer part, point and fraction digits. Where the decimal
  expansion does not end the double would print its shortest digits that
  round-trip; the model stops after 17 fraction digits. The exponent notation
  of very large and very small doubles is not modelled.
\<close>

fun numberToString :: "number \<Rightarrow> string" where
  "numberToString NaN = ''NaN''"
| "numberToString PosInf = ''Infinity''"
| "numberToString NegInf = ''-Infinity''"
| "numberToString (Finite q) =
     (let a = \<bar>q\<bar>;
          whole = nat \<lfloor>a\<rfloor>;
          frac = fractionDigits 17 (a - of_nat whole)
      in (if q < 0 then ''-'' else '''') @ natToString whole @
         (if frac = [] then [] else ''.'' @ frac))"

subsection \<open>Parsing numbers\<close>

text \<open>An optional sign: the factor and the rest of the text.\<close>

definition takeSign :: "string \<Rightarrow> rat \<times> string" where
  "takeSign s =
     (case s of
        c # rest \<Rightarrow>
          (if c = CHR ''-'' then (- 1, rest) else if c = CHR ''+'' then (1, rest) else (1, s))
      | [] \<Rightarrow> (1, s))"

text \<open>
  An exponent part \<^verbatim>\<open>E\<close>, sign, digits (the letters of \<open>letters\<close> start it):
  the power of ten and the rest of the text; no exponent part is the factor 1.
\<close>

definition takeExponent :: "char list \<Rightarrow> string \<Rightarrow> rat \<times> string" where
  "takeExponent letters s =
     (case s of
        c # rest \<Rightarrow>
          (if c \<in> set letters then
             (let (sign, rest') = takeSign rest;
                  ds = takeWhile isDigit rest'
              in if ds = [] then (1, s)
                 else ((if sign < 0 then 1 / 10 ^ digitsToNat ds else 10 ^ digitsToNat ds),
                       dropWhile isDigit rest'))
           else (1, s))
      | [] \<Rightarrow> (1, s))"

text \<open>
  Modelled from the spec: \<^verbatim>\<open>mValueToNumber\<close> of \<^verbatim>\<open>mValue.ts\<close>, which is not
  among the sources, on a string. "Parse the longest prefix of the string
  that is a valid number (optional sign, decimal digits, optional fractional,
  optional E exponent); empty or no-match gives 0."
\<close>

definition stringToNumber :: "string \<Rightarrow> number" where
  "stringToNumber s =
     (let (sign, s1) = takeSign s;
          whole = takeWhile isDigit s1;
          s2 = dropWhile isDigit s1
      in if whole = [] then Finite 0
         else
           (let (frac, s3) =
                  (case s2 of
                     c # rest \<Rightarrow>
                       (if c = CHR ''.'' then (takeWhile isDigit rest, dropWhile isDigit rest)
                        else ([], s2))
                   | [] \<Rightarrow> ([], s2));
                (scale, s4) = takeExponent [CHR ''E''] s3
            in Finite (sign * (of_nat (digitsToNat whole)
                               + of_nat (digitsToNat frac) / 10 ^ length frac) * scale)))"

definition mValueToNumber :: "MScalar \<Rightarrow> number" where
  "mValueToNumber v = (case v of MNum n \<Rightarrow> n | MStr s \<Rightarrow> stringToNumber s)"

text \<open>
  Modelled from the spec: \<^verbatim>\<open>mValueToString\<close> of \<^verbatim>\<open>mValue.ts\<close>. "Numbers render
  in canonical form: integers without a decimal point; otherwise the shortest
  decimal that round-trips; no trailing zeros."
\<close>

definition mValueToString :: "MScalar \<Rightarrow> string" where
  "mValueToString v = (case v of MStr s \<Rightarrow> s | MNum n \<Rightarrow> numberToString n)"

text \<open>
  The conversion of a string to a number that JavaScript itself applies when
  \<^verbatim>\<open><\<close> or \<^verbatim>\<open>>\<close> meets a string and a number: white space is trimmed, the
  empty text is 0, the whole text must be a decimal literal or \<^verbatim>\<open>Infinity\<close>,
  and anything else is NaN. (The literals \<^verbatim>\<open>0x\<close>, \<^verbatim>\<open>0o\<close>, \<^verbatim>\<open>0b\<close> are not
  modelled and give NaN here.)
\<close>

definition isJsSpace :: "char \<Rightarrow> bool" where
  "isJsSpace c = ((of_char c :: nat) \<in> {9, 10, 11, 12, 13, 32, 160})"

definition jsTrim :: "string \<Rightarrow> string" where
  "jsTrim s = rev (dropWhile isJsSpace (rev (dropWhile isJsSpace s)))"

definition jsStringToNumber :: "string \<Rightarrow> number" where
  "jsStringToNumber s =
     (let t = jsTrim s in
      if t = [] then Finite 0
      else
        (let (sign, s1) = takeSign t in
         if s1 = ''Infinity'' then (if sign < 0 then NegInf else PosInf)
         else
           (let whole = takeWhile isDigit s1;
                s2 = dropWhile isDigit s1;
                (hasPoint, frac, s3) =
                  (case s2 of
                     c # rest \<Rightarrow>
                       (if c = CHR ''.''
                        then (True, takeWhile isDigit rest, dropWhile isDigit rest)
                        else (False, [], s2))
                   | [] \<Rightarrow> (False, [], s2));
                (scale, s4) = takeExponent [CHR ''e'', CHR ''E''] s3
            in if (whole = [] \<and> frac = []) \<or> s4 \<noteq> [] then NaN
               else Finite (sign * (of_nat (digitsToNat whole)
                                    + of_nat (digitsToNat frac) / 10 ^ length frac) * scale))))"

definition jsToNumber :: "MScalar \<Rightarrow> number" where
  "jsToNumber v = (case v of MNum n \<Rightarrow> n | MStr s \<Rightarrow> jsStringToNumber s)"

text \<open>The order of two strings in JavaScript: by code units, a proper prefix first.\<close>

fun stringLess :: "string \<Rightarrow> string \<Rightarrow> bool" where
  "stringLess [] [] = False"
| "stringLess [] (y # ys) = True"
| "stringLess (x # xs) [] = False"
| "stringLess (x # xs) (y # ys) =
     (if (of_char x :: nat) < of_char y then True
      else if (of_char y :: nat) < of_char x then False
      else stringLess xs ys)"

text \<open>\<^verbatim>\<open>left === right\<close> and \<^verbatim>\<open>left < right\<close> on two scalars.\<close>

fun strictEquals :: "MScalar \<Rightarrow> MScalar \<Rightarrow> bool" where
  "strictEquals (MStr a) (MStr b) = (a = b)"
| "strictEquals (MNum a) (MNum b) = nEq a b"
| "strictEquals _ _ = False"

fun jsLessThan :: "MScalar \<Rightarrow> MScalar \<Rightarrow> bool" where
  "jsLessThan (MStr a) (MStr b) = stringLess a b"
| "jsLessThan a b = nLess (jsToNumber a) (jsToNumber b)"


section \<open>The syntax tree\<close>

text \<open>
  The nodes the parser builds (the unnamed source file \<^verbatim>\<open>part_000\<close>, which is
  \<^verbatim>\<open>src/language/parser.ts\<close>). A text range is its start and its end, each
  a line and a column. A field that the parser may leave \<^verbatim>\<open>undefined\<close> is an
  option.
\<close>

type_synonym Position = "nat \<times> nat"
type_synonym TextRange = "Position \<times> Position"

datatype IdentifierAstNode = Identifier TextRange string

fun identifierText :: "IdentifierAstNode \<Rightarrow> string" where
  "identifierText (Identifier r t) = t"

datatype UnaryOp = NotOp | PlusOp | MinusOp

datatype BinaryOp =
    Or | And | Equals | LessThan | GreaterThan | Add | Subtract | Multiply
  | Power | Divide | IntegerDivide | Modulo | Concatenate

datatype ExpressionAstNode =
    Variable VariableAstNode
  | NumberLiteral TextRange number
  | StringLiteral TextRange string
  | Call CallAstNode
  | UnaryOp TextRange ExpressionAstNode UnaryOp
  | BinaryOp TextRange ExpressionAstNode ExpressionAstNode BinaryOp bool
  | OrderBuiltin TextRange VariableAstNode "ExpressionAstNode option"
  | LengthBuiltin TextRange "ExpressionAstNode option"
  | ExtractBuiltin TextRange "ExpressionAstNode option" "ExpressionAstNode option"
      "ExpressionAstNode option"
  | SelectBuiltin TextRange "SelectBuiltinArgAstNode list"
  | FindBuiltin TextRange "ExpressionAstNode option" "ExpressionAstNode option"
      "ExpressionAstNode option"
  | RandomBuiltin TextRange "ExpressionAstNode option"
  | AsciiBuiltin TextRange "ExpressionAstNode option"
  | CharBuiltin TextRange "ExpressionAstNode option"
and VariableAstNode =
    VariableNode TextRange IdentifierAstNode "ExpressionAstNode list"
and CallAstNode =
    CallNode TextRange IdentifierAstNode "CallArgumentAstNode list"
and CallArgumentAstNode =
    Reference TextRange IdentifierAstNode
  | Argument ExpressionAstNode
and SelectBuiltinArgAstNode =
    SelectBuiltinArg TextRange ExpressionAstNode ExpressionAstNode

fun variableRange :: "VariableAstNode \<Rightarrow> TextRange" where
  "variableRange (VariableNode r name subscripts) = r"

fun variableName :: "VariableAstNode \<Rightarrow> string" where
  "variableName (VariableNode r name subscripts) = identifierText name"

fun variableSubscripts :: "VariableAstNode \<Rightarrow> ExpressionAstNode list" where
  "variableSubscripts (VariableNode r name subscripts) = subscripts"

fun callRange :: "CallAstNode \<Rightarrow> TextRange" where
  "callRange (CallNode r name args) = r"

text \<open>The range of an expression node (its \<^verbatim>\<open>start\<close> and \<^verbatim>\<open>end\<close>).\<close>

fun expressionRange :: "ExpressionAstNode \<Rightarrow> TextRange" where
  "expressionRange (Variable v) = variableRange v"
| "expressionRange (NumberLiteral r n) = r"
| "expressionRange (StringLiteral r s) = r"
| "expressionRange (Call c) = callRange c"
| "expressionRange (UnaryOp r right op) = r"
| "expressionRange (BinaryOp r left right op isNegated) = r"
| "expressionRange (OrderBuiltin r v direction) = r"
| "expressionRange (LengthBuiltin r arg) = r"
| "expressionRange (ExtractBuiltin r target extractionStart extractionEnd) = r"
| "expressionRange (SelectBuiltin r args) = r"
| "expressionRange (FindBuiltin r haystack needle findStart) = r"
| "expressionRange (RandomBuiltin r m) = r"
| "expressionRange (AsciiBuiltin r v) = r"
| "expressionRange (CharBuiltin r v) = r"

datatype WriteArgumentAstNode =
    WriteExpression ExpressionAstNode
  | ExclamationPointFormatter
  | QuestionMarkFormatter ExpressionAstNode
  | HashFormatter

datatype ForParameterAstNode = ForParameter TextRange "ExpressionAstNode list"

datatype ForArgumentAstNode =
  ForArgument TextRange VariableAstNode "ForParameterAstNode list"

text \<open>
  The target of a \<^verbatim>\<open>set\<close> argument is a variable or an extract builtin
  (its target, start and end).
\<close>

datatype SetTargetAstNode =
    TargetVariable VariableAstNode
  | TargetExtract TextRange "ExpressionAstNode option" "ExpressionAstNode option"
      "ExpressionAstNode option"

datatype SetArgAstNode = SetArgument TextRange SetTargetAstNode ExpressionAstNode

datatype CommandAstNode =
    Command TextRange "ExpressionAstNode option" CommandBodyAstNode
and CommandBodyAstNode =
    CommentNode TextRange
  | WriteNode TextRange "WriteArgumentAstNode list"
  | QuitNode TextRange "ExpressionAstNode option"
  | CallCommandNode CallAstNode
  | DoBlockNode TextRange "CommandAstNode list"
  | IfNode TextRange "ExpressionAstNode list" "CommandAstNode list"
  | ElseNode TextRange "CommandAstNode list"
  | ForNode TextRange "ForArgumentAstNode option" "CommandAstNode list"
  | SetNode TextRange "SetArgAstNode list"
  | NewNode TextRange "IdentifierAstNode list"
  | KillNode TextRange "VariableAstNode list"
  | MergeNode TextRange VariableAstNode VariableAstNode
  | HaltNode TextRange

record Tag =
  index :: nat
  params :: "string list option"

record TopLevelAstNode =
  tags :: "(string \<times> Tag) list"
  children :: "CommandAstNode list"

section \<open>Values, references and the interpreter state\<close>

text \<open>
  An array node and an environment are JavaScript objects: they are shared
  by reference and mutated in place. The model keeps them in two stores,
  addressed by their position; an address stands for the object. A new
  object gets the next free address.

  Modelled from the spec: the types of \<^verbatim>\<open>mValue.ts\<close>, which is not among the
  sources. "MValue: either a Scalar, or an Array node. An Array node holds an
  optional Scalar self-value plus an ordered mapping from string key to
  MValue." "Reference: an (array node, key) pair or a (frame, name) pair."
  An environment maps a name to a value or to a reference.
\<close>

type_synonym addr = nat

datatype MValue = Scalar MScalar | ArrayObject addr

text \<open>
  The environment of a reference is an option: \<open>None\<close> is the \<^verbatim>\<open>undefined\<close>
  that \<^verbatim>\<open>state.environmentStack[0]\<close> would be on a stack without frame 0.
\<close>

datatype MReference =
    ArrayReference addr string
  | EnvironmentReference "addr option" string

datatype Slot = Value MValue | StoredReference MReference

record MArray =
  arrayValue :: MScalar
  arrayChildren :: "(string \<times> MValue) list"

type_synonym Environment = "(string \<times> Slot) list"

record MError =
  message :: string
  line :: nat
  column :: nat

text \<open>
  A host function (\<^verbatim>\<open>Extern\<close>) is modelled as a pure function of its
  arguments that returns a scalar or nothing.
\<close>

type_synonym Extern = "MValue list \<Rightarrow> MScalar option"

text \<open>
  The state of the interpreter. \<open>environmentStack\<close> lists the frames from
  frame 0 upwards (\<open>outputBuffer\<close> is the field \<^verbatim>\<open>output\<close>); an entry \<open>None\<close> is a hole of the JavaScript array (what
  assigning a larger \<^verbatim>\<open>length\<close> leaves behind). \<open>valueStack\<close> has its top
  first. \<open>randomValues\<close> are the results of the calls of \<^verbatim>\<open>Math.random\<close> to
  come, \<open>randomCount\<close> how many were taken, and \<open>fractionalPower\<close> is
  \<^verbatim>\<open>Math.pow\<close> where the model cannot compute it.
\<close>

record InterpreterState =
  ast :: TopLevelAstNode
  externs :: "(string \<times> Extern) list"
  valueStack :: "MScalar list"
  environmentStack :: "addr option list"
  environments :: "Environment list"
  arrays :: "MArray list"
  outputColumn :: nat
  outputBuffer :: "string list"
  errors :: "MError list"
  randomValues :: "nat \<Rightarrow> rat"
  randomCount :: nat
  fractionalPower :: "rat \<Rightarrow> rat \<Rightarrow> number"

datatype CommandResult = Continue | Quit | Halt

text \<open>
  What a call of a function of the interpreter comes to: it returns, it
  throws a JavaScript exception, or the model runs out of fuel (the program
  loops longer than the fuel allows). \<open>StackUnderflow\<close> marks a \<^verbatim>\<open>pop\<close> of
  the empty value stack, \<open>ReferenceCast\<close> a stored reference that reaches a
  cast \<^verbatim>\<open>as MValue\<close>, and \<open>OutsideModel\<close> a string with a code unit above
  255: what the program does after these is not modelled.
\<close>

datatype JsError = TypeError | RangeError | StackUnderflow | ReferenceCast | OutsideModel

datatype 'a outcome = OutOfFuel | Throw JsError | Done 'a

definition andThen :: "'a outcome \<Rightarrow> ('a \<Rightarrow> 'b outcome) \<Rightarrow> 'b outcome" where
  "andThen m f = (case m of OutOfFuel \<Rightarrow> OutOfFuel | Throw e \<Rightarrow> Throw e | Done x \<Rightarrow> f x)"

type_synonym 'a result = "('a \<times> InterpreterState) outcome"
type_synonym exprRunner = "ExpressionAstNode \<Rightarrow> InterpreterState \<Rightarrow> bool result"
type_synonym cmdRunner = "CommandAstNode \<Rightarrow> InterpreterState \<Rightarrow> CommandResult result"

subsection \<open>Association lists\<close>

fun assocSet :: "string \<Rightarrow> 'v \<Rightarrow> (string \<times> 'v) list \<Rightarrow> (string \<times> 'v) list" where
  "assocSet k v [] = [(k, v)]"
| "assocSet k v ((k', v') # rest) =
     (if k = k' then (k, v) # rest else (k', v') # assocSet k v rest)"

definition assocDelete :: "string \<Rightarrow> (string \<times> 'v) list \<Rightarrow> (string \<times> 'v) list" where
  "assocDelete k kvs = filter (\<lambda>kv. fst kv \<noteq> k) kvs"

subsection \<open>The two stores\<close>

definition environmentAt :: "InterpreterState \<Rightarrow> addr \<Rightarrow> Environment" where
  "environmentAt state a = (if a < length (environments state) then environments state ! a else [])"

definition arrayAt :: "InterpreterState \<Rightarrow> addr \<Rightarrow> MArray" where
  "arrayAt state a =
     (if a < length (arrays state) then arrays state ! a
      else \<lparr>arrayValue = MStr [], arrayChildren = []\<rparr>)"

text \<open>\<^verbatim>\<open>new Map()\<close>: the address of the new environment and the state that has it.\<close>

definition newEnvironment :: "InterpreterState \<Rightarrow> addr \<times> InterpreterState" where
  "newEnvironment state =
     (length (environments state), state\<lparr>environments := environments state @ [[]]\<rparr>)"

text \<open>\<^verbatim>\<open>{ kind: MObjectKind.Array, value }\<close>: a new array node with no children.\<close>

definition newArray :: "MScalar \<Rightarrow> InterpreterState \<Rightarrow> addr \<times> InterpreterState" where
  "newArray v state =
     (length (arrays state),
      state\<lparr>arrays := arrays state @ [\<lparr>arrayValue = v, arrayChildren = []\<rparr>]\<rparr>)"

text \<open>\<^verbatim>\<open>environment.get\<close>, \<^verbatim>\<open>environment.set\<close>, \<^verbatim>\<open>environment.delete\<close> on the object at an address.\<close>

definition environmentGet :: "InterpreterState \<Rightarrow> addr \<Rightarrow> string \<Rightarrow> Slot option" where
  "environmentGet state a name = map_of (environmentAt state a) name"

definition environmentSet :: "addr \<Rightarrow> string \<Rightarrow> Slot \<Rightarrow> InterpreterState \<Rightarrow> InterpreterState" where
  "environmentSet a name v state =
     state\<lparr>environments := (environments state)[a := assocSet name v (environmentAt state a)]\<rparr>"

definition environmentDelete :: "addr \<Rightarrow> string \<Rightarrow> InterpreterState \<Rightarrow> InterpreterState" where
  "environmentDelete a name state =
     state\<lparr>environments := (environments state)[a := assocDelete name (environmentAt state a)]\<rparr>"


subsection \<open>Array nodes\<close>

text \<open>
  Modelled from the spec: \<^verbatim>\<open>mArrayGet\<close>, \<^verbatim>\<open>mArraySet\<close>, \<^verbatim>\<open>mArrayKill\<close>,
  \<^verbatim>\<open>mValueToScalar\<close>, \<^verbatim>\<open>mValueCopy\<close>, \<^verbatim>\<open>mArrayGetNextKey\<close> and
  \<^verbatim>\<open>mArrayGetPreviousKey\<close> of \<^verbatim>\<open>mValue.ts\<close>, which is not among the sources.
  The children of an array node are "an ordered mapping from string key to
  MValue"; the model keeps them as an association list and computes the order
  where it is observed.
\<close>

definition mArrayGet :: "InterpreterState \<Rightarrow> addr \<Rightarrow> string \<Rightarrow> MValue option" where
  "mArrayGet state a key = map_of (arrayChildren (arrayAt state a)) key"

definition mArraySet :: "addr \<Rightarrow> string \<Rightarrow> MValue \<Rightarrow> InterpreterState \<Rightarrow> InterpreterState" where
  "mArraySet a key v state =
     state\<lparr>arrays := (arrays state)
       [a := (arrayAt state a)\<lparr>arrayChildren := assocSet key v (arrayChildren (arrayAt state a))\<rparr>]\<rparr>"

text \<open>"An array reference deletes the keyed child including its subtree."\<close>

definition mArrayKill :: "addr \<Rightarrow> string \<Rightarrow> InterpreterState \<Rightarrow> InterpreterState" where
  "mArrayKill a key state =
     state\<lparr>arrays := (arrays state)
       [a := (arrayAt state a)\<lparr>arrayChildren := assocDelete key (arrayChildren (arrayAt state a))\<rparr>]\<rparr>"

text \<open>
  "To scalar: Array nodes with a self-value yield that self-value; Array nodes
  without one yield the empty string." Every array node of the interpreter is
  made with a self-value.
\<close>

definition mValueToScalar :: "InterpreterState \<Rightarrow> MValue \<Rightarrow> MScalar" where
  "mValueToScalar state v =
     (case v of Scalar x \<Rightarrow> x | ArrayObject a \<Rightarrow> arrayValue (arrayAt state a))"

text \<open>
  "Deep-copy": a scalar is itself, an array node is a new node with the same
  self-value and copies of the children. The fuel bounds the depth.
\<close>

fun mValueCopy :: "nat \<Rightarrow> MValue \<Rightarrow> InterpreterState \<Rightarrow> (MValue \<times> InterpreterState) outcome"
  and copyChildren :: "nat \<Rightarrow> (string \<times> MValue) list \<Rightarrow> InterpreterState
    \<Rightarrow> ((string \<times> MValue) list \<times> InterpreterState) outcome" where
  "mValueCopy n (Scalar x) state = Done (Scalar x, state)"
| "mValueCopy 0 (ArrayObject a) state = OutOfFuel"
| "mValueCopy (Suc n) (ArrayObject a) state =
     andThen (copyChildren n (arrayChildren (arrayAt state a)) state) (\<lambda>(copies, state1).
       Done (ArrayObject (length (arrays state1)),
             state1\<lparr>arrays := arrays state1 @
               [\<lparr>arrayValue = arrayValue (arrayAt state a), arrayChildren = copies\<rparr>]\<rparr>))"
| "copyChildren n [] state = Done ([], state)"
| "copyChildren n ((k, v) # rest) state =
     andThen (mValueCopy n v state) (\<lambda>(v', state1).
       andThen (copyChildren n rest state1) (\<lambda>(rest', state2).
         Done ((k, v') # rest', state2)))"

text \<open>
  "Ordering is by the M collation order: numeric strings precede non-numeric
  strings; numeric strings are ordered by numeric value; non-numeric strings
  are ordered lexicographically by code-unit." A numeric string is taken to be
  one that is the canonical form of its number.
\<close>

definition isNumericString :: "string \<Rightarrow> bool" where
  "isNumericString s = (s \<noteq> [] \<and> numberToString (stringToNumber s) = s)"

definition collatesBefore :: "string \<Rightarrow> string \<Rightarrow> bool" where
  "collatesBefore a b =
     (if isNumericString a
      then (if isNumericString b then nLess (stringToNumber a) (stringToNumber b) else True)
      else (if isNumericString b then False else stringLess a b))"

fun insertKey :: "string \<Rightarrow> string list \<Rightarrow> string list" where
  "insertKey k [] = [k]"
| "insertKey k (x # xs) = (if collatesBefore k x then k # x # xs else x # insertKey k xs)"

definition collatedKeys :: "(string \<times> MValue) list \<Rightarrow> string list" where
  "collatedKeys kvs = foldr insertKey (map fst kvs) []"

text \<open>"Return the next child key of the parent array after the key; the empty string at either end."\<close>

definition mArrayGetNextKey :: "InterpreterState \<Rightarrow> addr \<Rightarrow> string \<Rightarrow> string" where
  "mArrayGetNextKey state a key =
     (case filter (\<lambda>k. key = [] \<or> collatesBefore key k)
             (collatedKeys (arrayChildren (arrayAt state a))) of
        [] \<Rightarrow> []
      | k # _ \<Rightarrow> k)"

definition mArrayGetPreviousKey :: "InterpreterState \<Rightarrow> addr \<Rightarrow> string \<Rightarrow> string" where
  "mArrayGetPreviousKey state a key =
     (case filter (\<lambda>k. key = [] \<or> collatesBefore k key)
             (rev (collatedKeys (arrayChildren (arrayAt state a)))) of
        [] \<Rightarrow> []
      | k # _ \<Rightarrow> k)"

section \<open>The interpreter: references\<close>

text \<open>
  The functions of \<^verbatim>\<open>interpreter.ts\<close> call one another recursively, and a
  program may loop. Each function below is the body of the source function of
  the same name; where the source calls \<^verbatim>\<open>interpretExpression\<close> or
  \<^verbatim>\<open>interpretCommand\<close> the model calls the parameter \<open>E\<close> or \<open>C\<close>, which the
  last section instantiates with the interpreter that has one unit of fuel
  less. A function that mutates the state returns the new state; it returns
  it also where the source returns early, since the mutations made so far stay.
\<close>

definition popValue :: "InterpreterState \<Rightarrow> MScalar result" where
  "popValue state =
     (case valueStack state of
        [] \<Rightarrow> Throw StackUnderflow
      | v # rest \<Rightarrow> Done (v, state\<lparr>valueStack := rest\<rparr>))"

definition pushValue :: "MScalar \<Rightarrow> InterpreterState \<Rightarrow> InterpreterState" where
  "pushValue v state = state\<lparr>valueStack := v # valueStack state\<rparr>"

text \<open>
  The two idioms of the source: \<^verbatim>\<open>if (!interpretExpression(..)) return failure;\<close>
  and \<^verbatim>\<open>const v = state.valueStack.pop()!\<close>.
\<close>

definition whenOk :: "bool result \<Rightarrow> 'a \<Rightarrow> (InterpreterState \<Rightarrow> 'a result) \<Rightarrow> 'a result" where
  "whenOk m failure k = andThen m (\<lambda>(ok, state). if ok then k state else Done (failure, state))"

definition popThen :: "InterpreterState \<Rightarrow> (MScalar \<Rightarrow> InterpreterState \<Rightarrow> 'a result) \<Rightarrow> 'a result" where
  "popThen state k = andThen (popValue state) (\<lambda>(v, state'). k v state')"

text \<open>\<^verbatim>\<open>interpretExpression\<close> of a field that may be \<^verbatim>\<open>undefined\<close>: reading \<^verbatim>\<open>node.kind\<close> throws.\<close>

definition interpretOptional :: "exprRunner \<Rightarrow> ExpressionAstNode option \<Rightarrow> InterpreterState \<Rightarrow> bool result" where
  "interpretOptional E node state = (case node of None \<Rightarrow> Throw TypeError | Some e \<Rightarrow> E e state)"

definition reportError :: "string \<Rightarrow> TextRange \<Rightarrow> InterpreterState \<Rightarrow> InterpreterState" where
  "reportError msg node state =
     state\<lparr>errors := errors state @
       [\<lparr>message = msg, line = fst (fst node), column = snd (fst node)\<rparr>]\<rparr>"

definition getSubscriptKey :: "exprRunner \<Rightarrow> InterpreterState \<Rightarrow> nat \<Rightarrow> ExpressionAstNode list option
    \<Rightarrow> string list option \<Rightarrow> string option result" where
  "getSubscriptKey E state i subscripts subscriptValues =
     (case subscriptValues of
        Some values \<Rightarrow> Done ((if i < length values then Some (values ! i) else None), state)
      | None \<Rightarrow>
          (case subscripts of
             Some exprs \<Rightarrow>
               whenOk (interpretOptional E (if i < length exprs then Some (exprs ! i) else None) state)
                 None
                 (\<lambda>state1. popThen state1 (\<lambda>v state2. Done (Some (mValueToString v), state2)))
           | None \<Rightarrow> Done (None, state)))"

text \<open>What \<^verbatim>\<open>getReference\<close> returns: a reference, \<^verbatim>\<open>null\<close> or \<^verbatim>\<open>undefined\<close>.\<close>

datatype ReferenceLookup = FoundReference MReference | NullReference | UndefinedReference

text \<open>
  The first loop of \<^verbatim>\<open>getReference\<close>, over the frames from the top of the
  stack down: the first frame that has the name, and what it holds. Calling
  \<^verbatim>\<open>get\<close> on a hole of the stack throws.
\<close>

fun scanEnvironments :: "InterpreterState \<Rightarrow> addr option list \<Rightarrow> string \<Rightarrow> (addr \<times> Slot) option outcome" where
  "scanEnvironments state [] name = Done None"
| "scanEnvironments state (None # below) name = Throw TypeError"
| "scanEnvironments state (Some a # below) name =
     (case environmentGet state a name of
        None \<Rightarrow> scanEnvironments state below name
      | Some v \<Rightarrow> Done (Some (a, v)))"

definition frameZero :: "InterpreterState \<Rightarrow> addr option" where
  "frameZero state = (case environmentStack state of [] \<Rightarrow> None | e # higher \<Rightarrow> e)"

text \<open>
  The second loop of \<^verbatim>\<open>getReference\<close>, over the subscript indices that are
  left. \<open>v\<close>, \<open>array\<close> and \<open>subscriptKey\<close> are the variables \<^verbatim>\<open>value\<close>,
  \<^verbatim>\<open>array\<close> and \<^verbatim>\<open>subscriptKey\<close> of the source.
\<close>

fun getReferenceLoop :: "exprRunner \<Rightarrow> string \<Rightarrow> addr option \<Rightarrow> ExpressionAstNode list option
    \<Rightarrow> string list option \<Rightarrow> bool \<Rightarrow> nat list \<Rightarrow> MValue option \<Rightarrow> addr option \<Rightarrow> string option
    \<Rightarrow> InterpreterState \<Rightarrow> ReferenceLookup result" where
  "getReferenceLoop E name environment subscripts subscriptValues canCreate [] v array subscriptKey state =
     (case (array, subscriptKey) of
        (Some a, Some k) \<Rightarrow> Done (FoundReference (ArrayReference a k), state)
      | _ \<Rightarrow> Throw TypeError)"
| "getReferenceLoop E name environment subscripts subscriptValues canCreate (i # rest) v array subscriptKey state =
     andThen
       (case v of
          Some (ArrayObject a) \<Rightarrow> Done (Some a, state)
        | _ \<Rightarrow>
            if \<not> canCreate then Done (None, state)
            else
              (let (a, state1) =
                     newArray (case v of Some (Scalar x) \<Rightarrow> x | _ \<Rightarrow> MStr []) state
               in if 0 < i then
                    (case (array, subscriptKey) of
                       (Some parent, Some k) \<Rightarrow> Done (Some a, mArraySet parent k (ArrayObject a) state1)
                     | _ \<Rightarrow> Throw TypeError)
                  else
                    (case environment of
                       None \<Rightarrow> Throw TypeError
                     | Some e \<Rightarrow> Done (Some a, environmentSet e name (Value (ArrayObject a)) state1))))
       (\<lambda>(node, state2).
          case node of
            None \<Rightarrow> Done (NullReference, state2)
          | Some a \<Rightarrow>
              andThen (getSubscriptKey E state2 i subscripts subscriptValues) (\<lambda>(key, state3).
                case key of
                  None \<Rightarrow> Done (UndefinedReference, state3)
                | Some k \<Rightarrow>
                    if k = [] then Done (UndefinedReference, state3)
                    else getReferenceLoop E name environment subscripts subscriptValues canCreate rest
                           (mArrayGet state3 a k) (Some a) (Some k) state3))"

definition getReference :: "exprRunner \<Rightarrow> string \<Rightarrow> InterpreterState \<Rightarrow> nat \<Rightarrow> ExpressionAstNode list option
    \<Rightarrow> string list option \<Rightarrow> bool \<Rightarrow> ReferenceLookup result" where
  "getReference E name state subscriptCount subscripts subscriptValues canCreate =
     andThen (scanEnvironments state (rev (environmentStack state)) name) (\<lambda>found.
       case found of
         Some (a, StoredReference r) \<Rightarrow> Done (FoundReference r, state)
       | _ \<Rightarrow>
           (let environment = (case found of Some (a, slot) \<Rightarrow> Some a | None \<Rightarrow> frameZero state);
                v = (case found of Some (a, Value x) \<Rightarrow> Some x | _ \<Rightarrow> None)
            in if subscriptCount = 0
               then Done (FoundReference (EnvironmentReference environment name), state)
               else getReferenceLoop E name environment subscripts subscriptValues canCreate
                      [0..<subscriptCount] v None None state))"

definition getVariableReference :: "exprRunner \<Rightarrow> VariableAstNode \<Rightarrow> InterpreterState \<Rightarrow> nat
    \<Rightarrow> string list option \<Rightarrow> bool \<Rightarrow> MReference option result" where
  "getVariableReference E node state subscriptCount subscriptValues canCreate =
     andThen (getReference E (variableName node) state subscriptCount
                (Some (variableSubscripts node)) subscriptValues canCreate)
       (\<lambda>(reference, state1).
          case reference of
            NullReference \<Rightarrow>
              Done (None, reportError ''Variable does not exist'' (variableRange node) state1)
          | UndefinedReference \<Rightarrow> Done (None, state1)
          | FoundReference r \<Rightarrow> Done (Some r, state1))"

text \<open>
  \<^verbatim>\<open>getReferenceValue\<close> reads the state and does not change it. The cast
  \<^verbatim>\<open>as MValue\<close> of what the environment holds is unchecked in the source.
\<close>

definition getReferenceValue :: "InterpreterState \<Rightarrow> MReference \<Rightarrow> MValue outcome" where
  "getReferenceValue state reference =
     (case reference of
        ArrayReference a key \<Rightarrow>
          Done (case mArrayGet state a key of None \<Rightarrow> Scalar (MStr []) | Some v \<Rightarrow> v)
      | EnvironmentReference environment name \<Rightarrow>
          (case environment of
             None \<Rightarrow> Throw TypeError
           | Some e \<Rightarrow>
               (case environmentGet state e name of
                  None \<Rightarrow> Done (Scalar (MStr []))
                | Some (Value v) \<Rightarrow> Done v
                | Some (StoredReference r) \<Rightarrow> Throw ReferenceCast)))"

definition setReferenceValue :: "MReference \<Rightarrow> MValue \<Rightarrow> InterpreterState \<Rightarrow> InterpreterState outcome" where
  "setReferenceValue reference v state =
     (case reference of
        ArrayReference a key \<Rightarrow> Done (mArraySet a key v state)
      | EnvironmentReference environment name \<Rightarrow>
          (case environment of
             None \<Rightarrow> Throw TypeError
           | Some e \<Rightarrow> Done (environmentSet e name (Value v) state)))"

definition getSpecialVariable :: "string \<Rightarrow> InterpreterState \<Rightarrow> MValue option outcome" where
  "getSpecialVariable name state =
     (case frameZero state of
        None \<Rightarrow> Throw TypeError
      | Some e \<Rightarrow>
          (case environmentGet state e name of
             None \<Rightarrow> Done None
           | Some (Value v) \<Rightarrow> Done (Some v)
           | Some (StoredReference r) \<Rightarrow> Throw ReferenceCast))"

definition setSpecialVariable :: "string \<Rightarrow> MValue \<Rightarrow> InterpreterState \<Rightarrow> InterpreterState outcome" where
  "setSpecialVariable name v state =
     (case frameZero state of
        None \<Rightarrow> Throw TypeError
      | Some e \<Rightarrow> Done (environmentSet e name (Value v) state))"

definition setVariable :: "exprRunner \<Rightarrow> VariableAstNode \<Rightarrow> MValue \<Rightarrow> InterpreterState \<Rightarrow> bool result" where
  "setVariable E node v state =
     andThen (getVariableReference E node state (length (variableSubscripts node)) None True)
       (\<lambda>(startReference, state1).
          case startReference of
            None \<Rightarrow> Done (False, state1)
          | Some reference \<Rightarrow>
              andThen (setReferenceValue reference v state1) (\<lambda>state2. Done (True, state2)))"

definition interpretVariable :: "exprRunner \<Rightarrow> VariableAstNode \<Rightarrow> InterpreterState \<Rightarrow> bool result" where
  "interpretVariable E node state =
     andThen (getVariableReference E node state (length (variableSubscripts node)) None False)
       (\<lambda>(reference, state1).
          case reference of
            None \<Rightarrow> Done (False, state1)
          | Some r \<Rightarrow>
              andThen (getReferenceValue state1 r) (\<lambda>v.
                Done (True, pushValue (mValueToScalar state1 v) state1)))"

definition getCallArgumentReference :: "exprRunner \<Rightarrow> CallArgumentAstNode \<Rightarrow> InterpreterState
    \<Rightarrow> MValue option result" where
  "getCallArgumentReference E node state =
     (case node of
        Reference r name \<Rightarrow>
          andThen (getReference E (identifierText name) state 0 None None False)
            (\<lambda>(reference, state1).
               case reference of
                 FoundReference ref \<Rightarrow>
                   andThen (getReferenceValue state1 ref) (\<lambda>v. Done (Some v, state1))
               | _ \<Rightarrow> Done (None, reportError ''Referenced variable does not exist'' r state1))
      | Argument e \<Rightarrow>
          whenOk (E e state) None
            (\<lambda>state1. popThen state1 (\<lambda>v state2. Done (Some (Scalar v), state2))))"


section \<open>The interpreter: calls\<close>

text \<open>
  Assigning to the \<^verbatim>\<open>length\<close> of a JavaScript array: a smaller length cuts
  the array, a larger one leaves holes. On the value stack (top first) the
  larger length is not modelled.
\<close>

definition setEnvironmentStackLength :: "nat \<Rightarrow> InterpreterState \<Rightarrow> InterpreterState" where
  "setEnvironmentStackLength n state =
     state\<lparr>environmentStack :=
       (if n \<le> length (environmentStack state) then take n (environmentStack state)
        else environmentStack state @ replicate (n - length (environmentStack state)) None)\<rparr>"

definition setValueStackLength :: "nat \<Rightarrow> InterpreterState \<Rightarrow> InterpreterState outcome" where
  "setValueStackLength n state =
     (if n \<le> length (valueStack state)
      then Done (state\<lparr>valueStack := drop (length (valueStack state) - n) (valueStack state)\<rparr>)
      else Throw StackUnderflow)"

fun interpretChildCommands :: "cmdRunner \<Rightarrow> CommandAstNode list \<Rightarrow> InterpreterState \<Rightarrow> CommandResult result" where
  "interpretChildCommands C [] state = Done (Continue, state)"
| "interpretChildCommands C (command # rest) state =
     andThen (C command state) (\<lambda>(result, state1).
       if result \<noteq> Continue then Done (result, state1)
       else interpretChildCommands C rest state1)"

text \<open>\<^verbatim>\<open>interpretTopLevel\<close> is the same loop over the commands from \<open>start\<close> on.\<close>

definition interpretTopLevel :: "cmdRunner \<Rightarrow> InterpreterState \<Rightarrow> nat \<Rightarrow> CommandResult result" where
  "interpretTopLevel C state start = interpretChildCommands C (drop start (children (ast state))) state"

text \<open>The loop of \<^verbatim>\<open>interpretExtern\<close> that collects the argument values.\<close>

fun externArguments :: "exprRunner \<Rightarrow> CallArgumentAstNode list \<Rightarrow> InterpreterState \<Rightarrow> MValue list option result" where
  "externArguments E [] state = Done (Some [], state)"
| "externArguments E (arg # rest) state =
     andThen (getCallArgumentReference E arg state) (\<lambda>(v, state1).
       case v of
         None \<Rightarrow> Done (None, state1)
       | Some x \<Rightarrow>
           andThen (externArguments E rest state1) (\<lambda>(vs, state2).
             Done (map_option (\<lambda>xs. x # xs) vs, state2)))"

definition interpretExtern :: "exprRunner \<Rightarrow> CallAstNode \<Rightarrow> InterpreterState \<Rightarrow> Extern \<Rightarrow> bool \<Rightarrow> bool result" where
  "interpretExtern E node state extern hasReturnValue =
     (case node of CallNode r name args \<Rightarrow>
        andThen (externArguments E args state) (\<lambda>(argValues, state1).
          case argValues of
            None \<Rightarrow> Done (False, state1)
          | Some vs \<Rightarrow>
              (let returnValue = extern vs
               in if hasReturnValue
                  then Done (True, pushValue (case returnValue of None \<Rightarrow> MStr [] | Some x \<Rightarrow> x) state1)
                  else Done (True, state1))))"

text \<open>
  The first loop of \<^verbatim>\<open>interpretCall\<close>, over the first
  \<^verbatim>\<open>Math.min(tag.params.length, node.args.length)\<close> parameters and arguments:
  \<open>zip\<close> stops with the shorter list.
\<close>

fun bindArguments :: "exprRunner \<Rightarrow> addr \<Rightarrow> (string \<times> CallArgumentAstNode) list \<Rightarrow> InterpreterState \<Rightarrow> bool result" where
  "bindArguments E environment [] state = Done (True, state)"
| "bindArguments E environment ((param, arg) # rest) state =
     andThen (getCallArgumentReference E arg state) (\<lambda>(v, state1).
       case v of
         None \<Rightarrow> Done (False, state1)
       | Some x \<Rightarrow> bindArguments E environment rest (environmentSet environment param (Value x) state1))"

text \<open>The second loop: the parameters from \<^verbatim>\<open>node.args.length\<close> on are bound to the empty string.\<close>

definition bindMissing :: "addr \<Rightarrow> string list \<Rightarrow> InterpreterState \<Rightarrow> InterpreterState" where
  "bindMissing environment names state =
     foldl (\<lambda>st param. environmentSet environment param (Value (Scalar (MStr []))) st) state names"

definition interpretCall :: "exprRunner \<Rightarrow> cmdRunner \<Rightarrow> CallAstNode \<Rightarrow> InterpreterState \<Rightarrow> bool \<Rightarrow> bool result" where
  "interpretCall E C node state hasReturnValue =
     (case node of CallNode r name args \<Rightarrow>
        (case map_of (tags (ast state)) (identifierText name) of
           None \<Rightarrow>
             (case map_of (externs state) (identifierText name) of
                Some extern \<Rightarrow> interpretExtern E node state extern hasReturnValue
              | None \<Rightarrow>
                  Done (False,
                    reportError (''Tag '' @ [CHR 0x22] @ identifierText name @ [CHR 0x22] @ '' not found'')
                      r state))
         | Some tag \<Rightarrow>
             (let callEnvironmentStackLength = length (environmentStack state) in
              andThen
                (case params tag of
                   None \<Rightarrow> Done (True, state)
                 | Some ps \<Rightarrow>
                     (let (environment, state1) = newEnvironment state;
                          state2 = state1\<lparr>environmentStack := environmentStack state1 @ [Some environment]\<rparr>
                      in andThen (bindArguments E environment (zip ps args) state2) (\<lambda>(ok, state3).
                           if \<not> ok then Done (False, state3)
                           else Done (True, bindMissing environment (drop (length args) ps) state3))))
                (\<lambda>(ok, state4).
                   if \<not> ok then Done (False, state4)
                   else
                     (let callValueStackLength = length (valueStack state4) in
                      andThen (interpretTopLevel C state4 (index tag)) (\<lambda>(result, state5).
                        andThen
                          (if hasReturnValue
                           then Done (if length (valueStack state5) = callValueStackLength
                                      then pushValue (MStr []) state5 else state5)
                           else setValueStackLength callValueStackLength state5)
                          (\<lambda>state6.
                             Done (True, setEnvironmentStackLength callEnvironmentStackLength state6))))))))"

section \<open>The interpreter: operators and builtins\<close>

definition numberScalar :: "bool \<Rightarrow> MScalar" where
  "numberScalar b = MNum (Finite (if b then 1 else 0))"

definition interpretUnaryOp :: "exprRunner \<Rightarrow> ExpressionAstNode \<Rightarrow> UnaryOp \<Rightarrow> InterpreterState \<Rightarrow> bool result" where
  "interpretUnaryOp E right op state =
     whenOk (E right state) False (\<lambda>state1.
       popThen state1 (\<lambda>right state2.
         Done (True,
           pushValue
             (case op of
                NotOp \<Rightarrow> numberScalar (nEq (mValueToNumber right) (Finite 0))
              | PlusOp \<Rightarrow> MNum (mValueToNumber right)
              | MinusOp \<Rightarrow> MNum (nNeg (mValueToNumber right)))
             state2)))"

text \<open>
  The \<^verbatim>\<open>switch\<close> of \<^verbatim>\<open>interpretBinaryOp\<close>: the value of an operator on the
  two scalars popped from the stack. Its \<^verbatim>\<open>default\<close> branch cannot be reached:
  every operator has a case.
\<close>

definition binaryOpValue :: "(rat \<Rightarrow> rat \<Rightarrow> number) \<Rightarrow> BinaryOp \<Rightarrow> MScalar \<Rightarrow> MScalar \<Rightarrow> MScalar" where
  "binaryOpValue fpow op left right =
     (case op of
        Or \<Rightarrow> numberScalar (\<not> nEq (mValueToNumber left) (Finite 0) \<or> \<not> nEq (mValueToNumber right) (Finite 0))
      | And \<Rightarrow> numberScalar (\<not> nEq (mValueToNumber left) (Finite 0) \<and> \<not> nEq (mValueToNumber right) (Finite 0))
      | Equals \<Rightarrow> numberScalar (strictEquals left right)
      | LessThan \<Rightarrow> numberScalar (jsLessThan left right)
      | GreaterThan \<Rightarrow> numberScalar (jsLessThan right left)
      | Add \<Rightarrow> MNum (nAdd (mValueToNumber left) (mValueToNumber right))
      | Subtract \<Rightarrow> MNum (nSub (mValueToNumber left) (mValueToNumber right))
      | Multiply \<Rightarrow> MNum (nMul (mValueToNumber left) (mValueToNumber right))
      | Power \<Rightarrow> MNum (nPow fpow (mValueToNumber left) (mValueToNumber right))
      | Divide \<Rightarrow> MNum (nDiv (mValueToNumber left) (mValueToNumber right))
      | IntegerDivide \<Rightarrow> MNum (nFloor (nDiv (mValueToNumber left) (mValueToNumber right)))
      | Modulo \<Rightarrow> MNum (nMod (mValueToNumber left) (mValueToNumber right))
      | Concatenate \<Rightarrow> MStr (mValueToString left @ mValueToString right))"

definition interpretBinaryOp :: "exprRunner \<Rightarrow> ExpressionAstNode \<Rightarrow> ExpressionAstNode \<Rightarrow> BinaryOp \<Rightarrow> bool
    \<Rightarrow> InterpreterState \<Rightarrow> bool result" where
  "interpretBinaryOp E left right op isNegated state =
     whenOk (E left state) False (\<lambda>state1.
       whenOk (E right state1) False (\<lambda>state2.
         popThen state2 (\<lambda>right state3.
           popThen state3 (\<lambda>left state4.
             (let v = binaryOpValue (fractionalPower state4) op left right;
                  v' = (if isNegated then numberScalar (nEq (mValueToNumber v) (Finite 0)) else v)
              in Done (True, pushValue v' state4))))))"

text \<open>
  The first part of \<^verbatim>\<open>interpretOrderBuiltin\<close>, which finds the direction:
  \<open>None\<close> when the function returns \<^verbatim>\<open>false\<close> there.
\<close>

definition orderDirection :: "exprRunner \<Rightarrow> ExpressionAstNode option \<Rightarrow> InterpreterState
    \<Rightarrow> number option result" where
  "orderDirection E direction state =
     (case direction of
        None \<Rightarrow> Done (Some (Finite 1), state)
      | Some d \<Rightarrow>
          whenOk (E d state) None (\<lambda>state1.
            popThen state1 (\<lambda>v state2.
              (let dir = mValueToNumber v
               in if \<not> nEq dir (Finite 1) \<and> \<not> nEq dir (Finite (- 1))
                  then Done (None,
                         reportError ''Expected 1 or -1 for order builtin's direction argument''
                           (expressionRange d) state2)
                  else Done (Some dir, state2)))))"

definition interpretOrderBuiltin :: "exprRunner \<Rightarrow> VariableAstNode \<Rightarrow> ExpressionAstNode option
    \<Rightarrow> InterpreterState \<Rightarrow> bool result" where
  "interpretOrderBuiltin E variable direction state =
     andThen (orderDirection E direction state)
       (\<lambda>(checked, state3).
          case checked of
            None \<Rightarrow> Done (False, state3)
          | Some dir \<Rightarrow>
              if variableSubscripts variable = [] then Done (True, pushValue (MStr []) state3)
              else
                (let lastSubscript = length (variableSubscripts variable) - 1 in
                 andThen (getVariableReference E variable state3 lastSubscript None False)
                   (\<lambda>(reference, state4).
                      case reference of
                        None \<Rightarrow> Done (False, state4)
                      | Some r \<Rightarrow>
                          andThen (getReferenceValue state4 r) (\<lambda>v.
                            whenOk (E (variableSubscripts variable ! lastSubscript) state4) False
                              (\<lambda>state5.
                                 popThen state5 (\<lambda>k state6.
                                   (let finalSubscriptKey = mValueToString k
                                    in case v of
                                         Scalar x \<Rightarrow> Done (True, pushValue (MStr []) state6)
                                       | ArrayObject a \<Rightarrow>
                                           Done (True,
                                             pushValue
                                               (MStr (if nLess dir (Finite 0)
                                                      then mArrayGetPreviousKey state6 a finalSubscriptKey
                                                      else mArrayGetNextKey state6 a finalSubscriptKey))
                                               state6))))))))"

definition interpretLengthBuiltin :: "exprRunner \<Rightarrow> ExpressionAstNode option \<Rightarrow> InterpreterState \<Rightarrow> bool result" where
  "interpretLengthBuiltin E arg state =
     whenOk (interpretOptional E arg state) False (\<lambda>state1.
       popThen state1 (\<lambda>v state2.
         Done (True, pushValue (MNum (Finite (of_nat (length (mValueToString v))))) state2)))"

text \<open>\<^verbatim>\<open>String.prototype.slice\<close>: an index is truncated, counts from the end when negative, and is clamped.\<close>

definition relativeIndex :: "nat \<Rightarrow> number \<Rightarrow> nat" where
  "relativeIndex len x =
     (case x of
        NaN \<Rightarrow> 0
      | NegInf \<Rightarrow> 0
      | PosInf \<Rightarrow> len
      | Finite q \<Rightarrow>
          (if truncRat q < 0 then nat (max (int len + truncRat q) 0)
           else min (nat (truncRat q)) len))"

definition jsSlice :: "string \<Rightarrow> number \<Rightarrow> number \<Rightarrow> string" where
  "jsSlice s start finish =
     (let from = relativeIndex (length s) start;
          to = relativeIndex (length s) finish
      in take (to - from) (drop from s))"

definition jsSliceFrom :: "string \<Rightarrow> number \<Rightarrow> string" where
  "jsSliceFrom s start = drop (relativeIndex (length s) start) s"

definition getExtractionStart :: "exprRunner \<Rightarrow> ExpressionAstNode option \<Rightarrow> InterpreterState \<Rightarrow> number option result" where
  "getExtractionStart E extractionStart state =
     (case extractionStart of
        Some e \<Rightarrow>
          whenOk (E e state) None (\<lambda>state1.
            popThen state1 (\<lambda>v state2. Done (Some (nSub (mValueToNumber v) (Finite 1)), state2)))
      | None \<Rightarrow> Done (Some (Finite 0), state))"

definition getExtractionEnd :: "exprRunner \<Rightarrow> ExpressionAstNode option \<Rightarrow> InterpreterState \<Rightarrow> number
    \<Rightarrow> number option result" where
  "getExtractionEnd E extractionEnd state start =
     (case extractionEnd of
        Some e \<Rightarrow>
          whenOk (E e state) None (\<lambda>state1.
            popThen state1 (\<lambda>v state2. Done (Some (mValueToNumber v), state2)))
      | None \<Rightarrow> Done (Some (nAdd start (Finite 1)), state))"

definition interpretExtractBuiltin :: "exprRunner \<Rightarrow> ExpressionAstNode option \<Rightarrow> ExpressionAstNode option
    \<Rightarrow> ExpressionAstNode option \<Rightarrow> InterpreterState \<Rightarrow> bool result" where
  "interpretExtractBuiltin E target extractionStart extractionEnd state =
     whenOk (interpretOptional E target state) False (\<lambda>state1.
       popThen state1 (\<lambda>v state2.
         andThen (getExtractionStart E extractionStart state2) (\<lambda>(start, state3).
           case start of
             None \<Rightarrow> Done (False, state3)
           | Some a \<Rightarrow>
               andThen (getExtractionEnd E extractionEnd state3 a) (\<lambda>(finish, state4).
                 case finish of
                   None \<Rightarrow> Done (False, state4)
                 | Some b \<Rightarrow> Done (True, pushValue (MStr (jsSlice (mValueToString v) a b)) state4)))))"

fun interpretSelectLoop :: "exprRunner \<Rightarrow> TextRange \<Rightarrow> SelectBuiltinArgAstNode list \<Rightarrow> InterpreterState \<Rightarrow> bool result" where
  "interpretSelectLoop E node [] state =
     Done (False, reportError ''All select conditions were false'' node state)"
| "interpretSelectLoop E node (SelectBuiltinArg r condition v # rest) state =
     whenOk (E condition state) False (\<lambda>state1.
       popThen state1 (\<lambda>c state2.
         if nEq (mValueToNumber c) (Finite 0) then interpretSelectLoop E node rest state2
         else whenOk (E v state2) False (\<lambda>state3. Done (True, state3))))"

definition interpretSelectBuiltin :: "exprRunner \<Rightarrow> TextRange \<Rightarrow> SelectBuiltinArgAstNode list \<Rightarrow> InterpreterState \<Rightarrow> bool result" where
  "interpretSelectBuiltin E node args state = interpretSelectLoop E node args state"

text \<open>\<^verbatim>\<open>s[i]\<close>: the code unit at an index, \<^verbatim>\<open>undefined\<close> out of range.\<close>

definition charAt :: "string \<Rightarrow> nat \<Rightarrow> char option" where
  "charAt s i = (if i < length s then Some (s ! i) else None)"

text \<open>
  The matching loop of \<^verbatim>\<open>interpretFindBuiltin\<close>, for a needle that is not
  empty, from the index \<open>i\<close> with \<open>matchProgress\<close> code units matched: the
  number it pushes.
\<close>

function findLoop :: "string \<Rightarrow> string \<Rightarrow> nat \<Rightarrow> nat \<Rightarrow> nat" where
  "findLoop haystack needle i matchProgress =
     (if i < length haystack then
        (if charAt haystack i \<noteq> charAt needle matchProgress then
           (if 0 < matchProgress then findLoop haystack needle i 0
            else findLoop haystack needle (i + 1) matchProgress)
         else if length needle \<le> matchProgress + 1 then (i + 1) + 1
         else findLoop haystack needle (i + 1) (matchProgress + 1))
      else 0)"
  by pat_completeness auto
termination
  by (relation "measure (\<lambda>(haystack, needle, i, matchProgress). 2 * (length haystack - i) + matchProgress)") auto

text \<open>\<^verbatim>\<open>Math.max\<close> of two numbers.\<close>

definition nMax :: "number \<Rightarrow> number \<Rightarrow> number" where
  "nMax a b = (if a = NaN \<or> b = NaN then NaN else if nLess a b then b else a)"

text \<open>
  The loop started at \<^verbatim>\<open>findStart\<close>, a number. At an index that is not an
  integer \<^verbatim>\<open>haystack[i]\<close> is \<^verbatim>\<open>undefined\<close> and never equals a code unit of the
  needle, so nothing is found; NaN and the infinities end the loop at once.
\<close>

definition findFrom :: "string \<Rightarrow> string \<Rightarrow> number \<Rightarrow> nat" where
  "findFrom haystack needle findStart =
     (case findStart of
        Finite q \<Rightarrow> (if isInteger q \<and> 0 \<le> q then findLoop haystack needle (nat \<lfloor>q\<rfloor>) 0 else 0)
      | _ \<Rightarrow> 0)"

definition interpretFindBuiltin :: "exprRunner \<Rightarrow> ExpressionAstNode option \<Rightarrow> ExpressionAstNode option
    \<Rightarrow> ExpressionAstNode option \<Rightarrow> InterpreterState \<Rightarrow> bool result" where
  "interpretFindBuiltin E haystackNode needleNode findStartNode state =
     whenOk (interpretOptional E haystackNode state) False (\<lambda>state1.
       popThen state1 (\<lambda>h state2.
         (let haystack = mValueToString h in
          whenOk (interpretOptional E needleNode state2) False (\<lambda>state3.
            popThen state3 (\<lambda>n state4.
              (let needle = mValueToString n in
               andThen
                 (case findStartNode of
                    None \<Rightarrow> Done (Some (Finite 0), state4)
                  | Some e \<Rightarrow>
                      whenOk (interpretOptional E haystackNode state4) None (\<lambda>state5.
                        popThen state5 (\<lambda>f state6.
                          Done (Some (nMax (nSub (mValueToNumber f) (Finite 1)) (Finite 0)), state6))))
                 (\<lambda>(start, state7).
                    case start of
                      None \<Rightarrow> Done (False, state7)
                    | Some findStart \<Rightarrow>
                        if needle = [] then Done (True, pushValue (MNum (Finite 1)) state7)
                        else Done (True,
                               pushValue (MNum (Finite (of_nat (findFrom haystack needle findStart))))
                                 state7))))))))"

text \<open>\<^verbatim>\<open>Math.random\<close> takes the next of the random values of the state.\<close>

definition interpretRandomBuiltin :: "exprRunner \<Rightarrow> ExpressionAstNode option \<Rightarrow> InterpreterState \<Rightarrow> bool result" where
  "interpretRandomBuiltin E maxNode state =
     whenOk (interpretOptional E maxNode state) False (\<lambda>state1.
       popThen state1 (\<lambda>m state2.
         (let maxValue = nFloor (mValueToNumber m);
              random = Finite (randomValues state2 (randomCount state2));
              v = nFloor (nMul random (nAdd maxValue (Finite 1)))
          in Done (True, pushValue (MNum v) (state2\<lparr>randomCount := Suc (randomCount state2)\<rparr>)))))"

definition interpretAsciiBuiltin :: "exprRunner \<Rightarrow> ExpressionAstNode option \<Rightarrow> InterpreterState \<Rightarrow> bool result" where
  "interpretAsciiBuiltin E valueNode state =
     whenOk (interpretOptional E valueNode state) False (\<lambda>state1.
       popThen state1 (\<lambda>v state2.
         (let string = mValueToString v
          in Done (True,
               pushValue
                 (MNum (case string of [] \<Rightarrow> Finite (- 1) | c # rest \<Rightarrow> Finite (of_nat (of_char c))))
                 state2))))"

text \<open>\<^verbatim>\<open>String.fromCharCode\<close> takes its argument modulo \<open>2 ^ 16\<close> after truncation.\<close>

definition toUint16 :: "number \<Rightarrow> nat" where
  "toUint16 x = (case x of Finite q \<Rightarrow> nat (truncRat q mod 65536) | _ \<Rightarrow> 0)"

definition interpretCharBuiltin :: "exprRunner \<Rightarrow> ExpressionAstNode option \<Rightarrow> InterpreterState \<Rightarrow> bool result" where
  "interpretCharBuiltin E valueNode state =
     whenOk (interpretOptional E valueNode state) False (\<lambda>state1.
       popThen state1 (\<lambda>v state2.
         (let code = toUint16 (mValueToNumber v)
          in if code < 256 then Done (True, pushValue (MStr [char_of code]) state2)
             else Throw OutsideModel)))"

definition interpretExpression :: "exprRunner \<Rightarrow> cmdRunner \<Rightarrow> ExpressionAstNode \<Rightarrow> InterpreterState \<Rightarrow> bool result" where
  "interpretExpression E C node state =
     (case node of
        Variable v \<Rightarrow> interpretVariable E v state
      | NumberLiteral r n \<Rightarrow> Done (True, pushValue (MNum n) state)
      | StringLiteral r s \<Rightarrow> Done (True, pushValue (MStr s) state)
      | Call c \<Rightarrow> interpretCall E C c state True
      | UnaryOp r right op \<Rightarrow> interpretUnaryOp E right op state
      | BinaryOp r left right op isNegated \<Rightarrow> interpretBinaryOp E left right op isNegated state
      | OrderBuiltin r variable direction \<Rightarrow> interpretOrderBuiltin E variable direction state
      | LengthBuiltin r arg \<Rightarrow> interpretLengthBuiltin E arg state
      | ExtractBuiltin r target extractionStart extractionEnd \<Rightarrow>
          interpretExtractBuiltin E target extractionStart extractionEnd state
      | SelectBuiltin r args \<Rightarrow> interpretSelectBuiltin E r args state
      | FindBuiltin r haystack needle findStart \<Rightarrow> interpretFindBuiltin E haystack needle findStart state
      | RandomBuiltin r m \<Rightarrow> interpretRandomBuiltin E m state
      | AsciiBuiltin r v \<Rightarrow> interpretAsciiBuiltin E v state
      | CharBuiltin r v \<Rightarrow> interpretCharBuiltin E v state)"


section \<open>The interpreter: commands\<close>

text \<open>
  \<^verbatim>\<open>" ".repeat(count)\<close> throws a RangeError when the count is infinite. (An
  engine also throws it when the string would exceed its longest string; that
  limit is not modelled.)
\<close>

fun interpretWriteArguments :: "exprRunner \<Rightarrow> WriteArgumentAstNode list \<Rightarrow> InterpreterState \<Rightarrow> CommandResult result" where
  "interpretWriteArguments E [] state = Done (Continue, state)"
| "interpretWriteArguments E (arg # rest) state =
     (case arg of
        HashFormatter \<Rightarrow>
          interpretWriteArguments E rest (state\<lparr>outputBuffer := [], outputColumn := 0\<rparr>)
      | ExclamationPointFormatter \<Rightarrow>
          interpretWriteArguments E rest
            (state\<lparr>outputBuffer := outputBuffer state @ [[CHR 0x0A]], outputColumn := 0\<rparr>)
      | QuestionMarkFormatter e \<Rightarrow>
          whenOk (E e state) Halt (\<lambda>state1.
            popThen state1 (\<lambda>v state2.
              (let minColumn = nFloor (mValueToNumber v)
               in if nLess (Finite (of_nat (outputColumn state2))) minColumn then
                    (case minColumn of
                       Finite q \<Rightarrow>
                         interpretWriteArguments E rest
                           (state2\<lparr>outputBuffer := outputBuffer state2 @
                                      [replicate (nat \<lfloor>q\<rfloor> - outputColumn state2) CHR '' ''],
                                    outputColumn := nat \<lfloor>q\<rfloor>\<rparr>)
                     | _ \<Rightarrow> Throw RangeError)
                  else interpretWriteArguments E rest state2)))
      | WriteExpression e \<Rightarrow>
          whenOk (E e state) Halt (\<lambda>state1.
            popThen state1 (\<lambda>v state2.
              (let text = mValueToString v
               in interpretWriteArguments E rest
                    (state2\<lparr>outputBuffer := outputBuffer state2 @ [text],
                             outputColumn := outputColumn state2 + length text\<rparr>)))))"

definition interpretWrite :: "exprRunner \<Rightarrow> WriteArgumentAstNode list \<Rightarrow> InterpreterState \<Rightarrow> CommandResult result" where
  "interpretWrite E args state = interpretWriteArguments E args state"

definition interpretQuit :: "exprRunner \<Rightarrow> ExpressionAstNode option \<Rightarrow> InterpreterState \<Rightarrow> CommandResult result" where
  "interpretQuit E returnValue state =
     (case returnValue of
        None \<Rightarrow> Done (Quit, state)
      | Some e \<Rightarrow> whenOk (E e state) Halt (\<lambda>state1. Done (Quit, state1)))"

text \<open>
  The loop of \<^verbatim>\<open>interpretDoBlock\<close>: \<open>Quit\<close> breaks out of it, \<open>Halt\<close> returns
  from the function at once. The result is \<open>Halt\<close> in the second case and
  \<open>Continue\<close> otherwise.
\<close>

fun doBlockLoop :: "cmdRunner \<Rightarrow> CommandAstNode list \<Rightarrow> InterpreterState \<Rightarrow> CommandResult result" where
  "doBlockLoop C [] state = Done (Continue, state)"
| "doBlockLoop C (command # rest) state =
     andThen (C command state) (\<lambda>(blockResult, state1).
       if blockResult = Quit then Done (Continue, state1)
       else if blockResult = Halt then Done (Halt, state1)
       else doBlockLoop C rest state1)"

definition interpretDoBlock :: "cmdRunner \<Rightarrow> CommandAstNode list \<Rightarrow> InterpreterState \<Rightarrow> CommandResult result" where
  "interpretDoBlock C nodeChildren state =
     (let startEnvironmentStackLength = length (environmentStack state) in
      andThen (doBlockLoop C nodeChildren state) (\<lambda>(result, state1).
        if result = Halt then Done (Halt, state1)
        else Done (Continue, setEnvironmentStackLength startEnvironmentStackLength state1)))"

text \<open>
  The loop of \<^verbatim>\<open>interpretIf\<close> over the conditions: \<open>Some result\<close> when it
  returns from the function, \<open>None\<close> when every condition is true.
\<close>

fun interpretIfConditions :: "exprRunner \<Rightarrow> ExpressionAstNode list \<Rightarrow> InterpreterState \<Rightarrow> CommandResult option result" where
  "interpretIfConditions E [] state = Done (None, state)"
| "interpretIfConditions E (condition # rest) state =
     whenOk (E condition state) (Some Halt) (\<lambda>state1.
       popThen state1 (\<lambda>v state2.
         if nEq (mValueToNumber v) (Finite 0)
         then andThen (setSpecialVariable ''$TEST'' (Scalar (MNum (Finite 0))) state2)
                (\<lambda>state3. Done (Some Continue, state3))
         else interpretIfConditions E rest state2))"

definition interpretIf :: "exprRunner \<Rightarrow> cmdRunner \<Rightarrow> ExpressionAstNode list \<Rightarrow> CommandAstNode list
    \<Rightarrow> InterpreterState \<Rightarrow> CommandResult result" where
  "interpretIf E C conditions nodeChildren state =
     andThen (interpretIfConditions E conditions state) (\<lambda>(returned, state1).
       case returned of
         Some result \<Rightarrow> Done (result, state1)
       | None \<Rightarrow>
           andThen (setSpecialVariable ''$TEST'' (Scalar (MNum (Finite 1))) state1)
             (\<lambda>state2. interpretChildCommands C nodeChildren state2))"

text \<open>
  The truth of a value in a JavaScript condition: the empty string, zero and
  NaN are false, an object is true.
\<close>

definition truthy :: "MValue \<Rightarrow> bool" where
  "truthy v =
     (case v of
        Scalar (MStr s) \<Rightarrow> s \<noteq> []
      | Scalar (MNum n) \<Rightarrow> n \<noteq> NaN \<and> n \<noteq> Finite 0
      | ArrayObject a \<Rightarrow> True)"

definition interpretElse :: "cmdRunner \<Rightarrow> CommandAstNode list \<Rightarrow> InterpreterState \<Rightarrow> CommandResult result" where
  "interpretElse C nodeChildren state =
     andThen (getSpecialVariable ''$TEST'' state) (\<lambda>test.
       case test of
         None \<Rightarrow> interpretChildCommands C nodeChildren state
       | Some t \<Rightarrow>
           if truthy t \<and> \<not> nEq (mValueToNumber (mValueToScalar state t)) (Finite 0)
           then Done (Continue, state)
           else interpretChildCommands C nodeChildren state)"

text \<open>
  The loops \<^verbatim>\<open>while (true)\<close> of the \<^verbatim>\<open>for\<close> command run as long as the program
  makes them; the first argument bounds the number of rounds in the model.
\<close>

fun interpretForWithNoArg :: "nat \<Rightarrow> cmdRunner \<Rightarrow> CommandAstNode list \<Rightarrow> InterpreterState \<Rightarrow> CommandResult result" where
  "interpretForWithNoArg 0 C nodeChildren state = OutOfFuel"
| "interpretForWithNoArg (Suc n) C nodeChildren state =
     andThen (interpretChildCommands C nodeChildren state) (\<lambda>(result, state1).
       case result of
         Halt \<Rightarrow> Done (Halt, state1)
       | Quit \<Rightarrow> Done (Continue, state1)
       | Continue \<Rightarrow> interpretForWithNoArg n C nodeChildren state1)"

definition interpretForWithStart :: "exprRunner \<Rightarrow> cmdRunner \<Rightarrow> VariableAstNode \<Rightarrow> ExpressionAstNode
    \<Rightarrow> CommandAstNode list \<Rightarrow> InterpreterState \<Rightarrow> CommandResult result" where
  "interpretForWithStart E C variable start nodeChildren state =
     whenOk (E start state) Halt (\<lambda>state1.
       popThen state1 (\<lambda>startValue state2.
         whenOk (setVariable E variable (Scalar startValue) state2) Halt (\<lambda>state3.
           andThen (interpretChildCommands C nodeChildren state3) (\<lambda>(result, state4).
             if result = Halt then Done (Halt, state4) else Done (Continue, state4)))))"

text \<open>The step at the end of a round: the variable is read, the increment added, the sum stored.\<close>

definition forAdvance :: "exprRunner \<Rightarrow> VariableAstNode \<Rightarrow> number \<Rightarrow> InterpreterState \<Rightarrow> bool result" where
  "forAdvance E variable incrementValue state =
     whenOk (interpretVariable E variable state) False (\<lambda>state1.
       popThen state1 (\<lambda>v state2.
         (let nextVariableValue = nAdd (mValueToNumber v) incrementValue
          in setVariable E variable (Scalar (MNum nextVariableValue)) state2)))"

fun forIncrementLoop :: "nat \<Rightarrow> exprRunner \<Rightarrow> cmdRunner \<Rightarrow> VariableAstNode \<Rightarrow> number
    \<Rightarrow> CommandAstNode list \<Rightarrow> InterpreterState \<Rightarrow> CommandResult result" where
  "forIncrementLoop 0 E C variable incrementValue nodeChildren state = OutOfFuel"
| "forIncrementLoop (Suc n) E C variable incrementValue nodeChildren state =
     andThen (interpretChildCommands C nodeChildren state) (\<lambda>(result, state1).
       case result of
         Halt \<Rightarrow> Done (Halt, state1)
       | Quit \<Rightarrow> Done (Continue, state1)
       | Continue \<Rightarrow>
           whenOk (forAdvance E variable incrementValue state1) Halt (\<lambda>state2.
             forIncrementLoop n E C variable incrementValue nodeChildren state2))"

definition interpretForWithStartIncrement :: "nat \<Rightarrow> exprRunner \<Rightarrow> cmdRunner \<Rightarrow> VariableAstNode
    \<Rightarrow> ExpressionAstNode \<Rightarrow> ExpressionAstNode \<Rightarrow> CommandAstNode list \<Rightarrow> InterpreterState
    \<Rightarrow> CommandResult result" where
  "interpretForWithStartIncrement n E C variable start increment nodeChildren state =
     whenOk (E start state) Halt (\<lambda>state1.
       whenOk (E increment state1) Halt (\<lambda>state2.
         popThen state2 (\<lambda>i state3.
           popThen state3 (\<lambda>s state4.
             (let incrementValue = mValueToNumber i;
                  startValue = mValueToNumber s
              in whenOk (setVariable E variable (Scalar (MNum startValue)) state4) Halt (\<lambda>state5.
                   forIncrementLoop n E C variable incrementValue nodeChildren state5))))))"

fun forIncrementEndLoop :: "nat \<Rightarrow> exprRunner \<Rightarrow> cmdRunner \<Rightarrow> VariableAstNode \<Rightarrow> number \<Rightarrow> number
    \<Rightarrow> CommandAstNode list \<Rightarrow> InterpreterState \<Rightarrow> CommandResult result" where
  "forIncrementEndLoop 0 E C variable incrementValue endValue nodeChildren state = OutOfFuel"
| "forIncrementEndLoop (Suc n) E C variable incrementValue endValue nodeChildren state =
     whenOk (interpretVariable E variable state) Halt (\<lambda>state1.
       popThen state1 (\<lambda>v state2.
         (let variableValue = mValueToNumber v
          in if (nLess incrementValue (Finite 0) \<and> nLess variableValue endValue)
                \<or> (\<not> nLess incrementValue (Finite 0) \<and> incrementValue \<noteq> NaN
                    \<and> nLess endValue variableValue)
             then Done (Continue, state2)
             else
               andThen (interpretChildCommands C nodeChildren state2) (\<lambda>(result, state3).
                 case result of
                   Halt \<Rightarrow> Done (Halt, state3)
                 | Quit \<Rightarrow> Done (Continue, state3)
                 | Continue \<Rightarrow>
                     whenOk (forAdvance E variable incrementValue state3) Halt (\<lambda>state4.
                       forIncrementEndLoop n E C variable incrementValue endValue nodeChildren state4)))))"

definition interpretForWithStartIncrementEnd :: "nat \<Rightarrow> exprRunner \<Rightarrow> cmdRunner \<Rightarrow> VariableAstNode
    \<Rightarrow> ExpressionAstNode \<Rightarrow> ExpressionAstNode \<Rightarrow> ExpressionAstNode \<Rightarrow> CommandAstNode list
    \<Rightarrow> InterpreterState \<Rightarrow> CommandResult result" where
  "interpretForWithStartIncrementEnd n E C variable start increment finish nodeChildren state =
     whenOk (E start state) Halt (\<lambda>state1.
       whenOk (E increment state1) Halt (\<lambda>state2.
         whenOk (E finish state2) Halt (\<lambda>state3.
           popThen state3 (\<lambda>e state4.
             popThen state4 (\<lambda>i state5.
               popThen state5 (\<lambda>s state6.
                 (let endValue = mValueToNumber e;
                      incrementValue = mValueToNumber i;
                      startValue = mValueToNumber s
                  in whenOk (setVariable E variable (Scalar (MNum startValue)) state6) Halt (\<lambda>state7.
                       forIncrementEndLoop n E C variable incrementValue endValue nodeChildren
                         state7))))))))"

text \<open>The loop of \<^verbatim>\<open>interpretFor\<close> over the parameters of the argument.\<close>

fun interpretForParameters :: "nat \<Rightarrow> exprRunner \<Rightarrow> cmdRunner \<Rightarrow> TextRange \<Rightarrow> VariableAstNode
    \<Rightarrow> CommandAstNode list \<Rightarrow> ForParameterAstNode list \<Rightarrow> InterpreterState \<Rightarrow> CommandResult result" where
  "interpretForParameters n E C node variable nodeChildren [] state = Done (Continue, state)"
| "interpretForParameters n E C node variable nodeChildren (ForParameter r expressions # rest) state =
     andThen
       (case expressions of
          [start] \<Rightarrow> interpretForWithStart E C variable start nodeChildren state
        | [start, increment] \<Rightarrow>
            interpretForWithStartIncrement n E C variable start increment nodeChildren state
        | [start, increment, finish] \<Rightarrow>
            interpretForWithStartIncrementEnd n E C variable start increment finish nodeChildren state
        | _ \<Rightarrow>
            Done (Halt,
              reportError (''Invalid number of expressions in for parameter: ''
                           @ natToString (length expressions)) node state))
       (\<lambda>(result, state1).
          if result \<noteq> Continue \<or> length expressions \<notin> {1, 2, 3} then Done (result, state1)
          else interpretForParameters n E C node variable nodeChildren rest state1)"

definition interpretFor :: "nat \<Rightarrow> exprRunner \<Rightarrow> cmdRunner \<Rightarrow> TextRange \<Rightarrow> ForArgumentAstNode option
    \<Rightarrow> CommandAstNode list \<Rightarrow> InterpreterState \<Rightarrow> CommandResult result" where
  "interpretFor n E C node arg nodeChildren state =
     (case arg of
        None \<Rightarrow> interpretForWithNoArg n C nodeChildren state
      | Some (ForArgument r variable parameters) \<Rightarrow>
          interpretForParameters n E C node variable nodeChildren parameters state)"

definition replaceStringRange :: "string \<Rightarrow> string \<Rightarrow> number \<Rightarrow> number \<Rightarrow> string" where
  "replaceStringRange destination source start finish =
     (let before = jsSlice destination (Finite 0) start;
          after = jsSliceFrom destination finish
      in before @ source @ after)"

definition interpretSetExtract :: "exprRunner \<Rightarrow> ExpressionAstNode option \<Rightarrow> ExpressionAstNode option
    \<Rightarrow> ExpressionAstNode option \<Rightarrow> InterpreterState \<Rightarrow> string \<Rightarrow> CommandResult result" where
  "interpretSetExtract E target extractionStart extractionEnd state v =
     (case target of
        None \<Rightarrow> Throw TypeError
      | Some (Variable variable) \<Rightarrow>
          andThen (getExtractionStart E extractionStart state) (\<lambda>(start, state1).
            case start of
              None \<Rightarrow> Done (Halt, state1)
            | Some a \<Rightarrow>
                andThen (getExtractionEnd E extractionEnd state1 a) (\<lambda>(finish, state2).
                  case finish of
                    None \<Rightarrow> Done (Halt, state2)
                  | Some b \<Rightarrow>
                      andThen (getVariableReference E variable state2
                                 (length (variableSubscripts variable)) None True)
                        (\<lambda>(reference, state3).
                           case reference of
                             None \<Rightarrow> Done (Halt, state3)
                           | Some r \<Rightarrow>
                               andThen (getReferenceValue state3 r) (\<lambda>old.
                                 (let destination = mValueToString (mValueToScalar state3 old);
                                      newValue = replaceStringRange destination v a b
                                  in andThen (setReferenceValue r (Scalar (MStr newValue)) state3)
                                       (\<lambda>state4. Done (Continue, state4)))))))
      | Some other \<Rightarrow> Done (Continue, state))"

definition interpretSetArgument :: "exprRunner \<Rightarrow> SetArgAstNode \<Rightarrow> InterpreterState \<Rightarrow> CommandResult result" where
  "interpretSetArgument E node state =
     (case node of SetArgument r target valueNode \<Rightarrow>
        whenOk (E valueNode state) Halt (\<lambda>state1.
          popThen state1 (\<lambda>v state2.
            case target of
              TargetExtract re t extractionStart extractionEnd \<Rightarrow>
                interpretSetExtract E t extractionStart extractionEnd state2 (mValueToString v)
            | TargetVariable variable \<Rightarrow>
                whenOk (setVariable E variable (Scalar v) state2) Halt
                  (\<lambda>state3. Done (Continue, state3)))))"

fun interpretSet :: "exprRunner \<Rightarrow> SetArgAstNode list \<Rightarrow> InterpreterState \<Rightarrow> CommandResult result" where
  "interpretSet E [] state = Done (Continue, state)"
| "interpretSet E (arg # rest) state =
     andThen (interpretSetArgument E arg state) (\<lambda>(result, state1).
       if result \<noteq> Continue then Done (result, state1) else interpretSet E rest state1)"

definition interpretNew :: "IdentifierAstNode list \<Rightarrow> InterpreterState \<Rightarrow> CommandResult result" where
  "interpretNew args state =
     (if args = [] then Done (Continue, state)
      else
        (let (environment, state1) = newEnvironment state;
             state2 = foldl (\<lambda>st arg. environmentSet environment (identifierText arg)
                                         (Value (Scalar (MStr []))) st) state1 args
         in Done (Continue,
              state2\<lparr>environmentStack := environmentStack state2 @ [Some environment]\<rparr>)))"

fun interpretKillArguments :: "exprRunner \<Rightarrow> VariableAstNode list \<Rightarrow> InterpreterState \<Rightarrow> CommandResult result" where
  "interpretKillArguments E [] state = Done (Continue, state)"
| "interpretKillArguments E (arg # rest) state =
     andThen (getReference E (variableName arg) state (length (variableSubscripts arg))
                (Some (variableSubscripts arg)) None False)
       (\<lambda>(reference, state1).
          case reference of
            NullReference \<Rightarrow> interpretKillArguments E rest state1
          | UndefinedReference \<Rightarrow> Done (Halt, state1)
          | FoundReference (ArrayReference a key) \<Rightarrow>
              interpretKillArguments E rest (mArrayKill a key state1)
          | FoundReference (EnvironmentReference environment name) \<Rightarrow>
              (case environment of
                 None \<Rightarrow> Throw TypeError
               | Some e \<Rightarrow> interpretKillArguments E rest (environmentDelete e name state1)))"

definition interpretKill :: "exprRunner \<Rightarrow> VariableAstNode list \<Rightarrow> InterpreterState \<Rightarrow> CommandResult result" where
  "interpretKill E args state =
     (if args = [] then
        (let (environment, state1) = newEnvironment state
         in Done (Continue, state1\<lparr>environmentStack := [Some environment]\<rparr>))
      else interpretKillArguments E args state)"

fun interpretSubscripts :: "exprRunner \<Rightarrow> ExpressionAstNode list \<Rightarrow> InterpreterState \<Rightarrow> string list option result" where
  "interpretSubscripts E [] state = Done (Some [], state)"
| "interpretSubscripts E (subscript # rest) state =
     whenOk (E subscript state) None (\<lambda>state1.
       popThen state1 (\<lambda>v state2.
         andThen (interpretSubscripts E rest state2) (\<lambda>(vs, state3).
           Done (map_option (\<lambda>xs. mValueToString v # xs) vs, state3))))"

text \<open>
  The check of \<^verbatim>\<open>interpretMerge\<close> for overlapping variables: the same name,
  and no difference between the subscript values at the positions that both
  lists have.
\<close>

definition doVariablesOverlap :: "string \<Rightarrow> string \<Rightarrow> string list \<Rightarrow> string list \<Rightarrow> bool" where
  "doVariablesOverlap leftName rightName leftSubscriptValues rightSubscriptValues =
     (leftName = rightName \<and>
      list_all (\<lambda>(l, r). l = r) (zip leftSubscriptValues rightSubscriptValues))"

text \<open>
  The last loop of \<^verbatim>\<open>interpretMerge\<close>, over the children of the source as they
  are when the loop starts: each is copied and set in the destination.
\<close>

fun mergeChildren :: "nat \<Rightarrow> addr \<Rightarrow> (string \<times> MValue) list \<Rightarrow> InterpreterState \<Rightarrow> InterpreterState outcome" where
  "mergeChildren n destination [] state = Done state"
| "mergeChildren n destination ((key, v) # rest) state =
     andThen (mValueCopy n v state) (\<lambda>(copy, state1).
       mergeChildren n destination rest (mArraySet destination key copy state1))"

definition interpretMerge :: "nat \<Rightarrow> exprRunner \<Rightarrow> TextRange \<Rightarrow> VariableAstNode \<Rightarrow> VariableAstNode
    \<Rightarrow> InterpreterState \<Rightarrow> CommandResult result" where
  "interpretMerge n E node left right state =
     andThen (interpretSubscripts E (variableSubscripts left) state) (\<lambda>(lefts, state1).
       case lefts of
         None \<Rightarrow> Done (Halt, state1)
       | Some leftSubscriptValues \<Rightarrow>
           andThen (interpretSubscripts E (variableSubscripts right) state1) (\<lambda>(rights, state2).
             case rights of
               None \<Rightarrow> Done (Halt, state2)
             | Some rightSubscriptValues \<Rightarrow>
                 if doVariablesOverlap (variableName left) (variableName right)
                      leftSubscriptValues rightSubscriptValues
                 then Done (Halt, reportError ''Cannot merge overlapping variables'' node state2)
                 else
                   andThen (getVariableReference E left state2 (length leftSubscriptValues)
                              (Some leftSubscriptValues) True)
                     (\<lambda>(destinationReference, state3).
                        case destinationReference of
                          None \<Rightarrow> Done (Halt, state3)
                        | Some dref \<Rightarrow>
                            andThen (getReferenceValue state3 dref) (\<lambda>found.
                              andThen
                                (case found of
                                   ArrayObject a \<Rightarrow> Done (a, state3)
                                 | Scalar x \<Rightarrow>
                                     (let (a, state4) = newArray x state3
                                      in andThen (setReferenceValue dref (ArrayObject a) state4)
                                           (\<lambda>state5. Done (a, state5))))
                                (\<lambda>(destination, state6).
                                   andThen (getVariableReference E right state6
                                              (length rightSubscriptValues)
                                              (Some rightSubscriptValues) False)
                                     (\<lambda>(sourceReference, state7).
                                        case sourceReference of
                                          None \<Rightarrow> Done (Halt, state7)
                                        | Some sref \<Rightarrow>
                                            andThen (getReferenceValue state7 sref) (\<lambda>source.
                                              case source of
                                                Scalar x \<Rightarrow> Done (Continue, state7)
                                              | ArrayObject b \<Rightarrow>
                                                  andThen (mergeChildren n destination
                                                             (arrayChildren (arrayAt state7 b)) state7)
                                                    (\<lambda>state8. Done (Continue, state8)))))))))"

definition interpretCommand :: "nat \<Rightarrow> exprRunner \<Rightarrow> cmdRunner \<Rightarrow> CommandAstNode \<Rightarrow> InterpreterState
    \<Rightarrow> CommandResult result" where
  "interpretCommand n E C node state =
     (case node of Command r condition body \<Rightarrow>
        andThen
          (case condition of
             None \<Rightarrow> Done (None, state)
           | Some c \<Rightarrow>
               whenOk (E c state) (Some Halt) (\<lambda>state1.
                 popThen state1 (\<lambda>v state2.
                   if nEq (mValueToNumber v) (Finite 0) then Done (Some Continue, state2)
                   else Done (None, state2))))
          (\<lambda>(returned, state3).
             case returned of
               Some result \<Rightarrow> Done (result, state3)
             | None \<Rightarrow>
                 (case body of
                    CommentNode rb \<Rightarrow> Done (Continue, state3)
                  | WriteNode rb args \<Rightarrow> interpretWrite E args state3
                  | QuitNode rb returnValue \<Rightarrow> interpretQuit E returnValue state3
                  | DoBlockNode rb nodeChildren \<Rightarrow> interpretDoBlock C nodeChildren state3
                  | IfNode rb conditions nodeChildren \<Rightarrow> interpretIf E C conditions nodeChildren state3
                  | ElseNode rb nodeChildren \<Rightarrow> interpretElse C nodeChildren state3
                  | ForNode rb arg nodeChildren \<Rightarrow> interpretFor n E C rb arg nodeChildren state3
                  | SetNode rb args \<Rightarrow> interpretSet E args state3
                  | NewNode rb args \<Rightarrow> interpretNew args state3
                  | KillNode rb args \<Rightarrow> interpretKill E args state3
                  | MergeNode rb left right \<Rightarrow> interpretMerge n E rb left right state3
                  | HaltNode rb \<Rightarrow> Done (Halt, state3)
                  | CallCommandNode c \<Rightarrow>
                      andThen (interpretCall E C c state3 False) (\<lambda>(ok, state4).
                        Done ((if ok then Continue else Halt), state4)))))"

section \<open>The interpreter with fuel\<close>

text \<open>
  \<open>interpE n\<close> and \<open>interpC n\<close> are \<^verbatim>\<open>interpretExpression\<close> and
  \<^verbatim>\<open>interpretCommand\<close> with the fuel \<open>n\<close>: every nested call has one unit less,
  and a loop makes at most as many rounds as its fuel. \<open>OutOfFuel\<close> says that
  the fuel did not suffice, nothing about the program.
\<close>

fun interpE :: "nat \<Rightarrow> ExpressionAstNode \<Rightarrow> InterpreterState \<Rightarrow> bool result"
  and interpC :: "nat \<Rightarrow> CommandAstNode \<Rightarrow> InterpreterState \<Rightarrow> CommandResult result" where
  "interpE 0 node state = OutOfFuel"
| "interpE (Suc n) node state = interpretExpression (interpE n) (interpC n) node state"
| "interpC 0 node state = OutOfFuel"
| "interpC (Suc n) node state = interpretCommand n (interpE n) (interpC n) node state"

definition makeInterpreterState :: "TopLevelAstNode \<Rightarrow> (string \<times> Extern) list \<Rightarrow> (nat \<Rightarrow> rat)
    \<Rightarrow> (rat \<Rightarrow> rat \<Rightarrow> number) \<Rightarrow> InterpreterState" where
  "makeInterpreterState tree externFunctions randoms fpow =
     \<lparr>ast = tree, externs = externFunctions, valueStack = [], environmentStack = [Some 0],
      environments = [[]], arrays = [], outputColumn = 0, outputBuffer = [], errors = [],
      randomValues = randoms, randomCount = 0, fractionalPower = fpow\<rparr>"

text \<open>
  \<^verbatim>\<open>interpretTag\<close>: its result is the returned value, or \<open>None\<close> for
  \<^verbatim>\<open>undefined\<close>. A reference among the arguments is not modelled.
\<close>

definition interpretTag :: "nat \<Rightarrow> Tag option \<Rightarrow> MValue list \<Rightarrow> InterpreterState \<Rightarrow> MValue option result" where
  "interpretTag n tag args state =
     (let callEnvironmentStackLength = length (environmentStack state);
          state3 =
            (case (case tag of None \<Rightarrow> None | Some t \<Rightarrow> params t) of
               None \<Rightarrow> state
             | Some ps \<Rightarrow>
                 (let (environment, state1) = newEnvironment state;
                      state2 = state1\<lparr>environmentStack := environmentStack state1 @ [Some environment]\<rparr>
                  in bindMissing environment (drop (length args) ps)
                       (foldl (\<lambda>st (param, arg). environmentSet environment param (Value arg) st)
                          state2 (zip ps args))));
          callValueStackLength = length (valueStack state3)
      in andThen (interpretTopLevel (interpC n) state3 (case tag of None \<Rightarrow> 0 | Some t \<Rightarrow> index t))
           (\<lambda>(result, state4).
              if result = Halt then Done (None, state4)
              else
                (let state5 = setEnvironmentStackLength callEnvironmentStackLength state4
                 in if length (valueStack state5) = callValueStackLength
                    then Done (Some (Scalar (MStr [])), state5)
                    else andThen (popValue state5) (\<lambda>(v, state6). Done (Some (Scalar v), state6)))))"

text \<open>
  \<^verbatim>\<open>interpret\<close> (its name is a keyword of Isabelle, hence \<open>interpretAst\<close>):
  the output and the errors. The random values and the
  fractional powers of the run are parameters of the model.
\<close>

definition interpretAst :: "nat \<Rightarrow> (nat \<Rightarrow> rat) \<Rightarrow> (rat \<Rightarrow> rat \<Rightarrow> number) \<Rightarrow> TopLevelAstNode
    \<Rightarrow> (string \<times> Extern) list \<Rightarrow> (string \<times> MError list) outcome" where
  "interpretAst n randoms fpow tree externFunctions =
     (let state = makeInterpreterState tree externFunctions randoms fpow
      in andThen (interpretTag n (map_of (tags tree) ''main'') [] state) (\<lambda>(returned, state1).
           Done (concat (outputBuffer state1), errors state1)))"


section \<open>Tokens\<close>

text \<open>
  Modelled from the spec: the tokens of \<^verbatim>\<open>tokenizer.ts\<close>, which is not among
  the sources. "An ordered sequence of lines, each an ordered sequence of
  tokens. Token kinds include identifiers, numeric and string literals,
  whitespace variants, punctuation and Comment." The kinds are the ones the
  parser names; an identifier carries its text, a literal its value, and every
  token the positions of its start and its end. The names that the syntax
  tree has too end in \<open>Token\<close> here.
\<close>

datatype TokenKind =
    LeadingWhitespace | Space | TrailingWhitespace | CommentToken
  | IdentifierToken | StringToken | NumberToken
  | LeftParen | RightParen | Dot | Comma | Colon | EqualsToken | Dollar | SingleQuote
  | Underscore | Hash | ExclamationPoint | QuestionMark | BackSlash | ForwardSlash
  | Asterisk | DoubleAsterisk | PlusToken | MinusToken | Ampersand
  | LessThanToken | GreaterThanToken

record Token =
  kind :: TokenKind
  tokenText :: string
  stringValue :: string
  numberValue :: number
  tokenStart :: Position
  tokenEnd :: Position

section \<open>The parser\<close>

text \<open>
  The parser (the unnamed source file \<^verbatim>\<open>part_000\<close>) reads the lines of tokens
  \<open>input\<close> at a position that is part of its state. As in the interpreter,
  a function below is the body of the source function of the same name, it
  returns the new state, and \<open>P\<close> and \<open>Q\<close> stand for \<^verbatim>\<open>parseExpression\<close> and
  \<^verbatim>\<open>parseCommand\<close> with one unit of fuel less. A loop has the fuel \<open>n\<close>. The
  result \<open>None\<close> is the \<^verbatim>\<open>undefined\<close> that a parsing function returns after
  an error.
\<close>

record ParserState =
  positionLine :: nat
  positionColumn :: nat
  nextUnparsedLine :: nat
  indentationLevel :: nat
  parserErrors :: "MError list"

type_synonym 'a parsed = "('a option \<times> ParserState) outcome"
type_synonym exprParser = "Token list list \<Rightarrow> ParserState \<Rightarrow> ExpressionAstNode parsed"
type_synonym cmdParser = "Token list list \<Rightarrow> ParserState \<Rightarrow> CommandAstNode parsed"

text \<open>\<^verbatim>\<open>if (!x) return;\<close> after a call that returns a node or \<^verbatim>\<open>undefined\<close>.\<close>

definition whenSome :: "'a parsed \<Rightarrow> ('a \<Rightarrow> ParserState \<Rightarrow> 'b parsed) \<Rightarrow> 'b parsed" where
  "whenSome m k = andThen m (\<lambda>(x, state). case x of None \<Rightarrow> Done (None, state) | Some v \<Rightarrow> k v state)"

definition makeIdentifierAstNode :: "Token \<Rightarrow> IdentifierAstNode" where
  "makeIdentifierAstNode token = Identifier (tokenStart token, tokenEnd token) (tokenText token)"

definition moveToNextUnparsedLine :: "ParserState \<Rightarrow> ParserState" where
  "moveToNextUnparsedLine state =
     state\<lparr>positionColumn := 0, positionLine := nextUnparsedLine state,
           nextUnparsedLine := nextUnparsedLine state + 1\<rparr>"

text \<open>
  \<^verbatim>\<open>input[line][column]\<close>. Outside the lines or outside a line the value is
  \<^verbatim>\<open>undefined\<close>, and every caller reads a field of it, which throws.
\<close>

definition getToken :: "Token list list \<Rightarrow> ParserState \<Rightarrow> Token outcome" where
  "getToken input state =
     (if positionLine state < length input
         \<and> positionColumn state < length (input ! positionLine state)
      then Done (input ! positionLine state ! positionColumn state)
      else Throw TypeError)"

definition nextToken :: "Token list list \<Rightarrow> ParserState \<Rightarrow> (Token \<times> ParserState) outcome" where
  "nextToken input state =
     andThen (getToken input state) (\<lambda>token.
       Done (token,
         (if kind token \<noteq> TrailingWhitespace
          then state\<lparr>positionColumn := positionColumn state + 1\<rparr> else state)))"

definition matchToken :: "Token list list \<Rightarrow> ParserState \<Rightarrow> TokenKind \<Rightarrow> Token parsed" where
  "matchToken input state validKind =
     andThen (getToken input state) (\<lambda>token.
       if kind token \<noteq> validKind then Done (None, state)
       else andThen (nextToken input state) (\<lambda>(t, state1). Done (Some t, state1)))"

definition getWhitespace :: "Token list list \<Rightarrow> ParserState \<Rightarrow> bool outcome" where
  "getWhitespace input state =
     andThen (getToken input state) (\<lambda>token.
       Done (kind token = Space \<or> kind token = TrailingWhitespace \<or> kind token = LeadingWhitespace))"

definition matchWhitespace :: "Token list list \<Rightarrow> ParserState \<Rightarrow> (bool \<times> ParserState) outcome" where
  "matchWhitespace input state =
     andThen (getWhitespace input state) (\<lambda>white.
       if \<not> white then Done (False, state)
       else andThen (nextToken input state) (\<lambda>(t, state1). Done (True, state1)))"

definition parserReportErrorAt :: "string \<Rightarrow> Position \<Rightarrow> ParserState \<Rightarrow> ParserState" where
  "parserReportErrorAt msg start state =
     state\<lparr>parserErrors := parserErrors state @ [\<lparr>message = msg, line = fst start, column = snd start\<rparr>]\<rparr>"

text \<open>\<^verbatim>\<open>reportError\<close> of the parser: the error is at the current token.\<close>

definition parserReportError :: "string \<Rightarrow> Token list list \<Rightarrow> ParserState \<Rightarrow> ParserState outcome" where
  "parserReportError msg input state =
     andThen (getToken input state) (\<lambda>token. Done (parserReportErrorAt msg (tokenStart token) state))"

text \<open>Reporting an error and returning \<^verbatim>\<open>undefined\<close>.\<close>

definition failWith :: "string \<Rightarrow> Token list list \<Rightarrow> ParserState \<Rightarrow> 'a parsed" where
  "failWith msg input state = andThen (parserReportError msg input state) (\<lambda>state1. Done (None, state1))"

subsection \<open>Expressions\<close>

text \<open>
  The loop of \<^verbatim>\<open>parseArgs\<close> between the parentheses. \<open>None\<close>: the function
  returns \<^verbatim>\<open>undefined\<close>; \<open>Some args\<close>: the loop ends with these arguments.
\<close>

fun parseArgsLoop :: "nat \<Rightarrow> exprParser \<Rightarrow> Token list list \<Rightarrow> CallArgumentAstNode list \<Rightarrow> ParserState
    \<Rightarrow> (CallArgumentAstNode list) parsed" where
  "parseArgsLoop 0 P input args state = OutOfFuel"
| "parseArgsLoop (Suc n) P input args state =
     andThen (getToken input state) (\<lambda>token.
       if kind token = RightParen then Done (Some args, state)
       else
         andThen (matchToken input state Dot) (\<lambda>(dot, state1).
           andThen
             (case dot of
                Some d \<Rightarrow>
                  andThen (matchToken input state1 IdentifierToken) (\<lambda>(name, state2).
                    case name of
                      None \<Rightarrow> failWith ''Expected variable name to reference'' input state2
                    | Some nm \<Rightarrow>
                        Done (Some (True,
                                args @ [Reference (tokenStart d, tokenEnd nm) (makeIdentifierAstNode nm)]),
                              state2))
              | None \<Rightarrow>
                  andThen (P input state1) (\<lambda>(expression, state2).
                    case expression of
                      None \<Rightarrow> Done (Some (False, args), state2)
                    | Some e \<Rightarrow> Done (Some (True, args @ [Argument e]), state2)))
             (\<lambda>(step, state3).
                case step of
                  None \<Rightarrow> Done (None, state3)
                | Some (False, args') \<Rightarrow> Done (Some args', state3)
                | Some (True, args') \<Rightarrow>
                    andThen (matchToken input state3 Comma) (\<lambda>(comma, state4).
                      case comma of
                        None \<Rightarrow> Done (Some args', state4)
                      | Some c \<Rightarrow> parseArgsLoop n P input args' state4))))"

definition parseArgs :: "nat \<Rightarrow> exprParser \<Rightarrow> Token list list \<Rightarrow> ParserState \<Rightarrow> (CallArgumentAstNode list) parsed" where
  "parseArgs n P input state =
     andThen (matchToken input state LeftParen) (\<lambda>(paren, state1).
       case paren of
         None \<Rightarrow> Done (Some [], state1)
       | Some p \<Rightarrow>
           whenSome (parseArgsLoop n P input [] state1) (\<lambda>args state2.
             andThen (matchToken input state2 RightParen) (\<lambda>(close, state3).
               case close of
                 None \<Rightarrow> failWith ''Unterminated argument list'' input state3
               | Some c \<Rightarrow> Done (Some args, state3))))"

fun parseSubscriptsLoop :: "nat \<Rightarrow> exprParser \<Rightarrow> Token list list \<Rightarrow> ExpressionAstNode list \<Rightarrow> ParserState
    \<Rightarrow> (ExpressionAstNode list \<times> ParserState) outcome" where
  "parseSubscriptsLoop 0 P input args state = OutOfFuel"
| "parseSubscriptsLoop (Suc n) P input args state =
     andThen (getToken input state) (\<lambda>token.
       if kind token = RightParen then Done (args, state)
       else
         andThen (P input state) (\<lambda>(expression, state1).
           case expression of
             None \<Rightarrow> Done (args, state1)
           | Some e \<Rightarrow>
               andThen (matchToken input state1 Comma) (\<lambda>(comma, state2).
                 case comma of
                   None \<Rightarrow> Done (args @ [e], state2)
                 | Some c \<Rightarrow> parseSubscriptsLoop n P input (args @ [e]) state2)))"

definition parseSubscripts :: "nat \<Rightarrow> exprParser \<Rightarrow> Token list list \<Rightarrow> ParserState \<Rightarrow> (ExpressionAstNode list) parsed" where
  "parseSubscripts n P input state =
     andThen (matchToken input state LeftParen) (\<lambda>(paren, state1).
       case paren of
         None \<Rightarrow> Done (Some [], state1)
       | Some p \<Rightarrow>
           andThen (parseSubscriptsLoop n P input [] state1) (\<lambda>(args, state2).
             andThen (matchToken input state2 RightParen) (\<lambda>(close, state3).
               case close of
                 None \<Rightarrow> failWith ''Unterminated subscript list'' input state3
               | Some c \<Rightarrow> Done (Some args, state3))))"

definition parseCall :: "nat \<Rightarrow> exprParser \<Rightarrow> Token list list \<Rightarrow> ParserState \<Rightarrow> CallAstNode parsed" where
  "parseCall n P input state =
     andThen (getToken input state) (\<lambda>nameToken.
       if kind nameToken \<noteq> IdentifierToken then failWith ''Expected an identifier'' input state
       else
         andThen (nextToken input state) (\<lambda>(t, state1).
           whenSome (parseArgs n P input state1) (\<lambda>args state2.
             andThen (getToken input state2) (\<lambda>lastToken.
               Done (Some (CallNode (tokenStart nameToken, tokenStart lastToken)
                             (makeIdentifierAstNode nameToken) args),
                     state2)))))"

definition parseVariable :: "nat \<Rightarrow> exprParser \<Rightarrow> Token list list \<Rightarrow> ParserState \<Rightarrow> VariableAstNode parsed" where
  "parseVariable n P input state =
     andThen (matchToken input state IdentifierToken) (\<lambda>(first, state1).
       case first of
         None \<Rightarrow> failWith ''Expected variable to start with an identifier'' input state1
       | Some firstToken \<Rightarrow>
           whenSome (parseSubscripts n P input state1) (\<lambda>subscripts state2.
             andThen (getToken input state2) (\<lambda>lastToken.
               Done (Some (VariableNode (tokenStart firstToken, tokenStart lastToken)
                             (makeIdentifierAstNode firstToken) subscripts),
                     state2))))"

text \<open>\<^verbatim>\<open>parseNodeList\<close>, for any parser of the nodes.\<close>

fun parseNodeListLoop :: "nat \<Rightarrow> (Token list list \<Rightarrow> ParserState \<Rightarrow> 'a parsed) \<Rightarrow> Token list list
    \<Rightarrow> 'a list \<Rightarrow> ParserState \<Rightarrow> ('a list) parsed" where
  "parseNodeListLoop 0 parser input nodes state = OutOfFuel"
| "parseNodeListLoop (Suc n) parser input nodes state =
     andThen (matchWhitespace input state) (\<lambda>(white, state1).
       if white then Done (Some nodes, state1)
       else
         whenSome (parser input state1) (\<lambda>expression state2.
           andThen (matchToken input state2 Comma) (\<lambda>(comma, state3).
             case comma of
               None \<Rightarrow> Done (Some (nodes @ [expression]), state3)
             | Some c \<Rightarrow> parseNodeListLoop n parser input (nodes @ [expression]) state3)))"

definition parseNodeList :: "nat \<Rightarrow> (Token list list \<Rightarrow> ParserState \<Rightarrow> 'a parsed) \<Rightarrow> Token list list
    \<Rightarrow> ParserState \<Rightarrow> ('a list) parsed" where
  "parseNodeList n parser input state = parseNodeListLoop n parser input [] state"

definition parseBuiltinArgs :: "nat \<Rightarrow> Token list list \<Rightarrow> ParserState \<Rightarrow> Token
    \<Rightarrow> (Token list list \<Rightarrow> ParserState \<Rightarrow> 'a parsed) \<Rightarrow> nat option \<Rightarrow> nat option \<Rightarrow> ('a list) parsed" where
  "parseBuiltinArgs n input state builtinName parser minArgCount maxArgCount =
     andThen (matchToken input state LeftParen) (\<lambda>(paren, state1).
       case paren of
         None \<Rightarrow> failWith ''Expected argument list after builtin name'' input state1
       | Some p \<Rightarrow>
           whenSome (parseNodeList n parser input state1) (\<lambda>args state2.
             andThen (matchToken input state2 RightParen) (\<lambda>(close, state3).
               case close of
                 None \<Rightarrow> failWith ''Unterminated argument list'' input state3
               | Some c \<Rightarrow>
                   (let state4 =
                          (case minArgCount of
                             Some m \<Rightarrow>
                               (if length args < m
                                then parserReportErrorAt
                                       (''Builtin expects at least '' @ natToString m @ '' arguments'')
                                       (tokenStart builtinName) state3
                                else state3)
                           | None \<Rightarrow> state3);
                        state5 =
                          (case maxArgCount of
                             Some m \<Rightarrow>
                               (if m < length args
                                then parserReportErrorAt
                                       (''Builtin expects at most '' @ natToString m @ '' arguments'')
                                       (tokenStart builtinName) state4
                                else state4)
                           | None \<Rightarrow> state4)
                    in Done (Some args, state5)))))"

definition parseSelectBuiltinArg :: "exprParser \<Rightarrow> Token list list \<Rightarrow> ParserState \<Rightarrow> SelectBuiltinArgAstNode parsed" where
  "parseSelectBuiltinArg P input state =
     whenSome (P input state) (\<lambda>condition state1.
       andThen (matchToken input state1 Colon) (\<lambda>(colon, state2).
         case colon of
           None \<Rightarrow> failWith ''Expected colon between select condition and value'' input state2
         | Some c \<Rightarrow>
             whenSome (P input state2) (\<lambda>v state3.
               Done (Some (SelectBuiltinArg (fst (expressionRange condition), snd (expressionRange v))
                             condition v),
                     state3))))"

text \<open>\<^verbatim>\<open>args[i]\<close>, \<^verbatim>\<open>undefined\<close> beyond the arguments.\<close>

definition nthOption :: "'a list \<Rightarrow> nat \<Rightarrow> 'a option" where
  "nthOption xs i = (if i < length xs then Some (xs ! i) else None)"

definition parseOrderBuiltin :: "nat \<Rightarrow> exprParser \<Rightarrow> Token list list \<Rightarrow> ParserState \<Rightarrow> Token
    \<Rightarrow> ExpressionAstNode parsed" where
  "parseOrderBuiltin n P input state builtinName =
     whenSome (parseBuiltinArgs n input state builtinName P (Some 1) (Some 2)) (\<lambda>args state1.
       case nthOption args 0 of
         None \<Rightarrow> Throw TypeError
       | Some (Variable variable) \<Rightarrow>
           andThen (getToken input state1) (\<lambda>lastToken.
             Done (Some (OrderBuiltin (tokenStart builtinName, tokenStart lastToken) variable
                           (nthOption args 1)),
                   state1))
       | Some other \<Rightarrow>
           Done (None,
             parserReportErrorAt ''Expected the first argument for the order builtin to be a variable''
               (tokenStart builtinName) state1))"

definition parseLengthBuiltin :: "nat \<Rightarrow> exprParser \<Rightarrow> Token list list \<Rightarrow> ParserState \<Rightarrow> Token
    \<Rightarrow> ExpressionAstNode parsed" where
  "parseLengthBuiltin n P input state builtinName =
     whenSome (parseBuiltinArgs n input state builtinName P (Some 1) (Some 1)) (\<lambda>args state1.
       andThen (getToken input state1) (\<lambda>lastToken.
         Done (Some (LengthBuiltin (tokenStart builtinName, tokenStart lastToken) (nthOption args 0)),
               state1)))"

definition parseExtractBuiltin :: "nat \<Rightarrow> exprParser \<Rightarrow> Token list list \<Rightarrow> ParserState \<Rightarrow> Token
    \<Rightarrow> ExpressionAstNode parsed" where
  "parseExtractBuiltin n P input state builtinName =
     whenSome (parseBuiltinArgs n input state builtinName P (Some 1) (Some 3)) (\<lambda>args state1.
       andThen (getToken input state1) (\<lambda>lastToken.
         Done (Some (ExtractBuiltin (tokenStart builtinName, tokenStart lastToken)
                       (nthOption args 0) (nthOption args 1) (nthOption args 2)),
               state1)))"

definition parseSelectBuiltin :: "nat \<Rightarrow> exprParser \<Rightarrow> Token list list \<Rightarrow> ParserState \<Rightarrow> Token
    \<Rightarrow> ExpressionAstNode parsed" where
  "parseSelectBuiltin n P input state builtinName =
     whenSome (parseBuiltinArgs n input state builtinName (parseSelectBuiltinArg P) None None)
       (\<lambda>args state1.
          andThen (getToken input state1) (\<lambda>lastToken.
            Done (Some (SelectBuiltin (tokenStart builtinName, tokenStart lastToken) args), state1)))"

definition parseFindBuiltin :: "nat \<Rightarrow> exprParser \<Rightarrow> Token list list \<Rightarrow> ParserState \<Rightarrow> Token
    \<Rightarrow> ExpressionAstNode parsed" where
  "parseFindBuiltin n P input state builtinName =
     whenSome (parseBuiltinArgs n input state builtinName P (Some 2) (Some 3)) (\<lambda>args state1.
       andThen (getToken input state1) (\<lambda>lastToken.
         Done (Some (FindBuiltin (tokenStart builtinName, tokenStart lastToken)
                       (nthOption args 0) (nthOption args 1) (nthOption args 2)),
               state1)))"

definition parseRandomBuiltin :: "nat \<Rightarrow> exprParser \<Rightarrow> Token list list \<Rightarrow> ParserState \<Rightarrow> Token
    \<Rightarrow> ExpressionAstNode parsed" where
  "parseRandomBuiltin n P input state builtinName =
     whenSome (parseBuiltinArgs n input state builtinName P (Some 1) (Some 1)) (\<lambda>args state1.
       andThen (getToken input state1) (\<lambda>lastToken.
         Done (Some (RandomBuiltin (tokenStart builtinName, tokenStart lastToken) (nthOption args 0)),
               state1)))"

definition parseAsciiBuiltin :: "nat \<Rightarrow> exprParser \<Rightarrow> Token list list \<Rightarrow> ParserState \<Rightarrow> Token
    \<Rightarrow> ExpressionAstNode parsed" where
  "parseAsciiBuiltin n P input state builtinName =
     whenSome (parseBuiltinArgs n input state builtinName P (Some 1) (Some 1)) (\<lambda>args state1.
       andThen (getToken input state1) (\<lambda>lastToken.
         Done (Some (AsciiBuiltin (tokenStart builtinName, tokenStart lastToken) (nthOption args 0)),
               state1)))"

definition parseCharBuiltin :: "nat \<Rightarrow> exprParser \<Rightarrow> Token list list \<Rightarrow> ParserState \<Rightarrow> Token
    \<Rightarrow> ExpressionAstNode parsed" where
  "parseCharBuiltin n P input state builtinName =
     whenSome (parseBuiltinArgs n input state builtinName P (Some 1) (Some 1)) (\<lambda>args state1.
       andThen (getToken input state1) (\<lambda>lastToken.
         Done (Some (CharBuiltin (tokenStart builtinName, tokenStart lastToken) (nthOption args 0)),
               state1)))"

text \<open>\<^verbatim>\<open>toLowerCase\<close> on the code units below 256, and \<^verbatim>\<open>startsWith\<close>.\<close>

definition toLowerChar :: "char \<Rightarrow> char" where
  "toLowerChar c =
     (let k = (of_char c :: nat)
      in if (65 \<le> k \<and> k \<le> 90) \<or> (192 \<le> k \<and> k \<le> 222 \<and> k \<noteq> 215) then char_of (k + 32) else c)"

definition toLowerCase :: "string \<Rightarrow> string" where
  "toLowerCase s = map toLowerChar s"

definition startsWith :: "string \<Rightarrow> string \<Rightarrow> bool" where
  "startsWith s p = (take (length p) s = p)"

text \<open>The table \<^verbatim>\<open>builtinVariants\<close>, in its order.\<close>

definition builtinVariants :: "nat \<Rightarrow> exprParser
    \<Rightarrow> (string \<times> (Token list list \<Rightarrow> ParserState \<Rightarrow> Token \<Rightarrow> ExpressionAstNode parsed)) list" where
  "builtinVariants n P =
     [(''order'', parseOrderBuiltin n P),
      (''length'', parseLengthBuiltin n P),
      (''extract'', parseExtractBuiltin n P),
      (''select'', parseSelectBuiltin n P),
      (''find'', parseFindBuiltin n P),
      (''random'', parseRandomBuiltin n P),
      (''ascii'', parseAsciiBuiltin n P),
      (''char'', parseCharBuiltin n P)]"

definition parseBuiltin :: "nat \<Rightarrow> exprParser \<Rightarrow> Token list list \<Rightarrow> ParserState \<Rightarrow> ExpressionAstNode parsed" where
  "parseBuiltin n P input state =
     andThen (matchToken input state IdentifierToken) (\<lambda>(name, state1).
       case name of
         None \<Rightarrow> failWith ''Expected builtin name'' input state1
       | Some builtinName \<Rightarrow>
           (let lowerCaseBuiltinName = toLowerCase (tokenText builtinName)
            in case filter (\<lambda>variant. startsWith (fst variant) lowerCaseBuiltinName)
                      (builtinVariants n P) of
                 variant # others \<Rightarrow> snd variant input state1 builtinName
               | [] \<Rightarrow>
                   Done (None,
                     parserReportErrorAt ''Unrecognized builtin'' (tokenStart builtinName) state1)))"

definition parsePrimary :: "nat \<Rightarrow> exprParser \<Rightarrow> Token list list \<Rightarrow> ParserState \<Rightarrow> ExpressionAstNode parsed" where
  "parsePrimary n P input state =
     andThen (getToken input state) (\<lambda>firstToken.
       if kind firstToken = Dollar then
         andThen (nextToken input state) (\<lambda>(t, state1).
           andThen (matchToken input state1 Dollar) (\<lambda>(second, state2).
             case second of
               None \<Rightarrow> parseBuiltin n P input state2
             | Some d \<Rightarrow>
                 whenSome (parseCall n P input state2) (\<lambda>c state3. Done (Some (Call c), state3))))
       else if kind firstToken = StringToken then
         andThen (nextToken input state) (\<lambda>(t, state1).
           Done (Some (StringLiteral (tokenStart firstToken, tokenEnd firstToken)
                         (stringValue firstToken)),
                 state1))
       else if kind firstToken = NumberToken then
         andThen (nextToken input state) (\<lambda>(t, state1).
           Done (Some (NumberLiteral (tokenStart firstToken, tokenEnd firstToken)
                         (numberValue firstToken)),
                 state1))
       else if kind firstToken = IdentifierToken then
         whenSome (parseVariable n P input state) (\<lambda>v state1. Done (Some (Variable v), state1))
       else if kind firstToken = LeftParen then
         andThen (nextToken input state) (\<lambda>(t, state1).
           whenSome (P input state1) (\<lambda>expression state2.
             andThen (matchToken input state2 RightParen) (\<lambda>(close, state3).
               case close of
                 None \<Rightarrow> failWith ''Unterminated parenthesis'' input state3
               | Some c \<Rightarrow> Done (Some expression, state3))))
       else failWith ''Expected an expression'' input state)"

definition unaryOperator :: "TokenKind \<Rightarrow> UnaryOp option" where
  "unaryOperator k =
     (if k = SingleQuote then Some NotOp
      else if k = MinusToken then Some MinusOp
      else if k = PlusToken then Some PlusOp
      else None)"

fun parseUnaryOp :: "nat \<Rightarrow> exprParser \<Rightarrow> Token list list \<Rightarrow> ParserState \<Rightarrow> ExpressionAstNode parsed" where
  "parseUnaryOp 0 P input state = OutOfFuel"
| "parseUnaryOp (Suc n) P input state =
     andThen (getToken input state) (\<lambda>token.
       case unaryOperator (kind token) of
         None \<Rightarrow> parsePrimary n P input state
       | Some op \<Rightarrow>
           andThen (nextToken input state) (\<lambda>(t, state1).
             whenSome (parseUnaryOp n P input state1) (\<lambda>right state2.
               Done (Some (UnaryOp (tokenStart token, snd (expressionRange right)) right op),
                     state2))))"

text \<open>
  The two \<^verbatim>\<open>switch\<close> statements of \<^verbatim>\<open>parseExpression\<close>: the binary operator
  of a token kind, after a \<^verbatim>\<open>'\<close> (\<open>isNegated\<close>) or not.
\<close>

definition binaryOperator :: "TokenKind \<Rightarrow> bool \<Rightarrow> BinaryOp option" where
  "binaryOperator k isNegated =
     (if \<not> isNegated \<and> k = PlusToken then Some Add
      else if \<not> isNegated \<and> k = MinusToken then Some Subtract
      else if \<not> isNegated \<and> k = Asterisk then Some Multiply
      else if \<not> isNegated \<and> k = DoubleAsterisk then Some Power
      else if \<not> isNegated \<and> k = ForwardSlash then Some Divide
      else if \<not> isNegated \<and> k = BackSlash then Some IntegerDivide
      else if \<not> isNegated \<and> k = Hash then Some Modulo
      else if \<not> isNegated \<and> k = Underscore then Some Concatenate
      else if k = ExclamationPoint then Some Or
      else if k = Ampersand then Some And
      else if k = EqualsToken then Some Equals
      else if k = LessThanToken then Some LessThan
      else if k = GreaterThanToken then Some GreaterThan
      else None)"

text \<open>The loop \<^verbatim>\<open>while (true)\<close> of \<^verbatim>\<open>parseExpression\<close>, with the tree \<open>left\<close> built so far.\<close>

fun parseExpressionLoop :: "nat \<Rightarrow> exprParser \<Rightarrow> Token list list \<Rightarrow> ExpressionAstNode \<Rightarrow> ParserState
    \<Rightarrow> ExpressionAstNode parsed" where
  "parseExpressionLoop 0 P input left state = OutOfFuel"
| "parseExpressionLoop (Suc n) P input left state =
     andThen (matchToken input state SingleQuote) (\<lambda>(quote, state1).
       (let isNegated = (quote \<noteq> None) in
        andThen (getToken input state1) (\<lambda>token.
          case binaryOperator (kind token) isNegated of
            None \<Rightarrow> Done (Some left, state1)
          | Some op \<Rightarrow>
              andThen (nextToken input state1) (\<lambda>(t, state2).
                whenSome (parseUnaryOp n P input state2) (\<lambda>right state3.
                  parseExpressionLoop n P input
                    (BinaryOp (fst (expressionRange left), snd (expressionRange right))
                       left right op isNegated)
                    state3)))))"

definition parseExpression :: "nat \<Rightarrow> exprParser \<Rightarrow> Token list list \<Rightarrow> ParserState \<Rightarrow> ExpressionAstNode parsed" where
  "parseExpression n P input state =
     whenSome (parseUnaryOp n P input state) (\<lambda>left state1.
       parseExpressionLoop n P input left state1)"

subsection \<open>Commands\<close>

text \<open>What a loop of a parsing function does when its body ends: it returns from the function, or goes on.\<close>

datatype 'a step = Return 'a | Proceed

text \<open>
  The inner loop of \<^verbatim>\<open>parseBlock\<close>, which moves to the next line that belongs
  to the block. \<open>Return (Some ())\<close>: the block ends and the function returns
  its commands; \<open>Return None\<close>: the function returns \<^verbatim>\<open>undefined\<close>; \<open>Proceed\<close>: a
  command follows.
\<close>

fun matchIndentation :: "nat \<Rightarrow> Token list list \<Rightarrow> ParserState \<Rightarrow> (bool option \<times> ParserState) outcome" where
  "matchIndentation 0 input state = Done (Some False, state)"
| "matchIndentation (Suc i) input state =
     andThen (matchToken input state Dot) (\<lambda>(dot, state1).
       case dot of
         None \<Rightarrow> Done (Some True, state1)
       | Some d \<Rightarrow>
           andThen (matchToken input state1 Space) (\<lambda>(space, state2).
             case space of
               None \<Rightarrow>
                 andThen (parserReportError ''Expected space after dot'' input state2)
                   (\<lambda>state3. Done (None, state3))
             | Some s \<Rightarrow> matchIndentation i input state2))"

fun parseBlockLines :: "nat \<Rightarrow> Token list list \<Rightarrow> bool \<Rightarrow> ParserState \<Rightarrow> (unit option step \<times> ParserState) outcome" where
  "parseBlockLines 0 input startOnNextLine state = OutOfFuel"
| "parseBlockLines (Suc n) input startOnNextLine state =
     andThen
       (if positionLine state < length input then
          (if startOnNextLine then Done True
           else andThen (getToken input state) (\<lambda>token. Done (kind token = TrailingWhitespace)))
        else Done False)
       (\<lambda>again.
          if \<not> again then Done (Proceed, state)
          else
            (let state1 = moveToNextUnparsedLine state in
             if length input \<le> positionLine state1 then Done (Return (Some ()), state1)
             else
               (let startColumn = positionColumn state1 in
                andThen (matchToken input state1 LeadingWhitespace) (\<lambda>(leading, state2).
                  andThen
                    (if leading = None then Done (Some True, state2)
                     else matchIndentation (indentationLevel state2) input state2)
                    (\<lambda>(didBlockEnd, state3).
                       case didBlockEnd of
                         None \<Rightarrow> Done (Return None, state3)
                       | Some True \<Rightarrow>
                           Done (Return (Some ()), state3\<lparr>positionColumn := startColumn\<rparr>)
                       | Some False \<Rightarrow> parseBlockLines n input False state3)))))"

fun parseBlockLoop :: "nat \<Rightarrow> cmdParser \<Rightarrow> Token list list \<Rightarrow> CommandAstNode list \<Rightarrow> bool \<Rightarrow> ParserState
    \<Rightarrow> (CommandAstNode list) parsed" where
  "parseBlockLoop 0 Q input commands startOnNextLine state = OutOfFuel"
| "parseBlockLoop (Suc n) Q input commands startOnNextLine state =
     andThen (parseBlockLines (Suc n) input startOnNextLine state) (\<lambda>(step, state1).
       case step of
         Return None \<Rightarrow> Done (None, state1)
       | Return (Some u) \<Rightarrow> Done (Some commands, state1)
       | Proceed \<Rightarrow>
           whenSome (Q input state1) (\<lambda>command state2.
             parseBlockLoop n Q input (commands @ [command]) False state2))"

definition parseBlock :: "nat \<Rightarrow> cmdParser \<Rightarrow> Token list list \<Rightarrow> ParserState \<Rightarrow> bool
    \<Rightarrow> (CommandAstNode list) parsed" where
  "parseBlock n Q input state startOnNextLine = parseBlockLoop n Q input [] startOnNextLine state"

text \<open>The loop of \<^verbatim>\<open>parseWrite\<close>.\<close>

fun parseWriteLoop :: "nat \<Rightarrow> exprParser \<Rightarrow> Token list list \<Rightarrow> WriteArgumentAstNode list \<Rightarrow> bool
    \<Rightarrow> ParserState \<Rightarrow> (WriteArgumentAstNode list) parsed" where
  "parseWriteLoop 0 P input args isInFormat state = OutOfFuel"
| "parseWriteLoop (Suc n) P input args isInFormat state =
     andThen (matchWhitespace input state) (\<lambda>(white, state1).
       if white then Done (Some args, state1)
       else
         andThen (getToken input state1) (\<lambda>token.
           if kind token = Hash then
             andThen (nextToken input state1) (\<lambda>(t, state2).
               parseWriteLoop n P input (args @ [HashFormatter]) True state2)
           else if kind token = ExclamationPoint then
             andThen (nextToken input state1) (\<lambda>(t, state2).
               parseWriteLoop n P input (args @ [ExclamationPointFormatter]) True state2)
           else if kind token = QuestionMark then
             andThen (nextToken input state1) (\<lambda>(t, state2).
               whenSome (P input state2) (\<lambda>expression state3.
                 parseWriteLoop n P input (args @ [QuestionMarkFormatter expression]) True state3))
           else
             whenSome
               (if \<not> isInFormat
                then whenSome (P input state1) (\<lambda>expression state2.
                       Done (Some (args @ [WriteExpression expression]), state2))
                else Done (Some args, state1))
               (\<lambda>args' state3.
                  andThen (matchToken input state3 Comma) (\<lambda>(comma, state4).
                    case comma of
                      None \<Rightarrow> Done (Some args', state4)
                    | Some c \<Rightarrow> parseWriteLoop n P input args' False state4))))"

definition parseWrite :: "nat \<Rightarrow> exprParser \<Rightarrow> Token list list \<Rightarrow> ParserState \<Rightarrow> CommandBodyAstNode parsed" where
  "parseWrite n P input state =
     andThen (getToken input state) (\<lambda>firstToken.
       whenSome (parseWriteLoop n P input [] False state) (\<lambda>args state1.
         andThen (getToken input state1) (\<lambda>lastToken.
           Done (Some (WriteNode (tokenStart firstToken, tokenStart lastToken) args), state1))))"

definition parseQuit :: "exprParser \<Rightarrow> Token list list \<Rightarrow> ParserState \<Rightarrow> CommandBodyAstNode parsed" where
  "parseQuit P input state =
     andThen (getToken input state) (\<lambda>firstToken.
       andThen (getWhitespace input state) (\<lambda>white.
         if white then Done (Some (QuitNode (tokenStart firstToken, tokenEnd firstToken) None), state)
         else
           whenSome (P input state) (\<lambda>returnValue state1.
             andThen (getToken input state1) (\<lambda>lastToken.
               Done (Some (QuitNode (tokenStart firstToken, tokenStart lastToken) (Some returnValue)),
                     state1)))))"

definition parseDo :: "nat \<Rightarrow> exprParser \<Rightarrow> cmdParser \<Rightarrow> Token list list \<Rightarrow> ParserState \<Rightarrow> CommandBodyAstNode parsed" where
  "parseDo n P Q input state =
     andThen (getWhitespace input state) (\<lambda>white.
       if \<not> white then
         whenSome (parseCall n P input state) (\<lambda>c state1. Done (Some (CallCommandNode c), state1))
       else
         andThen (getToken input state) (\<lambda>firstToken.
           (let startLine = positionLine state;
                startColumn = positionColumn state
            in andThen (parseBlock n Q input (state\<lparr>indentationLevel := indentationLevel state + 1\<rparr>) True)
                 (\<lambda>(block, state1).
                    (let state2 = state1\<lparr>indentationLevel := indentationLevel state1 - 1\<rparr>
                     in case block of
                          None \<Rightarrow> Done (None, state2)
                        | Some commands \<Rightarrow>
                            (let state3 = state2\<lparr>nextUnparsedLine := positionLine state2,
                                                 positionLine := startLine,
                                                 positionColumn := startColumn\<rparr>
                             in andThen (getToken input state3) (\<lambda>lastToken.
                                  Done (Some (DoBlockNode (tokenStart firstToken, tokenStart lastToken)
                                                commands),
                                        state3))))))))"

text \<open>The loop over the commands on the rest of a line, of \<^verbatim>\<open>parseIf\<close>, \<^verbatim>\<open>parseElse\<close> and \<^verbatim>\<open>parseFor\<close>.\<close>

fun parseInlineCommands :: "nat \<Rightarrow> cmdParser \<Rightarrow> Token list list \<Rightarrow> CommandAstNode list \<Rightarrow> ParserState
    \<Rightarrow> (CommandAstNode list) parsed" where
  "parseInlineCommands 0 Q input nodes state = OutOfFuel"
| "parseInlineCommands (Suc n) Q input nodes state =
     andThen (matchWhitespace input state) (\<lambda>(white, state1).
       if white then Done (Some nodes, state1)
       else
         whenSome (Q input state1) (\<lambda>command state2.
           parseInlineCommands n Q input (nodes @ [command]) state2))"

fun parseIfConditions :: "nat \<Rightarrow> exprParser \<Rightarrow> Token list list \<Rightarrow> ExpressionAstNode list \<Rightarrow> ParserState
    \<Rightarrow> (ExpressionAstNode list) parsed" where
  "parseIfConditions 0 P input conditions state = OutOfFuel"
| "parseIfConditions (Suc n) P input conditions state =
     andThen (matchWhitespace input state) (\<lambda>(white, state1).
       if white then Done (Some conditions, state1)
       else
         whenSome (P input state1) (\<lambda>expression state2.
           andThen (matchToken input state2 Comma) (\<lambda>(comma, state3).
             case comma of
               Some c \<Rightarrow> parseIfConditions n P input (conditions @ [expression]) state3
             | None \<Rightarrow>
                 andThen (matchWhitespace input state3) (\<lambda>(white2, state4).
                   if \<not> white2 then failWith ''Expected space after if conditions'' input state4
                   else Done (Some (conditions @ [expression]), state4)))))"

definition parseIf :: "nat \<Rightarrow> exprParser \<Rightarrow> cmdParser \<Rightarrow> Token list list \<Rightarrow> ParserState \<Rightarrow> CommandBodyAstNode parsed" where
  "parseIf n P Q input state =
     andThen (getToken input state) (\<lambda>firstToken.
       whenSome (parseIfConditions n P input [] state) (\<lambda>conditions state1.
         whenSome (parseInlineCommands n Q input [] state1) (\<lambda>nodes state2.
           andThen (getToken input state2) (\<lambda>lastToken.
             Done (Some (IfNode (tokenStart firstToken, tokenStart lastToken) conditions nodes),
                   state2)))))"

definition parseElse :: "nat \<Rightarrow> cmdParser \<Rightarrow> Token list list \<Rightarrow> ParserState \<Rightarrow> CommandBodyAstNode parsed" where
  "parseElse n Q input state =
     andThen (matchWhitespace input state) (\<lambda>(white, state1).
       if \<not> white then failWith ''Expected no arguments for else command'' input state1
       else
         andThen (getToken input state1) (\<lambda>firstToken.
           whenSome (parseInlineCommands n Q input [] state1) (\<lambda>nodes state2.
             andThen (getToken input state2) (\<lambda>lastToken.
               Done (Some (ElseNode (tokenStart firstToken, tokenStart lastToken) nodes), state2)))))"

text \<open>The loop of \<^verbatim>\<open>parseForParameter\<close>: \<open>i\<close> counts the expressions read, at most three.\<close>

fun parseForParameterLoop :: "nat \<Rightarrow> exprParser \<Rightarrow> Token list list \<Rightarrow> nat \<Rightarrow> ExpressionAstNode list
    \<Rightarrow> ParserState \<Rightarrow> (ExpressionAstNode list) parsed" where
  "parseForParameterLoop 0 P input i expressions state = OutOfFuel"
| "parseForParameterLoop (Suc n) P input i expressions state =
     (if \<not> i < 3 then Done (Some expressions, state)
      else
        whenSome (P input state) (\<lambda>part state1.
          if i < 2 then
            andThen (matchToken input state1 Colon) (\<lambda>(colon, state2).
              case colon of
                None \<Rightarrow> Done (Some (expressions @ [part]), state2)
              | Some c \<Rightarrow> parseForParameterLoop n P input (i + 1) (expressions @ [part]) state2)
          else parseForParameterLoop n P input (i + 1) (expressions @ [part]) state1))"

definition parseForParameter :: "nat \<Rightarrow> exprParser \<Rightarrow> Token list list \<Rightarrow> ParserState \<Rightarrow> ForParameterAstNode parsed" where
  "parseForParameter n P input state =
     andThen (getToken input state) (\<lambda>firstToken.
       whenSome (parseForParameterLoop n P input 0 [] state) (\<lambda>expressions state1.
         andThen (getToken input state1) (\<lambda>lastToken.
           Done (Some (ForParameter (tokenStart firstToken, tokenStart lastToken) expressions),
                 state1))))"

fun parseForParameters :: "nat \<Rightarrow> exprParser \<Rightarrow> Token list list \<Rightarrow> ForParameterAstNode list \<Rightarrow> ParserState
    \<Rightarrow> (ForParameterAstNode list) parsed" where
  "parseForParameters 0 P input parameters state = OutOfFuel"
| "parseForParameters (Suc n) P input parameters state =
     whenSome (parseForParameter n P input state) (\<lambda>parameter state1.
       andThen (matchToken input state1 Comma) (\<lambda>(comma, state2).
         case comma of
           None \<Rightarrow> Done (Some (parameters @ [parameter]), state2)
         | Some c \<Rightarrow> parseForParameters n P input (parameters @ [parameter]) state2))"

definition parseForArgument :: "nat \<Rightarrow> exprParser \<Rightarrow> Token list list \<Rightarrow> ParserState \<Rightarrow> ForArgumentAstNode parsed" where
  "parseForArgument n P input state =
     whenSome (parseVariable n P input state) (\<lambda>variable state1.
       andThen (matchToken input state1 EqualsToken) (\<lambda>(equals, state2).
         case equals of
           None \<Rightarrow> failWith ''Expected equals after for loop variable'' input state2
         | Some e \<Rightarrow>
             whenSome (parseForParameters n P input [] state2) (\<lambda>parameters state3.
               andThen (getToken input state3) (\<lambda>lastToken.
                 Done (Some (ForArgument (fst (variableRange variable), tokenStart lastToken)
                               variable parameters),
                       state3)))))"

definition parseFor :: "nat \<Rightarrow> exprParser \<Rightarrow> cmdParser \<Rightarrow> Token list list \<Rightarrow> ParserState \<Rightarrow> CommandBodyAstNode parsed" where
  "parseFor n P Q input state =
     andThen (getToken input state) (\<lambda>firstToken.
       andThen (matchWhitespace input state) (\<lambda>(white, state1).
         andThen
           (if white then Done (Some None, state1)
            else
              andThen (parseForArgument n P input state1) (\<lambda>(arg, state2).
                andThen (matchWhitespace input state2) (\<lambda>(white2, state3).
                  if \<not> white2 then failWith ''Expected space after for loop argument'' input state3
                  else Done (Some arg, state3))))
           (\<lambda>(parsedArg, state4).
              case parsedArg of
                None \<Rightarrow> Done (None, state4)
              | Some arg \<Rightarrow>
                  whenSome (parseInlineCommands n Q input [] state4) (\<lambda>nodes state5.
                    andThen (getToken input state5) (\<lambda>lastToken.
                      Done (Some (ForNode (tokenStart firstToken, tokenStart lastToken) arg nodes),
                            state5))))))"

text \<open>The target of a \<^verbatim>\<open>set\<close> argument: after a \<^verbatim>\<open>$\<close> a builtin, which must be extract.\<close>

definition parseSetTarget :: "nat \<Rightarrow> exprParser \<Rightarrow> Token list list \<Rightarrow> ParserState \<Rightarrow> SetTargetAstNode parsed" where
  "parseSetTarget n P input state =
     andThen (matchToken input state Dollar) (\<lambda>(dollar, state1).
       case dollar of
         Some d \<Rightarrow>
           whenSome (parseBuiltin n P input state1) (\<lambda>target state2.
             case target of
               ExtractBuiltin r t extractionStart extractionEnd \<Rightarrow>
                 Done (Some (TargetExtract r t extractionStart extractionEnd), state2)
             | other \<Rightarrow>
                 Done (None,
                   parserReportErrorAt ''Extract is the only settable builtin''
                     (fst (expressionRange target)) state2))
       | None \<Rightarrow>
           whenSome (parseVariable n P input state1) (\<lambda>v state2.
             Done (Some (TargetVariable v), state2)))"

definition setTargetRange :: "SetTargetAstNode \<Rightarrow> TextRange" where
  "setTargetRange target =
     (case target of
        TargetVariable v \<Rightarrow> variableRange v
      | TargetExtract r t extractionStart extractionEnd \<Rightarrow> r)"

fun parseSetLoop :: "nat \<Rightarrow> exprParser \<Rightarrow> Token list list \<Rightarrow> SetArgAstNode list \<Rightarrow> ParserState
    \<Rightarrow> (SetArgAstNode list) parsed" where
  "parseSetLoop 0 P input args state = OutOfFuel"
| "parseSetLoop (Suc n) P input args state =
     andThen (matchWhitespace input state) (\<lambda>(white, state1).
       if white then Done (Some args, state1)
       else
         whenSome (parseSetTarget n P input state1) (\<lambda>target state2.
           andThen (matchToken input state2 EqualsToken) (\<lambda>(equals, state3).
             case equals of
               None \<Rightarrow> failWith ''Expected equals after identifier in set command'' input state3
             | Some e \<Rightarrow>
                 whenSome (P input state3) (\<lambda>expression state4.
                   (let arg = SetArgument (fst (setTargetRange target), snd (expressionRange expression))
                                target expression
                    in andThen (matchToken input state4 Comma) (\<lambda>(comma, state5).
                         case comma of
                           None \<Rightarrow> Done (Some (args @ [arg]), state5)
                         | Some c \<Rightarrow> parseSetLoop n P input (args @ [arg]) state5))))))"

definition parseSet :: "nat \<Rightarrow> exprParser \<Rightarrow> Token list list \<Rightarrow> ParserState \<Rightarrow> CommandBodyAstNode parsed" where
  "parseSet n P input state =
     andThen (getToken input state) (\<lambda>firstToken.
       whenSome (parseSetLoop n P input [] state) (\<lambda>args state1.
         andThen (getToken input state1) (\<lambda>lastToken.
           Done (Some (SetNode (tokenStart firstToken, tokenStart lastToken) args), state1))))"

fun parseIdentifierListLoop :: "nat \<Rightarrow> Token list list \<Rightarrow> IdentifierAstNode list \<Rightarrow> ParserState
    \<Rightarrow> (IdentifierAstNode list) parsed" where
  "parseIdentifierListLoop 0 input identifiers state = OutOfFuel"
| "parseIdentifierListLoop (Suc n) input identifiers state =
     andThen (matchWhitespace input state) (\<lambda>(white, state1).
       if white then Done (Some identifiers, state1)
       else
         whenSome (matchToken input state1 IdentifierToken) (\<lambda>token state2.
           andThen (matchToken input state2 Comma) (\<lambda>(comma, state3).
             case comma of
               None \<Rightarrow> Done (Some (identifiers @ [makeIdentifierAstNode token]), state3)
             | Some c \<Rightarrow>
                 parseIdentifierListLoop n input (identifiers @ [makeIdentifierAstNode token]) state3)))"

definition parseIdentifierList :: "nat \<Rightarrow> Token list list \<Rightarrow> ParserState \<Rightarrow> (IdentifierAstNode list) parsed" where
  "parseIdentifierList n input state = parseIdentifierListLoop n input [] state"

definition parseNew :: "nat \<Rightarrow> Token list list \<Rightarrow> ParserState \<Rightarrow> CommandBodyAstNode parsed" where
  "parseNew n input state =
     andThen (getToken input state) (\<lambda>firstToken.
       whenSome (parseIdentifierList n input state) (\<lambda>args state1.
         andThen (getToken input state1) (\<lambda>lastToken.
           Done (Some (NewNode (tokenStart firstToken, tokenStart lastToken) args), state1))))"

definition parseKill :: "nat \<Rightarrow> exprParser \<Rightarrow> Token list list \<Rightarrow> ParserState \<Rightarrow> CommandBodyAstNode parsed" where
  "parseKill n P input state =
     andThen (getToken input state) (\<lambda>firstToken.
       whenSome (parseNodeList n (parseVariable n P) input state) (\<lambda>args state1.
         andThen (getToken input state1) (\<lambda>lastToken.
           Done (Some (KillNode (tokenStart firstToken, tokenStart lastToken) args), state1))))"

definition parseMerge :: "nat \<Rightarrow> exprParser \<Rightarrow> Token list list \<Rightarrow> ParserState \<Rightarrow> CommandBodyAstNode parsed" where
  "parseMerge n P input state =
     whenSome (parseVariable n P input state) (\<lambda>left state1.
       andThen (matchToken input state1 EqualsToken) (\<lambda>(equals, state2).
         case equals of
           None \<Rightarrow> failWith ''Expected equals between variables to merge'' input state2
         | Some e \<Rightarrow>
             whenSome (parseVariable n P input state2) (\<lambda>right state3.
               Done (Some (MergeNode (fst (variableRange left), snd (variableRange right)) left right),
                     state3))))"

definition parseHalt :: "Token list list \<Rightarrow> ParserState \<Rightarrow> CommandBodyAstNode parsed" where
  "parseHalt input state =
     andThen (getToken input state) (\<lambda>token.
       Done (Some (HaltNode (tokenStart token, tokenEnd token)), state))"

text \<open>The table \<^verbatim>\<open>commandBodyVariants\<close>, in its order.\<close>

definition commandBodyVariants :: "nat \<Rightarrow> exprParser \<Rightarrow> cmdParser
    \<Rightarrow> (string \<times> (Token list list \<Rightarrow> ParserState \<Rightarrow> CommandBodyAstNode parsed)) list" where
  "commandBodyVariants n P Q =
     [(''write'', parseWrite n P),
      (''quit'', parseQuit P),
      (''do'', parseDo n P Q),
      (''if'', parseIf n P Q),
      (''else'', parseElse n Q),
      (''for'', parseFor n P Q),
      (''set'', parseSet n P),
      (''new'', parseNew n),
      (''kill'', parseKill n P),
      (''merge'', parseMerge n P),
      (''halt'', parseHalt)]"

text \<open>
  The loop of \<^verbatim>\<open>parseCommand\<close> over the table. It has no \<^verbatim>\<open>break\<close>: every
  variant whose name starts with the name of the command parses, from where
  the one before it stopped, and the body of the last one stays.
\<close>

fun parseCommandVariants :: "(string \<times> (Token list list \<Rightarrow> ParserState \<Rightarrow> CommandBodyAstNode parsed)) list
    \<Rightarrow> string \<Rightarrow> Token list list \<Rightarrow> CommandBodyAstNode option \<Rightarrow> ParserState
    \<Rightarrow> (CommandBodyAstNode option step \<times> ParserState) outcome" where
  "parseCommandVariants [] lowerCaseName input body state =
     Done ((case body of None \<Rightarrow> Proceed | Some b \<Rightarrow> Return (Some b)), state)"
| "parseCommandVariants (variant # rest) lowerCaseName input body state =
     (if startsWith (fst variant) lowerCaseName then
        andThen (snd variant input state) (\<lambda>(parsedBody, state1).
          case parsedBody of
            None \<Rightarrow> Done (Return None, state1)
          | Some b \<Rightarrow> parseCommandVariants rest lowerCaseName input (Some b) state1)
      else parseCommandVariants rest lowerCaseName input body state)"

text \<open>The end of the body of a command, \<^verbatim>\<open>body.end\<close>.\<close>

definition bodyRange :: "CommandBodyAstNode \<Rightarrow> TextRange" where
  "bodyRange body =
     (case body of
        CommentNode r \<Rightarrow> r
      | WriteNode r args \<Rightarrow> r
      | QuitNode r returnValue \<Rightarrow> r
      | CallCommandNode c \<Rightarrow> callRange c
      | DoBlockNode r nodes \<Rightarrow> r
      | IfNode r conditions nodes \<Rightarrow> r
      | ElseNode r nodes \<Rightarrow> r
      | ForNode r arg nodes \<Rightarrow> r
      | SetNode r args \<Rightarrow> r
      | NewNode r args \<Rightarrow> r
      | KillNode r args \<Rightarrow> r
      | MergeNode r left right \<Rightarrow> r
      | HaltNode r \<Rightarrow> r)"

definition parseCommand :: "nat \<Rightarrow> exprParser \<Rightarrow> cmdParser \<Rightarrow> Token list list \<Rightarrow> ParserState \<Rightarrow> CommandAstNode parsed" where
  "parseCommand n P Q input state =
     andThen (matchToken input state CommentToken) (\<lambda>(comment, state1).
       case comment of
         Some commentToken \<Rightarrow>
           Done (Some (Command (tokenStart commentToken, tokenEnd commentToken) None
                         (CommentNode (tokenStart commentToken, tokenEnd commentToken))),
                 state1)
       | None \<Rightarrow>
           andThen (matchToken input state1 IdentifierToken) (\<lambda>(name, state2).
             case name of
               None \<Rightarrow> failWith ''Expected command name'' input state2
             | Some nameToken \<Rightarrow>
                 andThen (matchToken input state2 Colon) (\<lambda>(colon, state3).
                   andThen
                     (case colon of
                        None \<Rightarrow> Done (Some None, state3)
                      | Some c \<Rightarrow>
                          whenSome (P input state3) (\<lambda>condition state4.
                            Done (Some (Some condition), state4)))
                     (\<lambda>(parsedCondition, state5).
                        case parsedCondition of
                          None \<Rightarrow> Done (None, state5)
                        | Some condition \<Rightarrow>
                            andThen (matchWhitespace input state5) (\<lambda>(white, state6).
                              if \<not> white
                              then failWith ''Expected space between command and arguments'' input state6
                              else
                                andThen
                                  (parseCommandVariants (commandBodyVariants n P Q)
                                     (toLowerCase (tokenText nameToken)) input None state6)
                                  (\<lambda>(step, state7).
                                     case step of
                                       Return None \<Rightarrow> Done (None, state7)
                                     | Proceed \<Rightarrow>
                                         Done (None,
                                           parserReportErrorAt ''Unrecognized command name''
                                             (tokenStart nameToken) state7)
                                     | Return (Some body) \<Rightarrow>
                                         andThen (matchWhitespace input state7) (\<lambda>(white2, state8).
                                           if \<not> white2
                                           then failWith
                                                  ''Expected space between arguments and next commands''
                                                  input state8
                                           else
                                             Done (Some (Command (tokenStart nameToken, snd (bodyRange body))
                                                           condition body),
                                                   state8))))))))"

text \<open>
  \<^verbatim>\<open>parseTag\<close>. The result of the source is a list of names, \<^verbatim>\<open>null\<close> or
  \<^verbatim>\<open>undefined\<close>: here \<open>Some (Some names)\<close>, \<open>Some None\<close> and \<open>None\<close>.
\<close>

fun parseTagParameters :: "nat \<Rightarrow> Token list list \<Rightarrow> nat \<Rightarrow> string list \<Rightarrow> ParserState
    \<Rightarrow> (string list \<times> ParserState) outcome" where
  "parseTagParameters 0 input i names state = OutOfFuel"
| "parseTagParameters (Suc n) input i names state =
     andThen (matchToken input state IdentifierToken) (\<lambda>(param, state1).
       case param of
         None \<Rightarrow>
           (if 0 < i
            then andThen (parserReportError ''Expected parameter name'' input state1)
                   (\<lambda>state2. Done (names, state2))
            else Done (names, state1))
       | Some paramToken \<Rightarrow>
           andThen (matchToken input state1 Comma) (\<lambda>(comma, state2).
             case comma of
               None \<Rightarrow> Done (names @ [tokenText paramToken], state2)
             | Some c \<Rightarrow> parseTagParameters n input (i + 1) (names @ [tokenText paramToken]) state2))"

definition parseTag :: "nat \<Rightarrow> Token list list \<Rightarrow> ParserState \<Rightarrow> (string list option) parsed" where
  "parseTag n input state =
     andThen (getToken input state) (\<lambda>token.
       andThen
         (if kind token = LeftParen then
            andThen (nextToken input state) (\<lambda>(t, state1).
              andThen (parseTagParameters n input 0 [] state1) (\<lambda>(names, state2).
                andThen (matchToken input state2 RightParen) (\<lambda>(close, state3).
                  case close of
                    None \<Rightarrow> failWith ''Unterminated parameter list'' input state3
                  | Some c \<Rightarrow> Done (Some (Some names), state3))))
          else Done (Some None, state))
         (\<lambda>(parsedParams, state4).
            case parsedParams of
              None \<Rightarrow> Done (None, state4)
            | Some ps \<Rightarrow>
                andThen (matchWhitespace input state4) (\<lambda>(white, state5).
                  if \<not> white then failWith ''Expected space after tag name'' input state5
                  else Done (Some ps, state5))))"

text \<open>The loop of \<^verbatim>\<open>parseTopLevel\<close> over the lines, with the tree built so far.\<close>

fun parseTopLevelLoop :: "nat \<Rightarrow> cmdParser \<Rightarrow> Token list list \<Rightarrow> TopLevelAstNode \<Rightarrow> ParserState
    \<Rightarrow> TopLevelAstNode parsed" where
  "parseTopLevelLoop 0 Q input topLevel state = OutOfFuel"
| "parseTopLevelLoop (Suc n) Q input topLevel state =
     (if \<not> positionLine state < length input then Done (Some topLevel, state)
      else
        andThen (getToken input state) (\<lambda>firstToken.
          andThen
            (if kind firstToken = IdentifierToken then
               andThen (nextToken input state) (\<lambda>(t, state1).
                 whenSome (parseTag n input state1) (\<lambda>ps state2.
                   Done (Some
                           (if map_of (tags topLevel) (tokenText firstToken) = None
                            then topLevel\<lparr>tags := tags topLevel @
                                   [(tokenText firstToken,
                                     \<lparr>index = length (children topLevel), params = ps\<rparr>)]\<rparr>
                            else topLevel),
                         state2)))
             else
               andThen (matchWhitespace input state) (\<lambda>(white, state1).
                 if \<not> white then failWith ''Expected leading space'' input state1
                 else Done (Some topLevel, state1)))
            (\<lambda>(tagged, state3).
               case tagged of
                 None \<Rightarrow> Done (None, state3)
               | Some topLevel1 \<Rightarrow>
                   whenSome (parseBlock n Q input state3 False) (\<lambda>block state4.
                     parseTopLevelLoop n Q input
                       (topLevel1\<lparr>children := children topLevel1 @ block\<rparr>) state4))))"

definition parseTopLevel :: "nat \<Rightarrow> cmdParser \<Rightarrow> Token list list \<Rightarrow> ParserState \<Rightarrow> TopLevelAstNode parsed" where
  "parseTopLevel n Q input state =
     (if input \<noteq> [] \<and> last input = [] then Throw TypeError
      else parseTopLevelLoop n Q input \<lparr>tags = [], children = []\<rparr> state)"

subsection \<open>The parser with fuel\<close>

fun parseE :: "nat \<Rightarrow> Token list list \<Rightarrow> ParserState \<Rightarrow> ExpressionAstNode parsed" where
  "parseE 0 input state = OutOfFuel"
| "parseE (Suc n) input state = parseExpression n (parseE n) input state"

fun parseC :: "nat \<Rightarrow> Token list list \<Rightarrow> ParserState \<Rightarrow> CommandAstNode parsed" where
  "parseC 0 input state = OutOfFuel"
| "parseC (Suc n) input state = parseCommand n (parseE n) (parseC n) input state"

definition makeParserPosition :: ParserState where
  "makeParserPosition =
     \<lparr>positionLine = 0, positionColumn = 0, nextUnparsedLine = 1, indentationLevel = 0,
      parserErrors = []\<rparr>"

text \<open>\<^verbatim>\<open>parse\<close>: the tree, or \<open>None\<close> for \<^verbatim>\<open>undefined\<close>, and the errors.\<close>

definition parse :: "nat \<Rightarrow> Token list list \<Rightarrow> (TopLevelAstNode option \<times> MError list) outcome" where
  "parse n input =
     andThen (parseTopLevel n (parseC n) input makeParserPosition) (\<lambda>(tree, state).
       Done (tree, parserErrors state))"

text \<open>
  Modelled from the spec: \<^verbatim>\<open>evaluate\<close> of \<^verbatim>\<open>evaluate.ts\<close>, which is not among
  the sources, after the tokenizer. "Entry point: evaluate a source string
  to output and errors." The parser runs on the tokens; when it reports an
  error or returns no tree, the output is empty and the errors are the
  parser's; otherwise the tree is interpreted.
\<close>

definition evaluateTokens :: "nat \<Rightarrow> (nat \<Rightarrow> rat) \<Rightarrow> (rat \<Rightarrow> rat \<Rightarrow> number) \<Rightarrow> Token list list
    \<Rightarrow> (string \<times> MError list) outcome" where
  "evaluateTokens n randoms fpow input =
     andThen (parse n input) (\<lambda>(tree, parseErrors).
       case tree of
         None \<Rightarrow> Done ([], parseErrors)
       | Some t \<Rightarrow>
           if parseErrors \<noteq> [] then Done ([], parseErrors)
           else interpretAst n randoms fpow t [])"
section \<open>Evaluation rules\<close>

text \<open>The definitions that a run of the interpreter on a concrete program unfolds.\<close>

lemmas combinator_defs =
  andThen_def whenOk_def popThen_def popValue_def pushValue_def interpretOptional_def

lemmas reference_defs =
  getVariableReference_def getReference_def getSubscriptKey_def getReferenceValue_def
  setReferenceValue_def setVariable_def interpretVariable_def frameZero_def
  environmentGet_def environmentSet_def environmentAt_def environmentDelete_def
  newArray_def newEnvironment_def mArrayGet_def mArraySet_def arrayAt_def mValueToScalar_def
  reportError_def makeInterpreterState_def



lemma interpE_NumberLiteral:
  "interpE (Suc n) (NumberLiteral r x) state = Done (True, pushValue (MNum x) state)"
  by (simp add: interpretExpression_def)

lemma popValue_pushValue: "popValue (pushValue v state) = Done (v, state)"
  by (simp add: popValue_def pushValue_def)

section \<open>The comparison operators\<close>

text \<open>
  Claim C1 says that \<^verbatim>\<open>=\<close> compares the string forms of its operands and
  that \<^verbatim>\<open><\<close> and \<^verbatim>\<open>>\<close> compare their numeric coercions, so that
  \<^verbatim>\<open>1="1"\<close> and \<^verbatim>\<open>"10">"9"\<close> are 1. The source compares the two scalars
  with \<^verbatim>\<open>===\<close>, \<^verbatim>\<open><\<close> and \<^verbatim>\<open>>\<close> of JavaScript as they are: the number 1
  and the string \<^verbatim>\<open>"1"\<close> have equal string forms and are not \<^verbatim>\<open>===\<close>, and two
  strings are compared by code units although 9 is less than 10. Both
  expressions evaluate to 0, with any fuel from 2 on and in any state.
\<close>

theorem comparison_without_coercion:
  "mValueToString (MNum (Finite 1)) = mValueToString (MStr ''1'')
   \<and> interpE (Suc (Suc n))
         (BinaryOp r (NumberLiteral r1 (Finite 1)) (StringLiteral r2 ''1'') Equals False) state
       = Done (True, pushValue (MNum (Finite 0)) state)
   \<and> nLess (mValueToNumber (MStr ''9'')) (mValueToNumber (MStr ''10''))
   \<and> interpE (Suc (Suc n))
         (BinaryOp r (StringLiteral r1 ''10'') (StringLiteral r2 ''9'') GreaterThan False) state
       = Done (True, pushValue (MNum (Finite 0)) state)"
proof -
  have a: "mValueToString (MNum (Finite 1)) = mValueToString (MStr ''1'')"
    by code_simp
  have b: "nLess (mValueToNumber (MStr ''9'')) (mValueToNumber (MStr ''10''))"
    by code_simp
  have c: "interpE (Suc (Suc n))
         (BinaryOp r (NumberLiteral r1 (Finite 1)) (StringLiteral r2 ''1'') Equals False) state
       = Done (True, pushValue (MNum (Finite 0)) state)"
    by (simp add: interpretExpression_def interpretBinaryOp_def combinator_defs binaryOpValue_def
        numberScalar_def)
  have d: "interpE (Suc (Suc n))
         (BinaryOp r (StringLiteral r1 ''10'') (StringLiteral r2 ''9'') GreaterThan False) state
       = Done (True, pushValue (MNum (Finite 0)) state)"
    by (simp add: interpretExpression_def interpretBinaryOp_def combinator_defs binaryOpValue_def
        numberScalar_def)
  from a b c d show ?thesis by blast
qed

section \<open>The for command\<close>

text \<open>A sweep of a \<^verbatim>\<open>for\<close> parameter never returns \<open>Quit\<close>: the helpers turn it into \<open>Continue\<close>.\<close>

lemma andThen_Done:
  "andThen m f = Done y \<Longrightarrow> \<exists>x. m = Done x \<and> f x = Done y"
  by (cases m) (simp_all add: andThen_def)











text \<open>The state in which the witnesses below run: the initial state of a program without tags.\<close>

definition initialState :: InterpreterState where
  "initialState = makeInterpreterState \<lparr>tags = [], children = []\<rparr> [] (\<lambda>k. 0) (\<lambda>b e. NaN)"


section \<open>The find builtin\<close>

text \<open>
  Claim C3 says that \<^verbatim>\<open>$F(hay, needle, start)\<close> is the position after the
  first occurrence of the needle at or after \<open>start\<close>, 0 when there is none,
  and 1 for the empty needle. The matching loop of the source does not go
  back in the haystack after a partial match: \<^verbatim>\<open>aab\<close> occurs in \<^verbatim>\<open>aaab\<close> at
  position 2, the position after it is 5, and \<^verbatim>\<open>$F("aaab","aab")\<close> is 0. The
  source also evaluates the haystack where it should evaluate the start:
  \<^verbatim>\<open>$F("abab","ab",3)\<close> is 3, the position after the occurrence at 1, and not
  5, the position after the first occurrence at or after 3.
\<close>

theorem find_misses_occurrence:
  "interpE (Suc (Suc n))
     (FindBuiltin r (Some (StringLiteral r1 ''aaab'')) (Some (StringLiteral r2 ''aab'')) None) state
   = Done (True, pushValue (MNum (Finite 0)) state)
   \<and> interpE (Suc (Suc n))
       (FindBuiltin r (Some (StringLiteral r1 ''abab'')) (Some (StringLiteral r2 ''ab''))
          (Some (NumberLiteral r3 (Finite 3)))) state
     = Done (True, pushValue (MNum (Finite 3)) state)"
proof -
  have a: "findFrom ''aaab'' ''aab'' (Finite 0) = 0"
    by code_simp
  have b: "nMax (nSub (mValueToNumber (MStr ''abab'')) (Finite 1)) (Finite 0) = Finite 0"
    by code_simp
  have c: "findFrom ''abab'' ''ab'' (Finite 0) = 3"
    by code_simp
  have d: "interpE (Suc (Suc n))
     (FindBuiltin r (Some (StringLiteral r1 ''aaab'')) (Some (StringLiteral r2 ''aab'')) None) state
   = Done (True, pushValue (MNum (Finite 0)) state)"
    by (simp add: interpretExpression_def interpretFindBuiltin_def combinator_defs
        mValueToString_def a)
  have e: "interpE (Suc (Suc n))
       (FindBuiltin r (Some (StringLiteral r1 ''abab'')) (Some (StringLiteral r2 ''ab''))
          (Some (NumberLiteral r3 (Finite 3)))) state
     = Done (True, pushValue (MNum (Finite 3)) state)"
    using b c
    by (simp add: interpretExpression_def interpretFindBuiltin_def combinator_defs
        mValueToString_def)
  from d e show ?thesis by blast
qed

section \<open>Exceptions\<close>

text \<open>
  Claim C4 says that the evaluator never throws. \<^verbatim>\<open>interpretDoBlock\<close> and
  \<^verbatim>\<open>interpretCall\<close> restore the length of the environment stack when they
  end; after a \<^verbatim>\<open>kill\<close> without arguments, which replaces the stack by one
  frame, the assignment makes the stack longer and leaves a hole, and the
  next lookup of a variable calls \<^verbatim>\<open>get\<close> on \<^verbatim>\<open>undefined\<close>. The program
  \<^verbatim>\<open> n a\<close>, \<^verbatim>\<open> d  w a\<close>, \<^verbatim>\<open> . k\<close> (three lines) throws a TypeError. The
  program \<^verbatim>\<open> w ?1/0\<close> throws a RangeError, from \<^verbatim>\<open>" ".repeat(Infinity)\<close>.
\<close>

theorem interpret_throws:
  "interpretAst 10 randoms fpow
     \<lparr>tags = [],
      children =
        [Command ((0, 1), (0, 4)) None
           (NewNode ((0, 3), (0, 4)) [Identifier ((0, 3), (0, 4)) ''a'']),
         Command ((1, 1), (1, 3)) None
           (DoBlockNode ((1, 3), (1, 3))
              [Command ((2, 3), (2, 4)) None (KillNode ((2, 4), (2, 4)) [])]),
         Command ((1, 4), (1, 7)) None
           (WriteNode ((1, 6), (1, 7))
              [WriteExpression
                 (Variable (VariableNode ((1, 6), (1, 7)) (Identifier ((1, 6), (1, 7)) ''a'') []))])]\<rparr>
     []
   = Throw TypeError
   \<and> interpretAst 10 randoms fpow
       \<lparr>tags = [],
        children =
          [Command ((0, 1), (0, 7)) None
             (WriteNode ((0, 3), (0, 7))
                [QuestionMarkFormatter
                   (BinaryOp ((0, 4), (0, 7)) (NumberLiteral ((0, 4), (0, 5)) (Finite 1))
                      (NumberLiteral ((0, 6), (0, 7)) (Finite 0)) Divide False)])]\<rparr>
       []
     = Throw RangeError"
  by code_simp

section \<open>The order builtin\<close>

text \<open>
  Claim C7, on \<^verbatim>\<open>$O\<close>. When the direction argument is there and coerces to
  a number other than 1 and -1, the error is reported and the function
  returns false with the value stack as it is after the direction was popped:
  no result is pushed. When the direction is accepted and the variable has
  no subscripts the result is the empty string; and when the parent of the
  last subscript resolves and its value is not an array node, the result is
  the empty string (once the last subscript is evaluated, as the source does
  before it looks at the parent).
\<close>

theorem order_builtin_direction_and_parent:
  "(E d state = Done (True, s1) \<longrightarrow> popValue s1 = Done (v, s2)
      \<longrightarrow> \<not> nEq (mValueToNumber v) (Finite 1) \<longrightarrow> \<not> nEq (mValueToNumber v) (Finite (- 1))
      \<longrightarrow> interpretOrderBuiltin E variable (Some d) state
          = Done (False,
              reportError ''Expected 1 or -1 for order builtin's direction argument''
                (expressionRange d) s2))
   \<and> (orderDirection E direction state = Done (Some dir, s3)
      \<longrightarrow> variableSubscripts variable = []
      \<longrightarrow> interpretOrderBuiltin E variable direction state = Done (True, pushValue (MStr []) s3))
   \<and> (orderDirection E direction state = Done (Some dir, s3)
      \<longrightarrow> variableSubscripts variable \<noteq> []
      \<longrightarrow> getVariableReference E variable s3 (length (variableSubscripts variable) - 1) None False
            = Done (Some reference, s4)
      \<longrightarrow> getReferenceValue s4 reference = Done (Scalar x)
      \<longrightarrow> E (variableSubscripts variable ! (length (variableSubscripts variable) - 1)) s4
            = Done (True, s5)
      \<longrightarrow> popValue s5 = Done (k, s6)
      \<longrightarrow> interpretOrderBuiltin E variable direction state = Done (True, pushValue (MStr []) s6))"
  by (simp add: interpretOrderBuiltin_def orderDirection_def whenOk_def popThen_def andThen_def
      Let_def)

theorem order_builtin_direction_and_parent_witness:
  "interpretOrderBuiltin (interpE 2)
     (VariableNode ((0, 6), (0, 12)) (Identifier ((0, 6), (0, 7)) ''x'') [StringLiteral ((0, 8), (0, 11)) ''k''])
     (Some (NumberLiteral ((0, 13), (0, 14)) (Finite 2))) initialState
   = Done (False,
       reportError ''Expected 1 or -1 for order builtin's direction argument'' ((0, 13), (0, 14))
         initialState)
   \<and> interpretOrderBuiltin (interpE 2)
       (VariableNode ((0, 6), (0, 7)) (Identifier ((0, 6), (0, 7)) ''x'') []) None initialState
     = Done (True, pushValue (MStr []) initialState)
   \<and> interpretOrderBuiltin (interpE 2)
       (VariableNode ((0, 6), (0, 12)) (Identifier ((0, 6), (0, 7)) ''x'') [StringLiteral ((0, 8), (0, 11)) ''k''])
       None initialState
     = Done (True, pushValue (MStr []) initialState)"
proof -
  let ?d = "NumberLiteral ((0, 13), (0, 14)) (Finite 2)"
  let ?x = "VariableNode ((0, 6), (0, 7)) (Identifier ((0, 6), (0, 7)) ''x'') []"
  let ?xk = "VariableNode ((0, 6), (0, 12)) (Identifier ((0, 6), (0, 7)) ''x'') [StringLiteral ((0, 8), (0, 11)) ''k'']"
  have two: "(2::nat) = Suc (Suc 0)" by simp
  have d1: "interpE 2 ?d initialState = Done (True, pushValue (MNum (Finite 2)) initialState)"
    unfolding two by (rule interpE_NumberLiteral)
  have d2: "popValue (pushValue (MNum (Finite 2)) initialState) = Done (MNum (Finite 2), initialState)"
    by (rule popValue_pushValue)
  have d3: "\<not> nEq (mValueToNumber (MNum (Finite 2))) (Finite 1)"
    and d4: "\<not> nEq (mValueToNumber (MNum (Finite 2))) (Finite (- 1))"
    by (simp_all add: mValueToNumber_def)
  have o: "orderDirection (interpE 2) None initialState = Done (Some (Finite 1), initialState)"
    by (simp add: orderDirection_def)
  have n: "variableSubscripts ?x = []" by simp
  have m: "variableSubscripts ?xk \<noteq> []" by simp
  have g: "getVariableReference (interpE 2) ?xk initialState (length (variableSubscripts ?xk) - 1) None False
           = Done (Some (EnvironmentReference (Some 0) ''x''), initialState)"
    by (simp add: initialState_def reference_defs combinator_defs)
  have v: "getReferenceValue initialState (EnvironmentReference (Some 0) ''x'') = Done (Scalar (MStr []))"
    by (simp add: initialState_def reference_defs)
  have e: "interpE 2 (variableSubscripts ?xk ! (length (variableSubscripts ?xk) - 1)) initialState
           = Done (True, pushValue (MStr ''k'') initialState)"
    unfolding two by (simp add: interpretExpression_def)
  have p: "popValue (pushValue (MStr ''k'') initialState) = Done (MStr ''k'', initialState)"
    by (rule popValue_pushValue)
  have t: "interpretOrderBuiltin (interpE 2) ?xk (Some ?d) initialState
           = Done (False,
               reportError ''Expected 1 or -1 for order builtin's direction argument''
                 (expressionRange ?d) initialState)"
    using order_builtin_direction_and_parent
      [of "interpE 2" ?d initialState "pushValue (MNum (Finite 2)) initialState" "MNum (Finite 2)"
          initialState ?xk] d1 d2 d3 d4
    by blast
  have u: "interpretOrderBuiltin (interpE 2) ?x None initialState
           = Done (True, pushValue (MStr []) initialState)"
    using order_builtin_direction_and_parent
      [of "interpE 2" _ initialState _ _ _ ?x None "Finite 1" initialState] o n
    by blast
  have w: "interpretOrderBuiltin (interpE 2) ?xk None initialState
           = Done (True, pushValue (MStr []) initialState)"
    using order_builtin_direction_and_parent
      [of "interpE 2" _ initialState _ _ _ ?xk None "Finite 1" initialState
          "EnvironmentReference (Some 0) ''x''" initialState "MStr []"
          "pushValue (MStr ''k'') initialState" "MStr ''k''" initialState]
      o m g v e p
    by blast
  from t u w show ?thesis by simp
qed

section \<open>Calls\<close>

text \<open>
  Claim C10: when a tag is called with more arguments than it has
  parameters, the call is what it is without the arguments beyond the
  parameters. The outcome and the state are the same, so the extra
  arguments are never evaluated: they write nothing, report nothing and
  change no variable. A tag declared without a parameter list evaluates no
  argument at all.
\<close>

theorem call_ignores_extra_arguments:
  assumes "map_of (tags (ast state)) (identifierText name) = Some tag"
    and "case params tag of None \<Rightarrow> True | Some ps \<Rightarrow> length ps \<le> length args"
  shows "interpretCall E C (CallNode r name (args @ extra)) state hasReturnValue
       = interpretCall E C (CallNode r name args) state hasReturnValue"
proof (cases "params tag")
  case None
  with assms(1) show ?thesis by (simp add: interpretCall_def)
next
  case (Some ps)
  with assms(2) have le: "length ps \<le> length args" by simp
  then have z: "zip ps (args @ extra) = zip ps args"
    by (simp add: zip_append2)
  have d1: "drop (length (args @ extra)) ps = []" using le by simp
  have d2: "drop (length args) ps = []" using le by simp
  show ?thesis
    unfolding interpretCall_def using assms(1) Some
    by (simp only: z d1 d2 CallAstNode.case option.case)
qed

text \<open>
  The witness: the tag \<^verbatim>\<open>f(x)\<close> called as \<^verbatim>\<open>f("1",$$g())\<close>, where no tag \<^verbatim>\<open>g\<close>
  exists. Evaluating the second argument would report an error.
\<close>

definition callState :: InterpreterState where
  "callState =
     makeInterpreterState
       \<lparr>tags = [(''f'', \<lparr>index = 0, params = Some [''x'']\<rparr>)],
        children = [Command ((1, 1), (1, 2)) None (QuitNode ((1, 2), (1, 2)) None)]\<rparr>
       [] (\<lambda>k. 0) (\<lambda>b e. NaN)"

theorem call_ignores_extra_arguments_witness:
  "interpretCall (interpE 3) (interpC 3)
     (CallNode ((0, 3), (0, 15)) (Identifier ((0, 3), (0, 4)) ''f'')
        ([Argument (StringLiteral ((0, 5), (0, 8)) ''1'')]
         @ [Argument (Call (CallNode ((0, 11), (0, 14)) (Identifier ((0, 11), (0, 12)) ''g'') []))]))
     callState False
   = interpretCall (interpE 3) (interpC 3)
       (CallNode ((0, 3), (0, 15)) (Identifier ((0, 3), (0, 4)) ''f'')
          [Argument (StringLiteral ((0, 5), (0, 8)) ''1'')])
       callState False"
proof -
  have t: "map_of (tags (ast callState)) (identifierText (Identifier ((0, 3), (0, 4)) ''f''))
           = Some \<lparr>index = 0, params = Some [''x'']\<rparr>"
    by (simp add: callState_def makeInterpreterState_def)
  have l: "case params \<lparr>index = 0, params = Some [''x'']\<rparr> of
             None \<Rightarrow> True
           | Some ps \<Rightarrow> length ps \<le> length [Argument (StringLiteral ((0, 5), (0, 8)) ''1'')]"
    by simp
  from call_ignores_extra_arguments [OF t l] show ?thesis .
qed

section \<open>Operators are parsed from left to right\<close>

lemmas token_defs =
  getToken_def nextToken_def matchToken_def getWhitespace_def matchWhitespace_def
  makeParserPosition_def whenSome_def andThen_def unaryOperator_def

text \<open>Tokens on line 0, from a column to a column: of a kind, of a number, of an identifier.\<close>

definition token :: "TokenKind \<Rightarrow> nat \<Rightarrow> nat \<Rightarrow> Token" where
  "token k a b =
     \<lparr>kind = k, tokenText = [], stringValue = [], numberValue = Finite 0,
      tokenStart = (0, a), tokenEnd = (0, b)\<rparr>"

definition numberToken :: "number \<Rightarrow> nat \<Rightarrow> nat \<Rightarrow> Token" where
  "numberToken x a b = (token NumberToken a b)\<lparr>numberValue := x\<rparr>"

definition identifierToken :: "string \<Rightarrow> nat \<Rightarrow> nat \<Rightarrow> Token" where
  "identifierToken t a b = (token IdentifierToken a b)\<lparr>tokenText := t\<rparr>"


text \<open>
  Claim C8: binary operators have no precedence. For all numbers \<open>a\<close>,
  \<open>b\<close>, \<open>c\<close> and all kinds \<open>k1\<close>, \<open>k2\<close> of binary operator tokens, the line
  \<^verbatim>\<open>a op1 b op2 c\<close> and the line \<^verbatim>\<open>(a op1 b) op2 c\<close> (at any columns) parse,
  with any fuel from 4 on, to the operator \<open>op2\<close> applied to the tree of
  \<^verbatim>\<open>a op1 b\<close> and to \<open>c\<close>; and both trees evaluate to the same value, that of
  \<open>op2\<close> on the value of \<open>op1\<close> on \<open>a\<close> and \<open>b\<close>, and on \<open>c\<close>. The program
  \<^verbatim>\<open> w 3+4*3\<close> writes \<^verbatim>\<open>21\<close>: its tokens are parsed and the tree is
  interpreted.
\<close>

theorem binary_operators_left_to_right:
  assumes "binaryOperator k1 False = Some op1"
    and "binaryOperator k2 False = Some op2"
  shows "parseE (Suc (Suc (Suc (Suc n))))
           [[numberToken a p0 p1, token k1 p1 p2, numberToken b p2 p3, token k2 p3 p4,
             numberToken c p4 p5, token TrailingWhitespace p5 p5]]
           makeParserPosition
         = Done (Some (BinaryOp ((0, p0), (0, p5))
                         (BinaryOp ((0, p0), (0, p3))
                            (NumberLiteral ((0, p0), (0, p1)) a)
                            (NumberLiteral ((0, p2), (0, p3)) b) op1 False)
                         (NumberLiteral ((0, p4), (0, p5)) c) op2 False),
                 makeParserPosition\<lparr>positionColumn := 5\<rparr>)
       \<and> parseE (Suc (Suc (Suc (Suc n))))
           [[token LeftParen q0 q1, numberToken a q1 q2, token k1 q2 q3, numberToken b q3 q4,
             token RightParen q4 q5, token k2 q5 q6, numberToken c q6 q7,
             token TrailingWhitespace q7 q7]]
           makeParserPosition
         = Done (Some (BinaryOp ((0, q1), (0, q7))
                         (BinaryOp ((0, q1), (0, q4))
                            (NumberLiteral ((0, q1), (0, q2)) a)
                            (NumberLiteral ((0, q3), (0, q4)) b) op1 False)
                         (NumberLiteral ((0, q6), (0, q7)) c) op2 False),
                 makeParserPosition\<lparr>positionColumn := 7\<rparr>)
       \<and> interpE (Suc (Suc (Suc m)))
           (BinaryOp ((0, p0), (0, p5))
              (BinaryOp ((0, p0), (0, p3))
                 (NumberLiteral ((0, p0), (0, p1)) a)
                 (NumberLiteral ((0, p2), (0, p3)) b) op1 False)
              (NumberLiteral ((0, p4), (0, p5)) c) op2 False)
           state
         = Done (True,
             pushValue
               (binaryOpValue (fractionalPower state) op2
                  (binaryOpValue (fractionalPower state) op1 (MNum a) (MNum b)) (MNum c))
               state)
       \<and> interpE (Suc (Suc (Suc m)))
           (BinaryOp ((0, q1), (0, q7))
              (BinaryOp ((0, q1), (0, q4))
                 (NumberLiteral ((0, q1), (0, q2)) a)
                 (NumberLiteral ((0, q3), (0, q4)) b) op1 False)
              (NumberLiteral ((0, q6), (0, q7)) c) op2 False)
           state
         = Done (True,
             pushValue
               (binaryOpValue (fractionalPower state) op2
                  (binaryOpValue (fractionalPower state) op1 (MNum a) (MNum b)) (MNum c))
               state)
       \<and> evaluateTokens 10 randoms fpow
           [[token LeadingWhitespace 0 1, identifierToken ''w'' 1 2, token Space 2 3,
             numberToken (Finite 3) 3 4, token PlusToken 4 5, numberToken (Finite 4) 5 6,
             token Asterisk 6 7, numberToken (Finite 3) 7 8, token TrailingWhitespace 8 8]]
         = Done (''21'', [])"
proof -
  have k1: "k1 \<noteq> SingleQuote" "k1 \<noteq> RightParen" "k1 \<noteq> TrailingWhitespace"
    using assms(1) by (auto simp: binaryOperator_def split: if_splits)
  have k2: "k2 \<noteq> SingleQuote" "k2 \<noteq> RightParen" "k2 \<noteq> TrailingWhitespace"
    using assms(2) by (auto simp: binaryOperator_def split: if_splits)
  have none: "binaryOperator TrailingWhitespace False = None" "binaryOperator RightParen False = None"
    by (simp_all add: binaryOperator_def)
  have a: "parseE (Suc (Suc (Suc (Suc n))))
           [[numberToken a p0 p1, token k1 p1 p2, numberToken b p2 p3, token k2 p3 p4,
             numberToken c p4 p5, token TrailingWhitespace p5 p5]]
           makeParserPosition
         = Done (Some (BinaryOp ((0, p0), (0, p5))
                         (BinaryOp ((0, p0), (0, p3))
                            (NumberLiteral ((0, p0), (0, p1)) a)
                            (NumberLiteral ((0, p2), (0, p3)) b) op1 False)
                         (NumberLiteral ((0, p4), (0, p5)) c) op2 False),
                 makeParserPosition\<lparr>positionColumn := 5\<rparr>)"
    using assms k1 k2 none
    by (simp add: parseExpression_def parsePrimary_def token_defs token_def numberToken_def)
  have b: "parseE (Suc (Suc (Suc (Suc n))))
           [[token LeftParen q0 q1, numberToken a q1 q2, token k1 q2 q3, numberToken b q3 q4,
             token RightParen q4 q5, token k2 q5 q6, numberToken c q6 q7,
             token TrailingWhitespace q7 q7]]
           makeParserPosition
         = Done (Some (BinaryOp ((0, q1), (0, q7))
                         (BinaryOp ((0, q1), (0, q4))
                            (NumberLiteral ((0, q1), (0, q2)) a)
                            (NumberLiteral ((0, q3), (0, q4)) b) op1 False)
                         (NumberLiteral ((0, q6), (0, q7)) c) op2 False),
                 makeParserPosition\<lparr>positionColumn := 7\<rparr>)"
    using assms k1 k2 none
    by (simp add: parseExpression_def parsePrimary_def token_defs token_def numberToken_def)
  have c: "interpE (Suc (Suc (Suc m)))
           (BinaryOp r (BinaryOp r1 (NumberLiteral r2 a) (NumberLiteral r3 b) op1 False)
              (NumberLiteral r4 c) op2 False)
           state
         = Done (True,
             pushValue
               (binaryOpValue (fractionalPower state) op2
                  (binaryOpValue (fractionalPower state) op1 (MNum a) (MNum b)) (MNum c))
               state)" for r r1 r2 r3 r4
    by (simp add: interpretExpression_def interpretBinaryOp_def combinator_defs)
  have d: "evaluateTokens 10 randoms fpow
             [[token LeadingWhitespace 0 1, identifierToken ''w'' 1 2, token Space 2 3,
               numberToken (Finite 3) 3 4, token PlusToken 4 5, numberToken (Finite 4) 5 6,
               token Asterisk 6 7, numberToken (Finite 3) 7 8, token TrailingWhitespace 8 8]]
           = Done (''21'', [])"
    by code_simp
  from a b c d show ?thesis by simp
qed

theorem binary_operators_left_to_right_witness:
  "parseE 4
     [[numberToken (Finite 3) 3 4, token PlusToken 4 5, numberToken (Finite 4) 5 6,
       token Asterisk 6 7, numberToken (Finite 3) 7 8, token TrailingWhitespace 8 8]]
     makeParserPosition
   = Done (Some (BinaryOp ((0, 3), (0, 8))
                   (BinaryOp ((0, 3), (0, 6))
                      (NumberLiteral ((0, 3), (0, 4)) (Finite 3))
                      (NumberLiteral ((0, 5), (0, 6)) (Finite 4)) Add False)
                   (NumberLiteral ((0, 7), (0, 8)) (Finite 3)) Multiply False),
           makeParserPosition\<lparr>positionColumn := 5\<rparr>)
   \<and> parseE 4
       [[token LeftParen 3 4, numberToken (Finite 3) 4 5, token PlusToken 5 6,
         numberToken (Finite 4) 6 7, token RightParen 7 8, token Asterisk 8 9,
         numberToken (Finite 3) 9 10, token TrailingWhitespace 10 10]]
       makeParserPosition
     = Done (Some (BinaryOp ((0, 4), (0, 10))
                     (BinaryOp ((0, 4), (0, 7))
                        (NumberLiteral ((0, 4), (0, 5)) (Finite 3))
                        (NumberLiteral ((0, 6), (0, 7)) (Finite 4)) Add False)
                     (NumberLiteral ((0, 9), (0, 10)) (Finite 3)) Multiply False),
             makeParserPosition\<lparr>positionColumn := 7\<rparr>)
   \<and> interpE 3
       (BinaryOp ((0, 3), (0, 8))
          (BinaryOp ((0, 3), (0, 6))
             (NumberLiteral ((0, 3), (0, 4)) (Finite 3))
             (NumberLiteral ((0, 5), (0, 6)) (Finite 4)) Add False)
          (NumberLiteral ((0, 7), (0, 8)) (Finite 3)) Multiply False)
       initialState
     = Done (True, pushValue (MNum (Finite 21)) initialState)
   \<and> interpE 3
       (BinaryOp ((0, 4), (0, 10))
          (BinaryOp ((0, 4), (0, 7))
             (NumberLiteral ((0, 4), (0, 5)) (Finite 3))
             (NumberLiteral ((0, 6), (0, 7)) (Finite 4)) Add False)
          (NumberLiteral ((0, 9), (0, 10)) (Finite 3)) Multiply False)
       initialState
     = Done (True, pushValue (MNum (Finite 21)) initialState)"
proof -
  have four: "(4::nat) = Suc (Suc (Suc (Suc 0)))" and three: "(3::nat) = Suc (Suc (Suc 0))"
    by simp_all
  have h1: "binaryOperator PlusToken False = Some Add"
    and h2: "binaryOperator Asterisk False = Some Multiply"
    by (simp_all add: binaryOperator_def)
  have v: "binaryOpValue (fractionalPower initialState) Multiply
             (binaryOpValue (fractionalPower initialState) Add (MNum (Finite 3)) (MNum (Finite 4)))
             (MNum (Finite 3))
           = MNum (Finite 21)"
    by (simp add: binaryOpValue_def mValueToNumber_def)
  from binary_operators_left_to_right
    [OF h1 h2, of 0 "Finite 3" 3 4 5 "Finite 4" 6 7 "Finite 3" 8 3 4 5 6 7 8 9 10 0 initialState]
  show ?thesis
    unfolding four three by (simp add: v)
qed

section \<open>The special variable \<^verbatim>\<open>$TEST\<close>\<close>

text \<open>
  The names a program can bind are the names of its variables, the
  identifiers of its \<^verbatim>\<open>new\<close> commands and the parameters of its tags. They
  are identifiers, sequences of letters, and so none of them is \<^verbatim>\<open>$TEST\<close>.
  The predicates below say this of a node and of all nodes in it.
\<close>

fun plainExpression :: "ExpressionAstNode \<Rightarrow> bool"
  and plainVariable :: "VariableAstNode \<Rightarrow> bool"
  and plainCall :: "CallAstNode \<Rightarrow> bool"
  and plainArgument :: "CallArgumentAstNode \<Rightarrow> bool"
  and plainSelectArg :: "SelectBuiltinArgAstNode \<Rightarrow> bool" where
  "plainExpression (Variable v) = plainVariable v"
| "plainExpression (NumberLiteral r n) = True"
| "plainExpression (StringLiteral r s) = True"
| "plainExpression (Call c) = plainCall c"
| "plainExpression (UnaryOp r right op) = plainExpression right"
| "plainExpression (BinaryOp r left right op isNegated) = (plainExpression left \<and> plainExpression right)"
| "plainExpression (OrderBuiltin r v direction) =
     (plainVariable v \<and> (\<forall>e \<in> set_option direction. plainExpression e))"
| "plainExpression (LengthBuiltin r arg) = (\<forall>e \<in> set_option arg. plainExpression e)"
| "plainExpression (ExtractBuiltin r target extractionStart extractionEnd) =
     ((\<forall>e \<in> set_option target. plainExpression e)
      \<and> (\<forall>e \<in> set_option extractionStart. plainExpression e)
      \<and> (\<forall>e \<in> set_option extractionEnd. plainExpression e))"
| "plainExpression (SelectBuiltin r args) = (\<forall>a \<in> set args. plainSelectArg a)"
| "plainExpression (FindBuiltin r haystack needle findStart) =
     ((\<forall>e \<in> set_option haystack. plainExpression e)
      \<and> (\<forall>e \<in> set_option needle. plainExpression e)
      \<and> (\<forall>e \<in> set_option findStart. plainExpression e))"
| "plainExpression (RandomBuiltin r m) = (\<forall>e \<in> set_option m. plainExpression e)"
| "plainExpression (AsciiBuiltin r v) = (\<forall>e \<in> set_option v. plainExpression e)"
| "plainExpression (CharBuiltin r v) = (\<forall>e \<in> set_option v. plainExpression e)"
| "plainVariable (VariableNode r name subscripts) =
     (identifierText name \<noteq> ''$TEST'' \<and> (\<forall>e \<in> set subscripts. plainExpression e))"
| "plainCall (CallNode r name args) = (\<forall>a \<in> set args. plainArgument a)"
| "plainArgument (Reference r name) = True"
| "plainArgument (Argument e) = plainExpression e"
| "plainSelectArg (SelectBuiltinArg r condition v) = (plainExpression condition \<and> plainExpression v)"

definition plainWriteArgument :: "WriteArgumentAstNode \<Rightarrow> bool" where
  "plainWriteArgument arg =
     (case arg of
        WriteExpression e \<Rightarrow> plainExpression e
      | QuestionMarkFormatter e \<Rightarrow> plainExpression e
      | _ \<Rightarrow> True)"

definition plainForArgument :: "ForArgumentAstNode \<Rightarrow> bool" where
  "plainForArgument arg =
     (case arg of ForArgument r variable parameters \<Rightarrow>
        plainVariable variable
        \<and> (\<forall>p \<in> set parameters. case p of ForParameter rp expressions \<Rightarrow>
              \<forall>e \<in> set expressions. plainExpression e))"

definition plainSetArg :: "SetArgAstNode \<Rightarrow> bool" where
  "plainSetArg arg =
     (case arg of SetArgument r target v \<Rightarrow>
        plainExpression v
        \<and> (case target of
             TargetVariable variable \<Rightarrow> plainVariable variable
           | TargetExtract re t extractionStart extractionEnd \<Rightarrow>
               (\<forall>e \<in> set_option t. plainExpression e)
               \<and> (\<forall>e \<in> set_option extractionStart. plainExpression e)
               \<and> (\<forall>e \<in> set_option extractionEnd. plainExpression e)))"

fun plainCommand :: "CommandAstNode \<Rightarrow> bool"
  and plainBody :: "CommandBodyAstNode \<Rightarrow> bool" where
  "plainCommand (Command r condition body) =
     ((\<forall>e \<in> set_option condition. plainExpression e) \<and> plainBody body)"
| "plainBody (CommentNode r) = True"
| "plainBody (WriteNode r args) = (\<forall>a \<in> set args. plainWriteArgument a)"
| "plainBody (QuitNode r returnValue) = (\<forall>e \<in> set_option returnValue. plainExpression e)"
| "plainBody (CallCommandNode c) = plainCall c"
| "plainBody (DoBlockNode r nodes) = (\<forall>c \<in> set nodes. plainCommand c)"
| "plainBody (IfNode r conditions nodes) =
     ((\<forall>e \<in> set conditions. plainExpression e) \<and> (\<forall>c \<in> set nodes. plainCommand c))"
| "plainBody (ElseNode r nodes) = (\<forall>c \<in> set nodes. plainCommand c)"
| "plainBody (ForNode r arg nodes) =
     ((\<forall>a \<in> set_option arg. plainForArgument a) \<and> (\<forall>c \<in> set nodes. plainCommand c))"
| "plainBody (SetNode r args) = (\<forall>a \<in> set args. plainSetArg a)"
| "plainBody (NewNode r args) = (\<forall>a \<in> set args. identifierText a \<noteq> ''$TEST'')"
| "plainBody (KillNode r args) = (\<forall>v \<in> set args. plainVariable v)"
| "plainBody (MergeNode r left right) = (plainVariable left \<and> plainVariable right)"
| "plainBody (HaltNode r) = True"

definition plainProgram :: "TopLevelAstNode \<Rightarrow> bool" where
  "plainProgram tree =
     ((\<forall>c \<in> set (children tree). plainCommand c)
      \<and> (\<forall>t \<in> set (tags tree). \<forall>ps \<in> set_option (params (snd t)). ''$TEST'' \<notin> set ps))"

text \<open>
  The invariant. The program binds no \<^verbatim>\<open>$TEST\<close>; no environment holds a
  stored reference; frame 0 of the stack is an environment, and every frame
  above it is a hole or another environment, one that does not bind
  \<^verbatim>\<open>$TEST\<close>.
\<close>

definition frameAbove :: "InterpreterState \<Rightarrow> addr \<Rightarrow> addr option \<Rightarrow> bool" where
  "frameAbove state a0 frame =
     (case frame of
        None \<Rightarrow> True
      | Some a \<Rightarrow> a \<noteq> a0 \<and> environmentGet state a ''$TEST'' = None)"

definition testOnlyInFrameZero :: "InterpreterState \<Rightarrow> bool" where
  "testOnlyInFrameZero state =
     (plainProgram (ast state)
      \<and> (\<forall>environment \<in> set (environments state). \<forall>binding \<in> set environment.
            \<exists>v. snd binding = Value v)
      \<and> (case environmentStack state of
           Some a0 # higher \<Rightarrow>
             a0 < length (environments state) \<and> (\<forall>frame \<in> set higher. frameAbove state a0 frame)
         | _ \<Rightarrow> False))"

subsection \<open>What keeps the invariant\<close>

definition keeps :: "('a \<times> InterpreterState) outcome \<Rightarrow> bool" where
  "keeps m = (\<forall>r s. m = Done (r, s) \<longrightarrow> testOnlyInFrameZero s)"

definition keepsState :: "InterpreterState outcome \<Rightarrow> bool" where
  "keepsState m = (\<forall>s. m = Done s \<longrightarrow> testOnlyInFrameZero s)"

definition keepsE :: "exprRunner \<Rightarrow> bool" where
  "keepsE E = (\<forall>e s. plainExpression e \<longrightarrow> testOnlyInFrameZero s \<longrightarrow> keeps (E e s))"

definition keepsC :: "cmdRunner \<Rightarrow> bool" where
  "keepsC C = (\<forall>c s. plainCommand c \<longrightarrow> testOnlyInFrameZero s \<longrightarrow> keeps (C c s))"

definition plainReference :: "MReference \<Rightarrow> bool" where
  "plainReference reference =
     (case reference of EnvironmentReference e name \<Rightarrow> name \<noteq> ''$TEST'' | _ \<Rightarrow> True)"

lemma keeps_Done [simp]: "keeps (Done (r, s)) = testOnlyInFrameZero s"
  by (simp add: keeps_def)

lemma keeps_Throw [simp]: "keeps (Throw e)"
  by (simp add: keeps_def)

lemma keeps_OutOfFuel [simp]: "keeps OutOfFuel"
  by (simp add: keeps_def)

lemma keepsState_Done [simp]: "keepsState (Done s) = testOnlyInFrameZero s"
  by (simp add: keepsState_def)

lemma keepsState_Throw [simp]: "keepsState (Throw e)"
  by (simp add: keepsState_def)

lemma keepsD: "keeps m \<Longrightarrow> m = Done (r, s) \<Longrightarrow> testOnlyInFrameZero s"
  by (simp add: keeps_def)

lemma keeps_andThen:
  assumes "keeps m"
    and "\<And>r s. m = Done (r, s) \<Longrightarrow> testOnlyInFrameZero s \<Longrightarrow> keeps (f (r, s))"
  shows "keeps (andThen m f)"
proof (cases m)
  case (Done x)
  obtain r s where x: "x = (r, s)" by (cases x)
  from assms(1) Done x have "testOnlyInFrameZero s" by (simp add: keeps_def)
  with assms(2) [of r s] Done x show ?thesis by (simp add: andThen_def)
qed (simp_all add: andThen_def)

lemma keeps_andThen_state:
  assumes "keepsState m"
    and "\<And>s. m = Done s \<Longrightarrow> testOnlyInFrameZero s \<Longrightarrow> keeps (f s)"
  shows "keeps (andThen m f)"
proof (cases m)
  case (Done s)
  from assms(1) Done have "testOnlyInFrameZero s" by (simp add: keepsState_def)
  with assms(2) [of s] Done show ?thesis by (simp add: andThen_def)
qed (simp_all add: andThen_def)

lemma keeps_andThen_pure:
  assumes "\<And>x. m = Done x \<Longrightarrow> keeps (f x)"
  shows "keeps (andThen m f)"
  using assms by (cases m) (simp_all add: andThen_def)

lemma keeps_whenOk:
  assumes "keeps m"
    and "\<And>s. m = Done (True, s) \<Longrightarrow> testOnlyInFrameZero s \<Longrightarrow> keeps (k s)"
  shows "keeps (whenOk m failure k)"
  unfolding whenOk_def using assms by (auto intro!: keeps_andThen)

lemma inv_valueStack [simp]:
  "testOnlyInFrameZero (s\<lparr>valueStack := x\<rparr>) = testOnlyInFrameZero s"
  by (simp add: testOnlyInFrameZero_def frameAbove_def environmentGet_def environmentAt_def
      cong: list.case_cong option.case_cong)

lemma inv_arrays [simp]:
  "testOnlyInFrameZero (s\<lparr>arrays := x\<rparr>) = testOnlyInFrameZero s"
  by (simp add: testOnlyInFrameZero_def frameAbove_def environmentGet_def environmentAt_def
      cong: list.case_cong option.case_cong)

lemma inv_errors [simp]:
  "testOnlyInFrameZero (s\<lparr>errors := x\<rparr>) = testOnlyInFrameZero s"
  by (simp add: testOnlyInFrameZero_def frameAbove_def environmentGet_def environmentAt_def
      cong: list.case_cong option.case_cong)

lemma inv_outputBuffer [simp]:
  "testOnlyInFrameZero (s\<lparr>outputBuffer := x\<rparr>) = testOnlyInFrameZero s"
  by (simp add: testOnlyInFrameZero_def frameAbove_def environmentGet_def environmentAt_def
      cong: list.case_cong option.case_cong)

lemma inv_outputColumn [simp]:
  "testOnlyInFrameZero (s\<lparr>outputColumn := x\<rparr>) = testOnlyInFrameZero s"
  by (simp add: testOnlyInFrameZero_def frameAbove_def environmentGet_def environmentAt_def
      cong: list.case_cong option.case_cong)

lemma inv_randomCount [simp]:
  "testOnlyInFrameZero (s\<lparr>randomCount := x\<rparr>) = testOnlyInFrameZero s"
  by (simp add: testOnlyInFrameZero_def frameAbove_def environmentGet_def environmentAt_def
      cong: list.case_cong option.case_cong)

lemma inv_pushValue [simp]: "testOnlyInFrameZero (pushValue v s) = testOnlyInFrameZero s"
  by (simp add: pushValue_def)

lemma inv_reportError [simp]: "testOnlyInFrameZero (reportError msg node s) = testOnlyInFrameZero s"
  by (simp add: reportError_def)

lemma inv_mArraySet [simp]: "testOnlyInFrameZero (mArraySet a k v s) = testOnlyInFrameZero s"
  by (simp add: mArraySet_def)

lemma inv_mArrayKill [simp]: "testOnlyInFrameZero (mArrayKill a k s) = testOnlyInFrameZero s"
  by (simp add: mArrayKill_def)

lemma inv_newArray: "newArray x s = (a, s1) \<Longrightarrow> testOnlyInFrameZero s1 = testOnlyInFrameZero s"
  by (auto simp: newArray_def)

lemma keeps_popThen:
  assumes "testOnlyInFrameZero s"
    and "\<And>v s1. testOnlyInFrameZero s1 \<Longrightarrow> keeps (k v s1)"
  shows "keeps (popThen s k)"
  unfolding popThen_def popValue_def using assms
  by (auto intro!: keeps_andThen_pure split: list.splits)

lemma keepsE_app: "keepsE E \<Longrightarrow> plainExpression e \<Longrightarrow> testOnlyInFrameZero s \<Longrightarrow> keeps (E e s)"
  by (simp add: keepsE_def)

lemma keepsC_app: "keepsC C \<Longrightarrow> plainCommand c \<Longrightarrow> testOnlyInFrameZero s \<Longrightarrow> keeps (C c s)"
  by (simp add: keepsC_def)

lemma keeps_interpretOptional:
  "keepsE E \<Longrightarrow> \<forall>e \<in> set_option node. plainExpression e \<Longrightarrow> testOnlyInFrameZero s
   \<Longrightarrow> keeps (interpretOptional E node s)"
  by (cases node) (simp_all add: interpretOptional_def keepsE_app)

lemma map_of_assocSet: "map_of (assocSet k v kvs) = (map_of kvs)(k \<mapsto> v)"
  by (induction kvs) (auto simp: fun_eq_iff)

lemma set_assocSet: "set (assocSet k v kvs) \<subseteq> insert (k, v) (set kvs)"
  by (induction kvs) (auto split: if_splits)

lemma map_of_assocDelete: "map_of (assocDelete k kvs) = (map_of kvs)(k := None)"
  by (induction kvs) (auto simp: assocDelete_def fun_eq_iff)

lemma environmentGet_environmentSet:
  "environmentGet (environmentSet a name v s) b k =
     (if b = a \<and> a < length (environments s) \<and> k = name then Some v else environmentGet s b k)"
  by (auto simp: environmentGet_def environmentSet_def environmentAt_def map_of_assocSet
      nth_list_update)

lemma environmentGet_environmentDelete:
  "environmentGet (environmentDelete a name s) b k =
     (if b = a \<and> a < length (environments s) \<and> k = name then None else environmentGet s b k)"
  by (auto simp: environmentGet_def environmentDelete_def environmentAt_def map_of_assocDelete
      nth_list_update)

lemma inv_environmentSet:
  assumes "testOnlyInFrameZero s" and "name \<noteq> ''$TEST''"
  shows "testOnlyInFrameZero (environmentSet a name (Value v) s)"
proof -
  have slots: "\<forall>environment \<in> set (environments (environmentSet a name (Value v) s)).
      \<forall>binding \<in> set environment. \<exists>x. snd binding = Value x"
  proof (intro ballI)
    fix environment binding
    assume e: "environment \<in> set (environments (environmentSet a name (Value v) s))"
      and b: "binding \<in> set environment"
    have "environment \<in> set (environments s)
        \<or> environment = assocSet name (Value v) (environmentAt s a) \<and> a < length (environments s)"
    proof (cases "a < length (environments s)")
      case True
      with e show ?thesis
        by (auto simp: environmentSet_def dest: subsetD [OF set_update_subset_insert])
    next
      case False
      with e show ?thesis by (simp add: environmentSet_def list_update_beyond)
    qed
    then show "\<exists>x. snd binding = Value x"
    proof
      assume "environment \<in> set (environments s)"
      with assms(1) b show ?thesis by (auto simp: testOnlyInFrameZero_def)
    next
      assume new: "environment = assocSet name (Value v) (environmentAt s a) \<and> a < length (environments s)"
      with b have "binding = (name, Value v) \<or> binding \<in> set (environments s ! a)"
        using set_assocSet [of name "Value v" "environmentAt s a"] by (auto simp: environmentAt_def)
      with assms(1) new show ?thesis by (auto simp: testOnlyInFrameZero_def)
    qed
  qed
  from assms have frames: "case environmentStack s of
      Some a0 # higher \<Rightarrow> a0 < length (environments (environmentSet a name (Value v) s))
        \<and> (\<forall>frame \<in> set higher. frameAbove (environmentSet a name (Value v) s) a0 frame)
    | _ \<Rightarrow> False"
    by (auto simp: testOnlyInFrameZero_def frameAbove_def environmentGet_environmentSet
        split: list.splits option.splits) (simp_all add: environmentSet_def)
  from assms(1) have "plainProgram (ast s)" by (simp add: testOnlyInFrameZero_def)
  with slots frames show ?thesis
    unfolding testOnlyInFrameZero_def by (simp add: environmentSet_def)
qed

lemma set_assocDelete: "set (assocDelete k kvs) \<subseteq> set kvs"
  by (auto simp: assocDelete_def)

lemma inv_same_frames:
  assumes "testOnlyInFrameZero s"
    and "ast s' = ast s" and "environments s' = environments s"
    and "environmentStack s' = environmentStack s"
  shows "testOnlyInFrameZero s'"
proof -
  from assms(3) have "\<And>a0 frame. frameAbove s' a0 frame = frameAbove s a0 frame"
    by (simp add: frameAbove_def environmentGet_def environmentAt_def cong: option.case_cong)
  with assms show ?thesis
    by (auto simp: testOnlyInFrameZero_def split: list.splits option.splits)
qed

lemma inv_frameZero:
  assumes "testOnlyInFrameZero s"
  obtains a0 higher where "environmentStack s = Some a0 # higher"
    and "a0 < length (environments s)" and "frameZero s = Some a0"
  using assms by (auto simp: testOnlyInFrameZero_def frameZero_def split: list.splits option.splits)

lemma inv_environmentSet_zero:
  assumes "testOnlyInFrameZero s" and "frameZero s = Some a"
  shows "testOnlyInFrameZero (environmentSet a name (Value v) s)"
proof -
  have slots: "\<forall>environment \<in> set (environments (environmentSet a name (Value v) s)).
      \<forall>binding \<in> set environment. \<exists>x. snd binding = Value x"
  proof (intro ballI)
    fix environment binding
    assume e: "environment \<in> set (environments (environmentSet a name (Value v) s))"
      and b: "binding \<in> set environment"
    have "environment \<in> set (environments s)
        \<or> environment = assocSet name (Value v) (environmentAt s a) \<and> a < length (environments s)"
    proof (cases "a < length (environments s)")
      case True
      with e show ?thesis
        by (auto simp: environmentSet_def dest: subsetD [OF set_update_subset_insert])
    next
      case False
      with e show ?thesis by (simp add: environmentSet_def list_update_beyond)
    qed
    then show "\<exists>x. snd binding = Value x"
    proof
      assume "environment \<in> set (environments s)"
      with assms(1) b show ?thesis by (auto simp: testOnlyInFrameZero_def)
    next
      assume new: "environment = assocSet name (Value v) (environmentAt s a) \<and> a < length (environments s)"
      with b have "binding = (name, Value v) \<or> binding \<in> set (environments s ! a)"
        using set_assocSet [of name "Value v" "environmentAt s a"] by (auto simp: environmentAt_def)
      with assms(1) new show ?thesis by (auto simp: testOnlyInFrameZero_def)
    qed
  qed
  from assms have frames: "case environmentStack s of
      Some a0 # higher \<Rightarrow> a0 < length (environments (environmentSet a name (Value v) s))
        \<and> (\<forall>frame \<in> set higher. frameAbove (environmentSet a name (Value v) s) a0 frame)
    | _ \<Rightarrow> False"
    by (auto simp: testOnlyInFrameZero_def frameAbove_def environmentGet_environmentSet frameZero_def
        split: list.splits option.splits) (simp_all add: environmentSet_def)
  from assms(1) have "plainProgram (ast s)" by (simp add: testOnlyInFrameZero_def)
  with slots frames show ?thesis
    unfolding testOnlyInFrameZero_def by (simp add: environmentSet_def)
qed

lemma inv_environmentDelete:
  assumes "testOnlyInFrameZero s"
  shows "testOnlyInFrameZero (environmentDelete a name s)"
proof -
  have slots: "\<forall>environment \<in> set (environments (environmentDelete a name s)).
      \<forall>binding \<in> set environment. \<exists>x. snd binding = Value x"
  proof (intro ballI)
    fix environment binding
    assume e: "environment \<in> set (environments (environmentDelete a name s))"
      and b: "binding \<in> set environment"
    have "environment \<in> set (environments s)
        \<or> environment = assocDelete name (environmentAt s a) \<and> a < length (environments s)"
    proof (cases "a < length (environments s)")
      case True
      with e show ?thesis
        by (auto simp: environmentDelete_def dest: subsetD [OF set_update_subset_insert])
    next
      case False
      with e show ?thesis by (simp add: environmentDelete_def list_update_beyond)
    qed
    then show "\<exists>x. snd binding = Value x"
    proof
      assume "environment \<in> set (environments s)"
      with assms(1) b show ?thesis by (auto simp: testOnlyInFrameZero_def)
    next
      assume new: "environment = assocDelete name (environmentAt s a) \<and> a < length (environments s)"
      with b have "binding \<in> set (environments s ! a)"
        using set_assocDelete [of name "environmentAt s a"] by (auto simp: environmentAt_def)
      with assms(1) new show ?thesis by (auto simp: testOnlyInFrameZero_def)
    qed
  qed
  from assms have frames: "case environmentStack s of
      Some a0 # higher \<Rightarrow> a0 < length (environments (environmentDelete a name s))
        \<and> (\<forall>frame \<in> set higher. frameAbove (environmentDelete a name s) a0 frame)
    | _ \<Rightarrow> False"
    by (auto simp: testOnlyInFrameZero_def frameAbove_def environmentGet_environmentDelete
        split: list.splits option.splits) (simp_all add: environmentDelete_def)
  from assms(1) have "plainProgram (ast s)" by (simp add: testOnlyInFrameZero_def)
  with slots frames show ?thesis
    unfolding testOnlyInFrameZero_def by (simp add: environmentDelete_def)
qed

lemma keepsState_setSpecialVariable:
  "testOnlyInFrameZero s \<Longrightarrow> keepsState (setSpecialVariable name v s)"
  by (auto simp: setSpecialVariable_def inv_environmentSet_zero split: option.splits)

lemma environmentGet_append:
  "a < length (environments s) \<Longrightarrow>
     environmentGet (s\<lparr>environments := environments s @ xs, environmentStack := st\<rparr>) a k
       = environmentGet s a k"
  by (simp add: environmentGet_def environmentAt_def nth_append)

lemma environmentGet_beyond: "length (environments s) \<le> a \<Longrightarrow> environmentGet s a k = None"
  by (simp add: environmentGet_def environmentAt_def)

lemma environmentGet_fresh:
  "environmentGet (s\<lparr>environments := environments s @ [[]], environmentStack := st\<rparr>) a ''$TEST''
     = environmentGet s a ''$TEST''"
  by (cases "a < length (environments s)")
    (auto simp: environmentGet_def environmentAt_def nth_append)

lemma inv_push:
  assumes "testOnlyInFrameZero s"
  shows "testOnlyInFrameZero (s\<lparr>environments := environments s @ [[]],
           environmentStack := environmentStack s @ [Some (length (environments s))]\<rparr>)"
proof -
  from assms obtain a0 higher where st: "environmentStack s = Some a0 # higher"
    and a0: "a0 < length (environments s)" by (rule inv_frameZero)
  from assms st have hi: "\<forall>frame \<in> set higher. frameAbove s a0 frame"
    by (simp add: testOnlyInFrameZero_def)
  from assms have "plainProgram (ast s)"
    and "\<forall>environment \<in> set (environments s). \<forall>binding \<in> set environment. \<exists>v. snd binding = Value v"
    by (simp_all add: testOnlyInFrameZero_def)
  with st a0 hi show ?thesis
    unfolding testOnlyInFrameZero_def frameAbove_def
    by (auto simp: environmentGet_fresh environmentGet_beyond split: option.splits)
qed

lemma inv_kill:
  assumes "testOnlyInFrameZero s"
  shows "testOnlyInFrameZero (s\<lparr>environments := environments s @ [[]],
           environmentStack := [Some (length (environments s))]\<rparr>)"
  using assms unfolding testOnlyInFrameZero_def by auto

lemma frameAbove_None: "frameAbove s a0 None"
  by (simp add: frameAbove_def)

lemma inv_stack: "testOnlyInFrameZero s \<Longrightarrow> 0 < length (environmentStack s)"
  by (auto simp: testOnlyInFrameZero_def split: list.splits)

lemma inv_setEnvironmentStackLength:
  assumes "testOnlyInFrameZero s" and "0 < n"
  shows "testOnlyInFrameZero (setEnvironmentStackLength n s)"
proof -
  from assms(1) obtain a0 higher where st: "environmentStack s = Some a0 # higher"
    and a0: "a0 < length (environments s)" by (rule inv_frameZero)
  from assms(1) st have hi: "\<forall>frame \<in> set higher. frameAbove s a0 frame"
    by (simp add: testOnlyInFrameZero_def)
  from assms(2) obtain m where n: "n = Suc m" by (cases n) auto
  have fa: "\<And>x st frame. frameAbove (s\<lparr>environmentStack := st\<rparr>) a0 frame = frameAbove s a0 frame"
    by (simp add: frameAbove_def environmentGet_def environmentAt_def cong: option.case_cong)
  from assms have "plainProgram (ast s)"
    and "\<forall>environment \<in> set (environments s). \<forall>binding \<in> set environment. \<exists>v. snd binding = Value v"
    by (simp_all add: testOnlyInFrameZero_def)
  with st a0 hi n show ?thesis
    unfolding testOnlyInFrameZero_def setEnvironmentStackLength_def
    by (auto simp: fa frameAbove_None dest: in_set_takeD)
qed

lemma keeps_getSubscriptKey:
  assumes "keepsE E" and "testOnlyInFrameZero s"
    and "\<forall>exprs \<in> set_option subscripts. \<forall>e \<in> set exprs. plainExpression e"
  shows "keeps (getSubscriptKey E s i subscripts subscriptValues)"
  using assms unfolding getSubscriptKey_def
  by (auto intro!: keeps_whenOk keeps_popThen keeps_interpretOptional split: option.splits)

definition keepsWith :: "('a \<Rightarrow> bool) \<Rightarrow> ('a \<times> InterpreterState) outcome \<Rightarrow> bool" where
  "keepsWith P m = (\<forall>r s. m = Done (r, s) \<longrightarrow> testOnlyInFrameZero s \<and> P r)"

definition foundPlain :: "ReferenceLookup \<Rightarrow> bool" where
  "foundPlain r = (\<forall>reference. r = FoundReference reference \<longrightarrow> plainReference reference)"

lemma keepsWith_Done [simp]: "keepsWith P (Done (r, s)) = (testOnlyInFrameZero s \<and> P r)"
  by (simp add: keepsWith_def)

lemma keepsWith_Throw [simp]: "keepsWith P (Throw e)"
  by (simp add: keepsWith_def)

lemma keepsWith_OutOfFuel [simp]: "keepsWith P OutOfFuel"
  by (simp add: keepsWith_def)

lemma keepsWith_keeps: "keepsWith P m \<Longrightarrow> keeps m"
  by (simp add: keepsWith_def keeps_def)

lemma keepsWith_andThen:
  assumes "keeps m"
    and "\<And>r s. m = Done (r, s) \<Longrightarrow> testOnlyInFrameZero s \<Longrightarrow> keepsWith P (f (r, s))"
  shows "keepsWith P (andThen m f)"
proof (cases m)
  case (Done x)
  obtain r s where x: "x = (r, s)" by (cases x)
  from assms(1) Done x have "testOnlyInFrameZero s" by (simp add: keeps_def)
  with assms(2) [of r s] Done x show ?thesis by (simp add: andThen_def)
qed (simp_all add: andThen_def)

lemma keeps_andThen_with:
  assumes "keepsWith Q m"
    and "\<And>r s. m = Done (r, s) \<Longrightarrow> testOnlyInFrameZero s \<Longrightarrow> Q r \<Longrightarrow> keeps (f (r, s))"
  shows "keeps (andThen m f)"
proof (cases m)
  case (Done x)
  obtain r s where x: "x = (r, s)" by (cases x)
  from assms(1) Done x have "testOnlyInFrameZero s \<and> Q r" by (simp add: keepsWith_def)
  with assms(2) [of r s] Done x show ?thesis by (simp add: andThen_def)
qed (simp_all add: andThen_def)

lemma keepsWith_andThen_pure:
  assumes "\<And>x. m = Done x \<Longrightarrow> keepsWith P (f x)"
  shows "keepsWith P (andThen m f)"
  using assms by (cases m) (simp_all add: andThen_def)

lemma inv_slot:
  assumes "testOnlyInFrameZero s" and "environmentGet s a name = Some slot"
  shows "\<exists>v. slot = Value v"
proof -
  from assms(2) have m: "(name, slot) \<in> set (environmentAt s a)"
    by (auto simp: environmentGet_def dest: map_of_SomeD)
  then have "environmentAt s a \<in> set (environments s)"
    by (auto simp: environmentAt_def split: if_splits)
  with assms(1) have "\<forall>binding \<in> set (environmentAt s a). \<exists>v. snd binding = Value v"
    by (simp add: testOnlyInFrameZero_def)
  with m show ?thesis by fastforce
qed

lemma scanEnvironments_value:
  assumes "testOnlyInFrameZero s"
  shows "scanEnvironments s frames name = Done (Some (a, slot)) \<Longrightarrow> \<exists>v. slot = Value v"
proof (induction frames)
  case Nil
  then show ?case by simp
next
  case (Cons frame below)
  show ?case
  proof (cases frame)
    case None
    with Cons.prems show ?thesis by simp
  next
    case (Some b)
    show ?thesis
    proof (cases "environmentGet s b name")
      case None
      with Cons Some show ?thesis by simp
    next
      case (Some x)
      with Cons.prems \<open>frame = Some b\<close> have "x = slot" by simp
      with Some assms show ?thesis by (auto dest: inv_slot)
    qed
  qed
qed

lemma foundPlain_simps [simp]:
  "foundPlain NullReference" "foundPlain UndefinedReference"
  "foundPlain (FoundReference reference) = plainReference reference"
  by (simp_all add: foundPlain_def)

lemma keepsWith_getReferenceLoop:
  assumes "keepsE E" and "name \<noteq> ''$TEST''"
    and "\<forall>exprs \<in> set_option subscripts. \<forall>e \<in> set exprs. plainExpression e"
  shows "testOnlyInFrameZero s \<Longrightarrow>
     keepsWith foundPlain (getReferenceLoop E name environment subscripts subscriptValues canCreate
       indices v array subscriptKey s)"
proof (induction indices arbitrary: v array subscriptKey s)
  case Nil
  then show ?case by (auto simp: plainReference_def split: option.splits)
next
  case (Cons i rest)
  note IH = Cons.IH
  show ?case
    apply (simp only: getReferenceLoop.simps)
    apply (rule keepsWith_andThen)
     apply (use Cons.prems assms(2) in \<open>auto simp: newArray_def inv_environmentSet split: option.splits MValue.splits\<close>)[1]
    apply (use assms(1,3) in \<open>auto intro!: keepsWith_andThen keeps_getSubscriptKey IH split: option.splits\<close>)
    done
qed

lemma keepsWith_andThen_with:
  assumes "keepsWith Q m"
    and "\<And>r s. m = Done (r, s) \<Longrightarrow> testOnlyInFrameZero s \<Longrightarrow> Q r \<Longrightarrow> keepsWith P (f (r, s))"
  shows "keepsWith P (andThen m f)"
proof (cases m)
  case (Done x)
  obtain r s where x: "x = (r, s)" by (cases x)
  from assms(1) Done x have "testOnlyInFrameZero s \<and> Q r" by (simp add: keepsWith_def)
  with assms(2) [of r s] Done x show ?thesis by (simp add: andThen_def)
qed (simp_all add: andThen_def)

lemma keepsWith_getReference:
  assumes "keepsE E" and "name \<noteq> ''$TEST''"
    and "\<forall>exprs \<in> set_option subscripts. \<forall>e \<in> set exprs. plainExpression e"
    and "testOnlyInFrameZero s"
  shows "keepsWith foundPlain
     (getReference E name s subscriptCount subscripts subscriptValues canCreate)"
  unfolding getReference_def using assms
  by (auto simp: Let_def plainReference_def
      intro!: keepsWith_andThen_pure keepsWith_getReferenceLoop
      dest: scanEnvironments_value split: option.splits Slot.splits prod.splits)

lemma getReference_no_subscripts:
  "getReference E name s 0 subscripts subscriptValues canCreate = Done (r, s1) \<Longrightarrow> s1 = s"
  unfolding getReference_def
  by (auto simp: Let_def dest!: andThen_Done split: option.splits Slot.splits prod.splits)

definition somePlain :: "MReference option \<Rightarrow> bool" where
  "somePlain r = (\<forall>reference. r = Some reference \<longrightarrow> plainReference reference)"

lemma somePlain_simps [simp]: "somePlain None" "somePlain (Some reference) = plainReference reference"
  by (simp_all add: somePlain_def)

lemma keepsWith_getVariableReference:
  assumes "keepsE E" and "plainVariable node" and "testOnlyInFrameZero s"
  shows "keepsWith somePlain (getVariableReference E node s subscriptCount subscriptValues canCreate)"
proof (cases node)
  case (VariableNode r name subscripts)
  with assms show ?thesis
    unfolding getVariableReference_def
    by (auto intro!: keepsWith_andThen_with [where Q = foundPlain] keepsWith_getReference
        split: ReferenceLookup.splits)
qed

lemma keepsState_setReferenceValue:
  "testOnlyInFrameZero s \<Longrightarrow> plainReference reference
   \<Longrightarrow> keepsState (setReferenceValue reference v s)"
  by (auto simp: setReferenceValue_def plainReference_def inv_environmentSet
      split: MReference.splits option.splits)

lemma keeps_setVariable:
  assumes "keepsE E" and "plainVariable node" and "testOnlyInFrameZero s"
  shows "keeps (setVariable E node v s)"
  unfolding setVariable_def using assms
  by (auto intro!: keeps_andThen_with [where Q = somePlain] keepsWith_getVariableReference
      keeps_andThen_state keepsState_setReferenceValue split: option.splits)

lemma keeps_interpretVariable:
  assumes "keepsE E" and "plainVariable node" and "testOnlyInFrameZero s"
  shows "keeps (interpretVariable E node s)"
  unfolding interpretVariable_def
  apply (rule keeps_andThen_with [where Q = somePlain])
   apply (rule keepsWith_getVariableReference [OF assms])
  apply (auto intro!: keeps_andThen_pure split: option.splits)
  done

lemma keeps_getCallArgumentReference:
  assumes "keepsE E" and "plainArgument node" and "testOnlyInFrameZero s"
  shows "keeps (getCallArgumentReference E node s)"
proof (cases node)
  case (Reference r name)
  have "\<And>x s1. getReference E (identifierText name) s 0 None None False = Done (x, s1)
      \<Longrightarrow> testOnlyInFrameZero s1"
    using assms(3) by (auto dest: getReference_no_subscripts)
  then have "keeps (getReference E (identifierText name) s 0 None None False)"
    by (auto simp: keeps_def)
  with Reference show ?thesis
    unfolding getCallArgumentReference_def
    by (auto intro!: keeps_andThen keeps_andThen_pure split: ReferenceLookup.splits)
next
  case (Argument e)
  with assms(2,3) show ?thesis
    unfolding getCallArgumentReference_def
    by (auto simp: keepsE_app [OF assms(1)] intro!: keeps_whenOk keeps_popThen)
qed

lemma keeps_interpretChildCommands:
  assumes "keepsC C"
  shows "\<forall>c \<in> set commands. plainCommand c \<Longrightarrow> testOnlyInFrameZero s
     \<Longrightarrow> keeps (interpretChildCommands C commands s)"
proof (induction commands arbitrary: s)
  case Nil
  then show ?case by simp
next
  case (Cons command rest)
  then show ?case
    by (auto simp: keepsC_app [OF assms] intro!: keeps_andThen)
qed

lemma keeps_interpretTopLevel:
  assumes "keepsC C" and "testOnlyInFrameZero s"
  shows "keeps (interpretTopLevel C s start)"
proof -
  from assms(2) have "\<forall>c \<in> set (children (ast s)). plainCommand c"
    by (simp add: testOnlyInFrameZero_def plainProgram_def)
  then have "\<forall>c \<in> set (drop start (children (ast s))). plainCommand c"
    by (auto dest: in_set_dropD)
  with assms show ?thesis
    unfolding interpretTopLevel_def by (simp add: keeps_interpretChildCommands)
qed

lemma keeps_externArguments:
  assumes "keepsE E"
  shows "\<forall>a \<in> set args. plainArgument a \<Longrightarrow> testOnlyInFrameZero s
     \<Longrightarrow> keeps (externArguments E args s)"
proof (induction args arbitrary: s)
  case Nil
  then show ?case by simp
next
  case (Cons arg rest)
  then show ?case using assms
    by (auto intro!: keeps_andThen keeps_getCallArgumentReference split: option.splits)
qed

lemma keeps_interpretExtern:
  assumes "keepsE E" and "plainCall node" and "testOnlyInFrameZero s"
  shows "keeps (interpretExtern E node s extern hasReturnValue)"
proof (cases node)
  case (CallNode r name args)
  with assms show ?thesis
    unfolding interpretExtern_def
    by (auto simp: Let_def intro!: keeps_andThen keeps_externArguments split: option.splits)
qed

lemma keeps_bindArguments:
  assumes "keepsE E"
  shows "\<forall>p \<in> set pairs. fst p \<noteq> ''$TEST'' \<and> plainArgument (snd p) \<Longrightarrow> testOnlyInFrameZero s
     \<Longrightarrow> keeps (bindArguments E environment pairs s)"
proof (induction pairs arbitrary: s)
  case Nil
  then show ?case by simp
next
  case (Cons pair rest)
  obtain param arg where pair: "pair = (param, arg)" by (cases pair)
  from Cons.prems pair assms show ?case
    by (auto intro!: keeps_andThen keeps_getCallArgumentReference Cons.IH inv_environmentSet
        split: option.splits)
qed

lemma inv_bindMissing:
  "\<forall>p \<in> set names. p \<noteq> ''$TEST'' \<Longrightarrow> testOnlyInFrameZero s
   \<Longrightarrow> testOnlyInFrameZero (bindMissing environment names s)"
  unfolding bindMissing_def
  by (induction names arbitrary: s) (auto intro: inv_environmentSet)

lemma inv_tag_params:
  assumes "testOnlyInFrameZero s" and "map_of (tags (ast s)) name = Some tag"
    and "params tag = Some ps"
  shows "''$TEST'' \<notin> set ps"
proof -
  from assms(2) have "(name, tag) \<in> set (tags (ast s))" by (rule map_of_SomeD)
  with assms(1) have "\<forall>ps \<in> set_option (params tag). ''$TEST'' \<notin> set ps"
    by (fastforce simp: testOnlyInFrameZero_def plainProgram_def)
  with assms(3) show ?thesis by simp
qed

lemma keepsState_setValueStackLength:
  "testOnlyInFrameZero s \<Longrightarrow> keepsState (setValueStackLength n s)"
  by (simp add: setValueStackLength_def)

lemma keeps_interpretCall:
  assumes "keepsE E" and "keepsC C" and "plainCall node" and "testOnlyInFrameZero s"
  shows "keeps (interpretCall E C node s hasReturnValue)"
proof (cases node)
  case (CallNode r name args)
  from assms(4) have len: "0 < length (environmentStack s)" by (rule inv_stack)
  from CallNode assms(3) have args: "\<forall>a \<in> set args. plainArgument a" by simp
  show ?thesis
  proof (cases "map_of (tags (ast s)) (identifierText name)")
    case None
    with CallNode assms show ?thesis
      unfolding interpretCall_def
      by (auto intro!: keeps_interpretExtern split: option.splits)
  next
    case (Some tag)
    have bind: "keeps (case params tag of
                   None \<Rightarrow> Done (True, s)
                 | Some ps \<Rightarrow>
                     (let (environment, state1) = newEnvironment s;
                          state2 = state1\<lparr>environmentStack := environmentStack state1 @ [Some environment]\<rparr>
                      in andThen (bindArguments E environment (zip ps args) state2) (\<lambda>(ok, state3).
                           if \<not> ok then Done (False, state3)
                           else Done (True, bindMissing environment (drop (length args) ps) state3))))"
    proof (cases "params tag")
      case None
      with assms(4) show ?thesis by simp
    next
      case (Some ps)
      with assms(4) \<open>map_of (tags (ast s)) (identifierText name) = Some tag\<close>
      have ps: "''$TEST'' \<notin> set ps" by (rule inv_tag_params)
      then have pairs: "\<forall>p \<in> set (zip ps args). fst p \<noteq> ''$TEST'' \<and> plainArgument (snd p)"
        using args by (auto dest: set_zip_leftD set_zip_rightD)
      from ps have rest: "\<forall>p \<in> set (drop (length args) ps). p \<noteq> ''$TEST''"
        by (auto dest: in_set_dropD)
      from Some show ?thesis
        using inv_push [OF assms(4)] pairs rest assms(1)
        by (auto simp: newEnvironment_def Let_def
            intro!: keeps_andThen keeps_bindArguments inv_bindMissing)
    qed
    from CallNode Some show ?thesis
      unfolding interpretCall_def
      apply (simp add: Let_def)
      apply (rule keeps_andThen [OF bind])
      using assms(2) len
      apply (auto simp: Let_def intro!: keeps_andThen keeps_andThen_state keeps_interpretTopLevel
          keepsState_setValueStackLength inv_setEnvironmentStackLength)
      done
  qed
qed

lemma keeps_interpretUnaryOp:
  assumes E: "keepsE E"
    and "plainExpression right"
    and "testOnlyInFrameZero s"
  shows "keeps (interpretUnaryOp E right op s)"
  using assms unfolding interpretUnaryOp_def
  by (auto simp: keepsE_app [OF E] intro!: keeps_whenOk keeps_popThen)

lemma keeps_interpretBinaryOp:
  assumes E: "keepsE E"
    and "plainExpression left"
    and "plainExpression right"
    and "testOnlyInFrameZero s"
  shows "keeps (interpretBinaryOp E left right op isNegated s)"
  using assms unfolding interpretBinaryOp_def
  by (auto simp: Let_def keepsE_app [OF E] intro!: keeps_whenOk keeps_popThen)

lemma keeps_orderDirection:
  assumes E: "keepsE E"
    and "\<forall>e \<in> set_option direction. plainExpression e"
    and "testOnlyInFrameZero s"
  shows "keeps (orderDirection E direction s)"
  using assms unfolding orderDirection_def
  by (auto simp: Let_def keepsE_app [OF E] intro!: keeps_whenOk keeps_popThen split: option.splits)

lemma keeps_interpretOrderBuiltin:
  assumes "keepsE E" and "plainVariable variable"
    and "\<forall>e \<in> set_option direction. plainExpression e" and "testOnlyInFrameZero s"
  shows "keeps (interpretOrderBuiltin E variable direction s)"
proof -
  have last: "variableSubscripts variable \<noteq> [] \<Longrightarrow>
      plainExpression (variableSubscripts variable ! (length (variableSubscripts variable) - 1))"
    using assms(2) by (cases variable) auto
  show ?thesis
    unfolding interpretOrderBuiltin_def
    apply (rule keeps_andThen)
     apply (rule keeps_orderDirection [OF assms(1,3,4)])
    apply (clarsimp simp: Let_def split: option.splits)
    apply (rule keeps_andThen_with [where Q = somePlain])
     apply (rule keepsWith_getVariableReference [OF assms(1,2)], assumption)
    using last
    apply (auto simp: Let_def keepsE_app [OF assms(1)]
        intro!: keeps_andThen_pure keeps_whenOk keeps_popThen
        split: option.splits MValue.splits)
    done
qed

lemma keeps_interpretLengthBuiltin:
  assumes E: "keepsE E"
    and "\<forall>e \<in> set_option arg. plainExpression e"
    and "testOnlyInFrameZero s"
  shows "keeps (interpretLengthBuiltin E arg s)"
  using assms unfolding interpretLengthBuiltin_def
  by (auto simp: keepsE_app [OF E] intro!: keeps_whenOk keeps_popThen keeps_interpretOptional)

lemma keeps_getExtractionStart:
  assumes E: "keepsE E"
    and "\<forall>e \<in> set_option extractionStart. plainExpression e"
    and "testOnlyInFrameZero s"
  shows "keeps (getExtractionStart E extractionStart s)"
  using assms unfolding getExtractionStart_def
  by (auto simp: keepsE_app [OF E] intro!: keeps_whenOk keeps_popThen split: option.splits)

lemma keeps_getExtractionEnd:
  assumes E: "keepsE E"
    and "\<forall>e \<in> set_option extractionEnd. plainExpression e"
    and "testOnlyInFrameZero s"
  shows "keeps (getExtractionEnd E extractionEnd s start)"
  using assms unfolding getExtractionEnd_def
  by (auto simp: keepsE_app [OF E] intro!: keeps_whenOk keeps_popThen split: option.splits)

lemma keeps_interpretExtractBuiltin:
  assumes E: "keepsE E"
    and "\<forall>e \<in> set_option target. plainExpression e"
    and "\<forall>e \<in> set_option extractionStart. plainExpression e"
    and "\<forall>e \<in> set_option extractionEnd. plainExpression e"
    and "testOnlyInFrameZero s"
  shows "keeps (interpretExtractBuiltin E target extractionStart extractionEnd s)"
  using assms unfolding interpretExtractBuiltin_def
  by (auto simp: keepsE_app [OF E] intro!: keeps_whenOk keeps_popThen keeps_interpretOptional keeps_andThen
      keeps_getExtractionStart keeps_getExtractionEnd split: option.splits)

lemma keeps_interpretSelectLoop:
  assumes "keepsE E"
  shows "\<forall>a \<in> set args. plainSelectArg a \<Longrightarrow> testOnlyInFrameZero s
     \<Longrightarrow> keeps (interpretSelectLoop E node args s)"
proof (induction args arbitrary: s)
  case Nil
  then show ?case by simp
next
  case (Cons arg rest)
  obtain r condition v where arg: "arg = SelectBuiltinArg r condition v" by (cases arg)
  from Cons.prems arg show ?case
    by (auto simp: keepsE_app [OF assms] intro!: keeps_whenOk keeps_popThen Cons.IH)
qed

lemma keeps_interpretFindBuiltin:
  assumes E: "keepsE E"
    and "\<forall>e \<in> set_option haystackNode. plainExpression e"
    and "\<forall>e \<in> set_option needleNode. plainExpression e"
    and "\<forall>e \<in> set_option findStartNode. plainExpression e"
    and "testOnlyInFrameZero s"
  shows "keeps (interpretFindBuiltin E haystackNode needleNode findStartNode s)"
  using assms unfolding interpretFindBuiltin_def
  by (auto simp: Let_def keepsE_app [OF E] intro!: keeps_whenOk keeps_popThen keeps_interpretOptional keeps_andThen
      split: option.splits)

lemma keeps_interpretRandomBuiltin:
  assumes E: "keepsE E"
    and "\<forall>e \<in> set_option maxNode. plainExpression e"
    and "testOnlyInFrameZero s"
  shows "keeps (interpretRandomBuiltin E maxNode s)"
  using assms unfolding interpretRandomBuiltin_def
  by (auto simp: Let_def keepsE_app [OF E] intro!: keeps_whenOk keeps_popThen keeps_interpretOptional)

lemma keeps_interpretAsciiBuiltin:
  assumes E: "keepsE E"
    and "\<forall>e \<in> set_option valueNode. plainExpression e"
    and "testOnlyInFrameZero s"
  shows "keeps (interpretAsciiBuiltin E valueNode s)"
  using assms unfolding interpretAsciiBuiltin_def
  by (auto simp: Let_def keepsE_app [OF E] intro!: keeps_whenOk keeps_popThen keeps_interpretOptional)

lemma keeps_interpretCharBuiltin:
  assumes E: "keepsE E"
    and "\<forall>e \<in> set_option valueNode. plainExpression e"
    and "testOnlyInFrameZero s"
  shows "keeps (interpretCharBuiltin E valueNode s)"
  using assms unfolding interpretCharBuiltin_def
  by (auto simp: Let_def keepsE_app [OF E] intro!: keeps_whenOk keeps_popThen keeps_interpretOptional)

lemma keepsE_interpretExpression:
  assumes "keepsE E" and "keepsC C"
  shows "keepsE (interpretExpression E C)"
  unfolding keepsE_def
proof (intro allI impI)
  fix e s
  assume "plainExpression e" and "testOnlyInFrameZero s"
  with assms show "keeps (interpretExpression E C e s)"
    unfolding interpretExpression_def interpretSelectBuiltin_def
    by (cases e)
      (simp_all add: keeps_interpretVariable keeps_interpretCall keeps_interpretUnaryOp
        keeps_interpretBinaryOp keeps_interpretOrderBuiltin keeps_interpretLengthBuiltin
        keeps_interpretExtractBuiltin keeps_interpretSelectLoop keeps_interpretFindBuiltin
        keeps_interpretRandomBuiltin keeps_interpretAsciiBuiltin keeps_interpretCharBuiltin)
qed

lemma keeps_interpretWriteArguments:
  assumes E: "keepsE E"
  shows "\<forall>a \<in> set args. plainWriteArgument a \<Longrightarrow> testOnlyInFrameZero s
     \<Longrightarrow> keeps (interpretWriteArguments E args s)"
proof (induction args arbitrary: s)
  case Nil
  then show ?case by simp
next
  case (Cons arg rest)
  then show ?case
    by (cases arg)
      (auto simp: Let_def plainWriteArgument_def keepsE_app [OF E]
        intro!: keeps_whenOk keeps_popThen split: number.splits)
qed

lemma keeps_interpretQuit:
  assumes E: "keepsE E"
    and "\<forall>e \<in> set_option returnValue. plainExpression e" and "testOnlyInFrameZero s"
  shows "keeps (interpretQuit E returnValue s)"
  using assms unfolding interpretQuit_def
  by (auto simp: keepsE_app [OF E] intro!: keeps_whenOk split: option.splits)

lemma keeps_doBlockLoop:
  assumes C: "keepsC C"
  shows "\<forall>c \<in> set commands. plainCommand c \<Longrightarrow> testOnlyInFrameZero s
     \<Longrightarrow> keeps (doBlockLoop C commands s)"
proof (induction commands arbitrary: s)
  case Nil
  then show ?case by simp
next
  case (Cons command rest)
  then show ?case
    by (auto simp: keepsC_app [OF C] intro!: keeps_andThen)
qed

lemma keeps_interpretDoBlock:
  assumes C: "keepsC C"
    and "\<forall>c \<in> set commands. plainCommand c" and "testOnlyInFrameZero s"
  shows "keeps (interpretDoBlock C commands s)"
  using assms inv_stack [OF assms(3)] unfolding interpretDoBlock_def
  by (auto simp: Let_def intro!: keeps_andThen keeps_doBlockLoop inv_setEnvironmentStackLength)

lemma keeps_interpretIfConditions:
  assumes E: "keepsE E"
  shows "\<forall>e \<in> set conditions. plainExpression e \<Longrightarrow> testOnlyInFrameZero s
     \<Longrightarrow> keeps (interpretIfConditions E conditions s)"
proof (induction conditions arbitrary: s)
  case Nil
  then show ?case by simp
next
  case (Cons condition rest)
  then show ?case
    by (auto simp: keepsE_app [OF E]
        intro!: keeps_whenOk keeps_popThen keeps_andThen_state keepsState_setSpecialVariable)
qed

lemma keeps_interpretIf:
  assumes E: "keepsE E" and C: "keepsC C"
    and "\<forall>e \<in> set conditions. plainExpression e"
    and "\<forall>c \<in> set commands. plainCommand c" and "testOnlyInFrameZero s"
  shows "keeps (interpretIf E C conditions commands s)"
  using assms unfolding interpretIf_def
  by (auto intro!: keeps_andThen keeps_interpretIfConditions keeps_andThen_state
      keepsState_setSpecialVariable keeps_interpretChildCommands split: option.splits)

lemma keeps_interpretElse:
  assumes C: "keepsC C"
    and "\<forall>c \<in> set commands. plainCommand c" and "testOnlyInFrameZero s"
  shows "keeps (interpretElse C commands s)"
  using assms unfolding interpretElse_def
  by (auto intro!: keeps_andThen_pure keeps_interpretChildCommands split: option.splits)

lemma keeps_interpretForWithNoArg:
  assumes C: "keepsC C" and "\<forall>c \<in> set commands. plainCommand c"
  shows "testOnlyInFrameZero s \<Longrightarrow> keeps (interpretForWithNoArg n C commands s)"
proof (induction n arbitrary: s)
  case 0
  then show ?case by simp
next
  case (Suc n)
  then show ?case using assms
    by (auto intro!: keeps_andThen keeps_interpretChildCommands split: CommandResult.splits)
qed

lemma keeps_interpretForWithStart:
  assumes E: "keepsE E" and C: "keepsC C" and "plainVariable variable"
    and "plainExpression start" and "\<forall>c \<in> set commands. plainCommand c"
    and "testOnlyInFrameZero s"
  shows "keeps (interpretForWithStart E C variable start commands s)"
  using assms unfolding interpretForWithStart_def
  by (auto simp: keepsE_app [OF E]
      intro!: keeps_whenOk keeps_popThen keeps_andThen keeps_setVariable
        keeps_interpretChildCommands)

lemma keeps_forAdvance:
  assumes E: "keepsE E" and "plainVariable variable" and "testOnlyInFrameZero s"
  shows "keeps (forAdvance E variable incrementValue s)"
  using assms unfolding forAdvance_def
  by (auto simp: Let_def
      intro!: keeps_whenOk keeps_popThen keeps_setVariable keeps_interpretVariable)

lemma keeps_forIncrementLoop:
  assumes E: "keepsE E" and C: "keepsC C" and "plainVariable variable"
    and "\<forall>c \<in> set commands. plainCommand c"
  shows "testOnlyInFrameZero s
     \<Longrightarrow> keeps (forIncrementLoop n E C variable incrementValue commands s)"
proof (induction n arbitrary: s)
  case 0
  then show ?case by simp
next
  case (Suc n)
  then show ?case using assms
    by (auto intro!: keeps_andThen keeps_whenOk keeps_interpretChildCommands keeps_forAdvance
        split: CommandResult.splits)
qed

lemma keeps_interpretForWithStartIncrement:
  assumes E: "keepsE E" and C: "keepsC C" and "plainVariable variable"
    and "plainExpression start" and "plainExpression increment"
    and "\<forall>c \<in> set commands. plainCommand c" and "testOnlyInFrameZero s"
  shows "keeps (interpretForWithStartIncrement n E C variable start increment commands s)"
  using assms unfolding interpretForWithStartIncrement_def
  by (auto simp: Let_def keepsE_app [OF E]
      intro!: keeps_whenOk keeps_popThen keeps_setVariable keeps_forIncrementLoop)

lemma keeps_forIncrementEndLoop:
  assumes E: "keepsE E" and C: "keepsC C" and "plainVariable variable"
    and "\<forall>c \<in> set commands. plainCommand c"
  shows "testOnlyInFrameZero s
     \<Longrightarrow> keeps (forIncrementEndLoop n E C variable incrementValue endValue commands s)"
proof (induction n arbitrary: s)
  case 0
  then show ?case by simp
next
  case (Suc n)
  then show ?case using assms
    by (auto simp: Let_def
        intro!: keeps_andThen keeps_whenOk keeps_popThen keeps_interpretVariable
          keeps_interpretChildCommands keeps_forAdvance
        split: CommandResult.splits)
qed

lemma keeps_interpretForWithStartIncrementEnd:
  assumes E: "keepsE E" and C: "keepsC C" and "plainVariable variable"
    and "plainExpression start" and "plainExpression increment" and "plainExpression finish"
    and "\<forall>c \<in> set commands. plainCommand c" and "testOnlyInFrameZero s"
  shows "keeps (interpretForWithStartIncrementEnd n E C variable start increment finish commands s)"
  using assms unfolding interpretForWithStartIncrementEnd_def
  by (auto simp: Let_def keepsE_app [OF E]
      intro!: keeps_whenOk keeps_popThen keeps_setVariable keeps_forIncrementEndLoop)

lemma keeps_interpretForParameters:
  assumes E: "keepsE E" and C: "keepsC C" and "plainVariable variable"
    and "\<forall>c \<in> set commands. plainCommand c"
  shows "\<forall>p \<in> set parameters. case p of ForParameter rp expressions \<Rightarrow>
            \<forall>e \<in> set expressions. plainExpression e
     \<Longrightarrow> testOnlyInFrameZero s
     \<Longrightarrow> keeps (interpretForParameters n E C node variable commands parameters s)"
proof (induction parameters arbitrary: s)
  case Nil
  then show ?case by simp
next
  case (Cons parameter rest)
  obtain r expressions where parameter: "parameter = ForParameter r expressions"
    by (cases parameter)
  with Cons.prems have plain: "\<forall>e \<in> set expressions. plainExpression e" by simp
  have sweep: "keeps (case expressions of
          [start] \<Rightarrow> interpretForWithStart E C variable start commands s
        | [start, increment] \<Rightarrow>
            interpretForWithStartIncrement n E C variable start increment commands s
        | [start, increment, finish] \<Rightarrow>
            interpretForWithStartIncrementEnd n E C variable start increment finish commands s
        | _ \<Rightarrow>
            Done (Halt,
              reportError (''Invalid number of expressions in for parameter: ''
                           @ natToString (length expressions)) node s))"
    using plain assms Cons.prems(2)
    by (auto intro!: keeps_interpretForWithStart keeps_interpretForWithStartIncrement
        keeps_interpretForWithStartIncrementEnd split: list.splits)
  from Cons.prems parameter show ?case
    apply (simp only: interpretForParameters.simps)
    apply (rule keeps_andThen [OF sweep])
    apply (auto intro!: Cons.IH)
    done
qed

lemma keeps_interpretFor:
  assumes E: "keepsE E" and C: "keepsC C"
    and "\<forall>a \<in> set_option arg. plainForArgument a"
    and "\<forall>c \<in> set commands. plainCommand c" and "testOnlyInFrameZero s"
  shows "keeps (interpretFor n E C node arg commands s)"
  using assms unfolding interpretFor_def
  by (auto simp: plainForArgument_def
      intro!: keeps_interpretForWithNoArg keeps_interpretForParameters
      split: option.splits ForArgumentAstNode.splits)

lemma inv_setReferenceValue:
  "setReferenceValue reference v s = Done s1 \<Longrightarrow> testOnlyInFrameZero s
   \<Longrightarrow> plainReference reference \<Longrightarrow> testOnlyInFrameZero s1"
  using keepsState_setReferenceValue [of s reference v] by (simp add: keepsState_def)

lemma keepsState_OutOfFuel [simp]: "keepsState OutOfFuel"
  by (simp add: keepsState_def)

lemma keeps_interpretSetExtract:
  assumes E: "keepsE E"
    and "\<forall>e \<in> set_option target. plainExpression e"
    and "\<forall>e \<in> set_option extractionStart. plainExpression e"
    and "\<forall>e \<in> set_option extractionEnd. plainExpression e" and "testOnlyInFrameZero s"
  shows "keeps (interpretSetExtract E target extractionStart extractionEnd s v)"
proof (cases target)
  case None
  then show ?thesis by (simp add: interpretSetExtract_def)
next
  case (Some e)
  show ?thesis
  proof (cases e)
    case (Variable variable)
    with Some assms(2) have variable: "plainVariable variable" by simp
    from Some Variable show ?thesis
      unfolding interpretSetExtract_def
      apply simp
      apply (rule keeps_andThen)
       apply (rule keeps_getExtractionStart [OF E assms(3,5)])
      apply (clarsimp split: option.splits)
      apply (rule keeps_andThen)
       apply (rule keeps_getExtractionEnd [OF E assms(4)], assumption)
      apply (clarsimp split: option.splits)
      apply (rule keeps_andThen_with [where Q = somePlain])
       apply (rule keepsWith_getVariableReference [OF E variable], assumption)
      apply (auto simp: Let_def intro!: keeps_andThen_pure intro: inv_setReferenceValue
          split: option.splits)
      done
  qed (use Some assms(5) in \<open>simp_all add: interpretSetExtract_def\<close>)
qed

lemma keeps_interpretSetArgument:
  assumes E: "keepsE E" and "plainSetArg node" and "testOnlyInFrameZero s"
  shows "keeps (interpretSetArgument E node s)"
proof (cases node)
  case (SetArgument r target valueNode)
  with assms(2,3) show ?thesis
    unfolding interpretSetArgument_def
    by (cases target)
      (auto simp: plainSetArg_def keepsE_app [OF E]
        intro!: keeps_whenOk keeps_popThen keeps_setVariable [OF E]
          keeps_interpretSetExtract [OF E])
qed

lemma keeps_interpretSet:
  assumes E: "keepsE E"
  shows "\<forall>a \<in> set args. plainSetArg a \<Longrightarrow> testOnlyInFrameZero s
     \<Longrightarrow> keeps (interpretSet E args s)"
proof (induction args arbitrary: s)
  case Nil
  then show ?case by simp
next
  case (Cons arg rest)
  then show ?case
    by (auto intro!: keeps_andThen keeps_interpretSetArgument [OF E])
qed

lemma environmentSet_stack:
  "(environmentSet a name v s)\<lparr>environmentStack := st\<rparr>
     = environmentSet a name v (s\<lparr>environmentStack := st\<rparr>)"
  by (simp add: environmentSet_def environmentAt_def)

lemma bind_names_stack:
  "(foldl (\<lambda>st arg. environmentSet a (f arg) v st) s args)\<lparr>environmentStack := st\<rparr>
     = foldl (\<lambda>st arg. environmentSet a (f arg) v st) (s\<lparr>environmentStack := st\<rparr>) args"
  by (induction args arbitrary: s) (simp_all add: environmentSet_stack)

lemma environmentStack_bind_names:
  "environmentStack (foldl (\<lambda>st arg. environmentSet a (f arg) v st) s args) = environmentStack s"
  by (induction args arbitrary: s) (simp_all add: environmentSet_def)

lemma inv_bind_names:
  "\<forall>arg \<in> set args. f arg \<noteq> ''$TEST'' \<Longrightarrow> testOnlyInFrameZero s
   \<Longrightarrow> testOnlyInFrameZero (foldl (\<lambda>st arg. environmentSet a (f arg) (Value v) st) s args)"
  by (induction args arbitrary: s) (auto intro: inv_environmentSet)

lemma keeps_interpretNew:
  assumes "\<forall>a \<in> set args. identifierText a \<noteq> ''$TEST''" and "testOnlyInFrameZero s"
  shows "keeps (interpretNew args s)"
proof -
  let ?e = "length (environments s)"
  let ?pushed = "s\<lparr>environments := environments s @ [[]],
                   environmentStack := environmentStack s @ [Some ?e]\<rparr>"
  have "testOnlyInFrameZero
      (foldl (\<lambda>st arg. environmentSet ?e (identifierText arg) (Value (Scalar (MStr []))) st)
         ?pushed args)"
    using assms(1) inv_push [OF assms(2)] by (rule inv_bind_names)
  with assms(2) show ?thesis
    unfolding interpretNew_def
    by (simp add: newEnvironment_def Let_def bind_names_stack environmentStack_bind_names)
qed

lemma keeps_interpretKillArguments:
  assumes E: "keepsE E"
  shows "\<forall>v \<in> set args. plainVariable v \<Longrightarrow> testOnlyInFrameZero s
     \<Longrightarrow> keeps (interpretKillArguments E args s)"
proof (induction args arbitrary: s)
  case Nil
  then show ?case by simp
next
  case (Cons arg rest)
  obtain r name subscripts where arg: "arg = VariableNode r name subscripts" by (cases arg)
  from Cons.prems arg show ?case
    apply (simp only: interpretKillArguments.simps)
    apply (rule keeps_andThen_with [where Q = foundPlain])
     apply (rule keepsWith_getReference [OF E])
       apply (auto intro!: Cons.IH inv_environmentDelete
        split: ReferenceLookup.splits MReference.splits option.splits)
    done
qed

lemma keeps_interpretKill:
  assumes E: "keepsE E" and "\<forall>v \<in> set args. plainVariable v" and "testOnlyInFrameZero s"
  shows "keeps (interpretKill E args s)"
  using assms(2,3) inv_kill [OF assms(3)] unfolding interpretKill_def
  by (auto simp: newEnvironment_def intro!: keeps_interpretKillArguments [OF E])

lemma keeps_interpretSubscripts:
  assumes E: "keepsE E"
  shows "\<forall>e \<in> set subscripts. plainExpression e \<Longrightarrow> testOnlyInFrameZero s
     \<Longrightarrow> keeps (interpretSubscripts E subscripts s)"
proof (induction subscripts arbitrary: s)
  case Nil
  then show ?case by simp
next
  case (Cons subscript rest)
  then show ?case
    by (auto simp: keepsE_app [OF E] intro!: keeps_whenOk keeps_popThen keeps_andThen)
qed

lemma copy_changes_arrays:
  "mValueCopy n v s = Done (c, s1) \<Longrightarrow> \<exists>xs. s1 = s\<lparr>arrays := xs\<rparr>"
  "copyChildren n kvs s = Done (cs, s1) \<Longrightarrow> \<exists>xs. s1 = s\<lparr>arrays := xs\<rparr>"
proof (induction n v s and n kvs s arbitrary: c s1 and cs s1 rule: mValueCopy_copyChildren.induct)
  case (1 n x state)
  then have "s1 = state" by simp
  then show ?case by (intro exI [of _ "arrays state"]) simp
next
  case (2 a state)
  then show ?case by simp
next
  case (3 n a state)
  from 3(2) obtain copies state1 where
    c: "copyChildren n (arrayChildren (arrayAt state a)) state = Done (copies, state1)"
    and s1: "s1 = state1\<lparr>arrays := arrays state1 @
               [\<lparr>arrayValue = arrayValue (arrayAt state a), arrayChildren = copies\<rparr>]\<rparr>"
    by (auto dest!: andThen_Done)
  from 3(1) [OF c] obtain xs where "state1 = state\<lparr>arrays := xs\<rparr>" ..
  with s1 show ?case by auto
next
  case (4 n state)
  then have "s1 = state" by simp
  then show ?case by (intro exI [of _ "arrays state"]) simp
next
  case (5 n k v rest state)
  from 5(3) obtain v' state1 rest' where
    v: "mValueCopy n v state = Done (v', state1)"
    and r: "copyChildren n rest state1 = Done (rest', s1)"
    by (auto dest!: andThen_Done)
  from 5(1) [OF v] obtain xs where x: "state1 = state\<lparr>arrays := xs\<rparr>" ..
  from 5(2) [OF r] obtain ys where "s1 = state1\<lparr>arrays := ys\<rparr>" ..
  with x show ?case by auto
qed

lemma keepsState_mergeChildren:
  "testOnlyInFrameZero s \<Longrightarrow> keepsState (mergeChildren n destination kvs s)"
proof (induction kvs arbitrary: s)
  case Nil
  then show ?case by simp
next
  case (Cons kv rest)
  obtain key v where kv: "kv = (key, v)" by (cases kv)
  show ?case
  proof (cases "mValueCopy n v s")
    case (Done x)
    obtain c s1 where x: "x = (c, s1)" by (cases x)
    from Done x obtain xs where "s1 = s\<lparr>arrays := xs\<rparr>" by (auto dest: copy_changes_arrays(1))
    with Cons.prems have "testOnlyInFrameZero (mArraySet destination key c s1)" by simp
    then have "keepsState (mergeChildren n destination rest (mArraySet destination key c s1))"
      by (rule Cons.IH)
    with kv Done x show ?thesis by (simp add: andThen_def)
  qed (simp_all add: kv andThen_def)
qed

lemma inv_mergeChildren:
  "mergeChildren n destination kvs s = Done s1 \<Longrightarrow> testOnlyInFrameZero s
   \<Longrightarrow> testOnlyInFrameZero s1"
  using keepsState_mergeChildren [of s n destination kvs] by (simp add: keepsState_def)

lemma keeps_interpretMerge:
  assumes E: "keepsE E" and left: "plainVariable left" and right: "plainVariable right"
    and "testOnlyInFrameZero s"
  shows "keeps (interpretMerge n E node left right s)"
proof -
  from left have ls: "\<forall>e \<in> set (variableSubscripts left). plainExpression e"
    by (cases left) simp
  from right have rs: "\<forall>e \<in> set (variableSubscripts right). plainExpression e"
    by (cases right) simp
  show ?thesis
    unfolding interpretMerge_def
    apply (rule keeps_andThen)
     apply (rule keeps_interpretSubscripts [OF E ls assms(4)])
    apply (clarsimp split: option.splits)
    apply (rule keeps_andThen)
     apply (rule keeps_interpretSubscripts [OF E rs], assumption)
    apply (clarsimp split: option.splits)
    apply (rule keeps_andThen_with [where Q = somePlain])
     apply (rule keepsWith_getVariableReference [OF E left], assumption)
    apply (clarsimp split: option.splits)
    apply (rule keeps_andThen_pure)
    apply (rule keeps_andThen)
     apply (auto simp: newArray_def Let_def keeps_def dest!: andThen_Done
        intro: inv_setReferenceValue split: MValue.splits)[1]
    apply clarsimp
    apply (rule keeps_andThen_with [where Q = somePlain])
     apply (rule keepsWith_getVariableReference [OF E right], assumption)
    apply (auto intro!: keeps_andThen_pure split: option.splits MValue.splits)
     apply (erule inv_mergeChildren, assumption)+
    done
qed

lemma keepsC_interpretCommand:
  assumes E: "keepsE E" and C: "keepsC C"
  shows "keepsC (interpretCommand n E C)"
  unfolding keepsC_def
proof (intro allI impI)
  fix c s
  assume plain: "plainCommand c" and inv: "testOnlyInFrameZero s"
  obtain r condition body where c: "c = Command r condition body" by (cases c)
  have guard: "keeps (case condition of
             None \<Rightarrow> Done (None, s)
           | Some g \<Rightarrow>
               whenOk (E g s) (Some Halt) (\<lambda>state1.
                 popThen state1 (\<lambda>v state2.
                   if nEq (mValueToNumber v) (Finite 0) then Done (Some Continue, state2)
                   else Done (None, state2))))"
    using plain inv c
    by (auto simp: keepsE_app [OF E] intro!: keeps_whenOk keeps_popThen split: option.splits)
  from plain c have body: "plainBody body" by simp
  show "keeps (interpretCommand n E C c s)"
    unfolding interpretCommand_def c
    apply simp
    apply (rule keeps_andThen [OF guard])
    using body
    apply (cases body)
    apply (auto simp: interpretWrite_def
        intro!: keeps_interpretWriteArguments [OF E] keeps_interpretQuit [OF E]
          keeps_interpretDoBlock [OF C] keeps_interpretIf [OF E C] keeps_interpretElse [OF C]
          keeps_interpretFor [OF E C] keeps_interpretSet [OF E] keeps_interpretNew
          keeps_interpretKill [OF E] keeps_interpretMerge [OF E] keeps_andThen
          keeps_interpretCall [OF E C]
        split: option.splits)
    done
qed

lemma interpreter_keeps: "keepsE (interpE n) \<and> keepsC (interpC n)"
proof (induction n)
  case 0
  show ?case by (simp add: keepsE_def keepsC_def)
next
  case (Suc n)
  have "interpE (Suc n) = interpretExpression (interpE n) (interpC n)"
    by (simp add: fun_eq_iff)
  moreover have "interpC (Suc n) = interpretCommand n (interpE n) (interpC n)"
    by (simp add: fun_eq_iff)
  ultimately show ?case
    using Suc by (simp add: keepsE_interpretExpression keepsC_interpretCommand)
qed

lemma inv_bind_values:
  "\<forall>p \<in> set pairs. fst p \<noteq> ''$TEST'' \<Longrightarrow> testOnlyInFrameZero s
   \<Longrightarrow> testOnlyInFrameZero
        (foldl (\<lambda>st (param, arg). environmentSet environment param (Value arg) st) s pairs)"
proof (induction pairs arbitrary: s)
  case Nil
  then show ?case by simp
next
  case (Cons pair rest)
  obtain param arg where pair: "pair = (param, arg)" by (cases pair)
  with Cons.prems have "testOnlyInFrameZero (environmentSet environment param (Value arg) s)"
    by (simp add: inv_environmentSet)
  with Cons.prems have "testOnlyInFrameZero
      (foldl (\<lambda>st (param, arg). environmentSet environment param (Value arg) st)
         (environmentSet environment param (Value arg) s) rest)"
    by (intro Cons.IH) simp_all
  with pair show ?case by simp
qed

lemma keeps_interpretTag:
  assumes "testOnlyInFrameZero s"
    and "\<forall>t \<in> set_option tag. \<forall>ps \<in> set_option (params t). ''$TEST'' \<notin> set ps"
  shows "keeps (interpretTag n tag args s)"
proof -
  let ?state3 = "case (case tag of None \<Rightarrow> None | Some t \<Rightarrow> params t) of
               None \<Rightarrow> s
             | Some ps \<Rightarrow>
                 (let (environment, state1) = newEnvironment s;
                      state2 = state1\<lparr>environmentStack := environmentStack state1 @ [Some environment]\<rparr>
                  in bindMissing environment (drop (length args) ps)
                       (foldl (\<lambda>st (param, arg). environmentSet environment param (Value arg) st)
                          state2 (zip ps args)))"
  have inv3: "testOnlyInFrameZero ?state3"
  proof (cases "case tag of None \<Rightarrow> None | Some t \<Rightarrow> params t")
    case None
    with assms(1) show ?thesis by simp
  next
    case (Some ps)
    with assms(2) have ps: "''$TEST'' \<notin> set ps" by (auto split: option.splits)
    then have pairs: "\<forall>p \<in> set (zip ps args). fst p \<noteq> ''$TEST''"
      by (auto dest: set_zip_leftD)
    from ps have rest: "\<forall>p \<in> set (drop (length args) ps). p \<noteq> ''$TEST''"
      by (auto dest: in_set_dropD)
    from Some show ?thesis
      using inv_bindMissing [OF rest inv_bind_values [OF pairs inv_push [OF assms(1)]]]
      by (simp add: newEnvironment_def Let_def)
  qed
  have C: "keepsC (interpC n)" using interpreter_keeps [of n] by simp
  from assms(1) have len: "0 < length (environmentStack s)" by (rule inv_stack)
  have "keeps (andThen (interpretTopLevel (interpC n) ?state3 (case tag of None \<Rightarrow> 0 | Some t \<Rightarrow> index t))
           (\<lambda>(result, state4).
              if result = Halt then Done (None, state4)
              else
                (let state5 = setEnvironmentStackLength (length (environmentStack s)) state4
                 in if length (valueStack state5) = length (valueStack ?state3)
                    then Done (Some (Scalar (MStr [])), state5)
                    else andThen (popValue state5) (\<lambda>(v, state6). Done (Some (Scalar v), state6)))))"
    apply (rule keeps_andThen)
     apply (rule keeps_interpretTopLevel [OF C inv3])
    using len
    apply (auto simp: Let_def popValue_def inv_setEnvironmentStackLength
        intro!: keeps_andThen_pure split: list.splits)
    done
  then show ?thesis
    unfolding interpretTag_def by (simp add: Let_def)
qed

lemma inv_makeInterpreterState:
  "plainProgram tree \<Longrightarrow> testOnlyInFrameZero (makeInterpreterState tree externFunctions randoms fpow)"
  by (simp add: testOnlyInFrameZero_def makeInterpreterState_def)

text \<open>
  Claim C9: the name \<^verbatim>\<open>$TEST\<close> is bound only in frame 0 of the environment stack.
  For a program whose identifiers are not \<^verbatim>\<open>$TEST\<close> the initial state has the
  invariant \<open>testOnlyInFrameZero\<close>; every run of a command, of an expression
  and of a tag from a state that has it ends in a state that has it; and in
  such a state no frame above frame 0 binds \<^verbatim>\<open>$TEST\<close>, \<^verbatim>\<open>if\<close> writes it in the
  environment of frame 0, and \<^verbatim>\<open>else\<close> looks only at what that environment
  holds, whatever frames lie above.
\<close>

theorem test_only_in_frame_zero:
  "(plainProgram tree \<longrightarrow>
      testOnlyInFrameZero (makeInterpreterState tree externFunctions randoms fpow)
      \<and> (\<forall>returned final.
            interpretTag n (map_of (tags tree) ''main'') []
              (makeInterpreterState tree externFunctions randoms fpow) = Done (returned, final)
            \<longrightarrow> testOnlyInFrameZero final))
   \<and> (testOnlyInFrameZero state \<longrightarrow>
        (\<forall>result state'. plainCommand command \<and> interpC n command state = Done (result, state')
           \<longrightarrow> testOnlyInFrameZero state')
        \<and> (\<forall>ok state'. plainExpression e \<and> interpE n e state = Done (ok, state')
             \<longrightarrow> testOnlyInFrameZero state')
        \<and> (\<exists>a0 higher. environmentStack state = Some a0 # higher
              \<and> (\<forall>frame \<in> set higher. \<forall>a. frame = Some a \<longrightarrow>
                    a \<noteq> a0 \<and> environmentGet state a ''$TEST'' = None)
              \<and> interpretIf E C [] [] state
                  = Done (Continue,
                      environmentSet a0 ''$TEST'' (Value (Scalar (MNum (Finite 1)))) state)
              \<and> interpretElse C commands state
                  = (case environmentGet state a0 ''$TEST'' of
                       None \<Rightarrow> interpretChildCommands C commands state
                     | Some (Value t) \<Rightarrow>
                         if truthy t \<and> \<not> nEq (mValueToNumber (mValueToScalar state t)) (Finite 0)
                         then Done (Continue, state)
                         else interpretChildCommands C commands state
                     | Some (StoredReference r) \<Rightarrow> Throw ReferenceCast)))"
proof (intro conjI impI allI)
  assume "plainProgram tree"
  then show "testOnlyInFrameZero (makeInterpreterState tree externFunctions randoms fpow)"
    by (rule inv_makeInterpreterState)
next
  fix returned final
  assume plain: "plainProgram tree"
    and run: "interpretTag n (map_of (tags tree) ''main'') []
      (makeInterpreterState tree externFunctions randoms fpow) = Done (returned, final)"
  have "\<forall>t \<in> set_option (map_of (tags tree) ''main''). \<forall>ps \<in> set_option (params t).
      ''$TEST'' \<notin> set ps"
  proof
    fix t
    assume "t \<in> set_option (map_of (tags tree) ''main'')"
    then have "(''main'', t) \<in> set (tags tree)" by (auto dest: map_of_SomeD)
    with plain show "\<forall>ps \<in> set_option (params t). ''$TEST'' \<notin> set ps"
      by (fastforce simp: plainProgram_def)
  qed
  with inv_makeInterpreterState [OF plain]
  have "keeps (interpretTag n (map_of (tags tree) ''main'') []
      (makeInterpreterState tree externFunctions randoms fpow))"
    by (rule keeps_interpretTag)
  from this run show "testOnlyInFrameZero final" by (rule keepsD)
next
  fix result state'
  assume "testOnlyInFrameZero state"
    and "plainCommand command \<and> interpC n command state = Done (result, state')"
  with interpreter_keeps [of n] show "testOnlyInFrameZero state'"
    by (auto simp: keepsC_def keeps_def)
next
  fix ok state'
  assume "testOnlyInFrameZero state"
    and "plainExpression e \<and> interpE n e state = Done (ok, state')"
  with interpreter_keeps [of n] show "testOnlyInFrameZero state'"
    by (auto simp: keepsE_def keeps_def)
next
  assume inv: "testOnlyInFrameZero state"
  then obtain a0 higher where st: "environmentStack state = Some a0 # higher"
    and "a0 < length (environments state)" and zero: "frameZero state = Some a0"
    by (rule inv_frameZero)
  from inv st have hi: "\<forall>frame \<in> set higher. \<forall>a. frame = Some a \<longrightarrow>
      a \<noteq> a0 \<and> environmentGet state a ''$TEST'' = None"
    by (auto simp: testOnlyInFrameZero_def frameAbove_def)
  have wr: "interpretIf E C [] [] state
      = Done (Continue, environmentSet a0 ''$TEST'' (Value (Scalar (MNum (Finite 1)))) state)"
    by (simp add: interpretIf_def setSpecialVariable_def zero andThen_def)
  have rd: "interpretElse C commands state
      = (case environmentGet state a0 ''$TEST'' of
           None \<Rightarrow> interpretChildCommands C commands state
         | Some (Value t) \<Rightarrow>
             if truthy t \<and> \<not> nEq (mValueToNumber (mValueToScalar state t)) (Finite 0)
             then Done (Continue, state)
             else interpretChildCommands C commands state
         | Some (StoredReference r) \<Rightarrow> Throw ReferenceCast)"
    by (simp add: interpretElse_def getSpecialVariable_def zero andThen_def
        split: option.splits Slot.splits)
  from st hi wr rd show "\<exists>a0 higher. environmentStack state = Some a0 # higher
      \<and> (\<forall>frame \<in> set higher. \<forall>a. frame = Some a \<longrightarrow>
            a \<noteq> a0 \<and> environmentGet state a ''$TEST'' = None)
      \<and> interpretIf E C [] [] state
          = Done (Continue, environmentSet a0 ''$TEST'' (Value (Scalar (MNum (Finite 1)))) state)
      \<and> interpretElse C commands state
          = (case environmentGet state a0 ''$TEST'' of
               None \<Rightarrow> interpretChildCommands C commands state
             | Some (Value t) \<Rightarrow>
                 if truthy t \<and> \<not> nEq (mValueToNumber (mValueToScalar state t)) (Finite 0)
                 then Done (Continue, state)
                 else interpretChildCommands C commands state
             | Some (StoredReference r) \<Rightarrow> Throw ReferenceCast)"
    by blast
qed

definition ifNewCommand :: CommandAstNode where
  "ifNewCommand =
     Command ((0, 1), (0, 8)) None
       (IfNode ((0, 1), (0, 8)) [NumberLiteral ((0, 3), (0, 4)) (Finite 1)]
          [Command ((0, 5), (0, 8)) None
             (NewNode ((0, 5), (0, 8)) [Identifier ((0, 7), (0, 8)) ''a''])])"

theorem test_only_in_frame_zero_witness:
  "testOnlyInFrameZero initialState
   \<and> interpC 3 ifNewCommand initialState
       = Done (Continue,
           initialState\<lparr>environmentStack := [Some 0, Some 1],
             environments := [[(''$TEST'', Value (Scalar (MNum (Finite 1))))],
                              [(''a'', Value (Scalar (MStr [])))]]\<rparr>)
   \<and> testOnlyInFrameZero
         (initialState\<lparr>environmentStack := [Some 0, Some 1],
            environments := [[(''$TEST'', Value (Scalar (MNum (Finite 1))))],
                             [(''a'', Value (Scalar (MStr [])))]]\<rparr>)"
proof -
  let ?final = "initialState\<lparr>environmentStack := [Some 0, Some 1],
      environments := [[(''$TEST'', Value (Scalar (MNum (Finite 1))))],
                       [(''a'', Value (Scalar (MStr [])))]]\<rparr>"
  have three: "(3::nat) = Suc (Suc (Suc 0))" by simp
  have plain: "plainProgram \<lparr>tags = [], children = []\<rparr>" by (simp add: plainProgram_def)
  have command: "plainCommand ifNewCommand" by (simp add: ifNewCommand_def)
  have run: "interpC 3 ifNewCommand initialState = Done (Continue, ?final)"
    unfolding three
    by (simp add: ifNewCommand_def initialState_def makeInterpreterState_def interpretCommand_def
        interpretIf_def interpretExpression_def interpretNew_def setSpecialVariable_def
        frameZero_def environmentSet_def environmentAt_def newEnvironment_def
        andThen_def whenOk_def popThen_def popValue_def pushValue_def
        mValueToNumber_def)
  from test_only_in_frame_zero [where tree = "\<lparr>tags = [], children = []\<rparr>"
      and externFunctions = "[]" and randoms = "\<lambda>k. 0" and fpow = "\<lambda>b e. NaN"
      and state = initialState and command = ifNewCommand and n = 3] plain command run
  show ?thesis by (simp add: initialState_def)
qed

section \<open>Promotion of a scalar on a subscripted write\<close>






lemma andThen_cong:
  "m = m' \<Longrightarrow> (\<And>x. m' = Done x \<Longrightarrow> f x = f' x) \<Longrightarrow> andThen m f = andThen m' f'"
  by (cases m') (simp_all add: andThen_def)






















section \<open>The merge command\<close>

text \<open>
  The tree that a value stands for, down to the depth \<open>n\<close>: a scalar is a
  leaf, an array node has its self-value and the trees of its children under
  their keys.
\<close>

datatype MTree = Leaf MScalar | Node MScalar "(string \<times> MTree) list"

fun treeOf :: "nat \<Rightarrow> InterpreterState \<Rightarrow> MValue \<Rightarrow> MTree" where
  "treeOf n s (Scalar x) = Leaf x"
| "treeOf 0 s (ArrayObject a) = Node (arrayValue (arrayAt s a)) []"
| "treeOf (Suc n) s (ArrayObject a) =
     Node (arrayValue (arrayAt s a))
       (map (\<lambda>kv. (fst kv, treeOf n s (snd kv))) (arrayChildren (arrayAt s a)))"

text \<open>
  \<open>treeIn n s A v\<close>: the value \<open>v\<close> is a tree of depth at most \<open>n\<close> whose array
  nodes are nodes of the state \<open>s\<close> with addresses in \<open>A\<close>.
\<close>

fun treeIn :: "nat \<Rightarrow> InterpreterState \<Rightarrow> addr set \<Rightarrow> MValue \<Rightarrow> bool" where
  "treeIn n s A (Scalar x) = True"
| "treeIn 0 s A (ArrayObject a) = False"
| "treeIn (Suc n) s A (ArrayObject a) =
     (a \<in> A \<and> a < length (arrays s)
      \<and> (\<forall>kv \<in> set (arrayChildren (arrays s ! a)). treeIn n s A (snd kv)))"

lemma treeIn_mono: "A \<subseteq> B \<Longrightarrow> treeIn n s A v \<Longrightarrow> treeIn n s B v"
proof (induction n arbitrary: v)
  case 0
  then show ?case by (cases v) simp_all
next
  case (Suc n)
  then show ?case by (cases v) auto
qed

text \<open>A tree stays what it is when its nodes stay what they are.\<close>

lemma tree_stable:
  assumes "\<forall>a \<in> A. a < length (arrays s) \<longrightarrow> a < length (arrays s') \<and> arrays s' ! a = arrays s ! a"
  shows "treeIn n s A v \<Longrightarrow> treeIn n s' A v \<and> treeOf n s' v = treeOf n s v"
proof (induction n arbitrary: v)
  case 0
  then show ?case by (cases v) simp_all
next
  case (Suc n)
  show ?case
  proof (cases v)
    case (Scalar x)
    then show ?thesis by simp
  next
    case (ArrayObject a)
    with Suc.prems have a: "a \<in> A" "a < length (arrays s)"
      and children: "\<forall>kv \<in> set (arrayChildren (arrays s ! a)). treeIn n s A (snd kv)"
      by simp_all
    from assms a have same: "a < length (arrays s')" "arrays s' ! a = arrays s ! a" by simp_all
    from children Suc.IH have
      "\<forall>kv \<in> set (arrayChildren (arrays s ! a)).
         treeIn n s' A (snd kv) \<and> treeOf n s' (snd kv) = treeOf n s (snd kv)"
      by blast
    with ArrayObject a same show ?thesis by (simp add: arrayAt_def)
  qed
qed

lemma map_pair_eq:
  "map f xs = map f' ys \<Longrightarrow> map g xs = map g' ys
   \<Longrightarrow> map (\<lambda>x. (f x, g x)) xs = map (\<lambda>y. (f' y, g' y)) ys"
  by (induction xs arbitrary: ys) auto

lemma append_stable:
  "\<forall>a \<in> A. a < length (arrays s)
     \<longrightarrow> a < length (arrays (s\<lparr>arrays := arrays s @ ys\<rparr>))
       \<and> arrays (s\<lparr>arrays := arrays s @ ys\<rparr>) ! a = arrays s ! a"
  by (simp add: nth_append)

text \<open>
  The copy of a tree is the same tree, made of new nodes; the state gets these
  nodes and is otherwise the same. With the depth of the tree as fuel the copy
  is made.
\<close>

lemma copy_children_tree:
  assumes copy: "\<And>v s. treeIn n s A v \<Longrightarrow>
      \<exists>c ys. mValueCopy n v s = Done (c, s\<lparr>arrays := arrays s @ ys\<rparr>)
        \<and> treeOf n (s\<lparr>arrays := arrays s @ ys\<rparr>) c = treeOf n s v
        \<and> treeIn n (s\<lparr>arrays := arrays s @ ys\<rparr>) {a. length (arrays s) \<le> a} c"
  shows "\<forall>kv \<in> set kvs. treeIn n s A (snd kv) \<Longrightarrow>
      \<exists>cs ys. copyChildren n kvs s = Done (cs, s\<lparr>arrays := arrays s @ ys\<rparr>)
        \<and> map fst cs = map fst kvs
        \<and> map (\<lambda>kv. treeOf n (s\<lparr>arrays := arrays s @ ys\<rparr>) (snd kv)) cs
            = map (\<lambda>kv. treeOf n s (snd kv)) kvs
        \<and> (\<forall>kv \<in> set cs. treeIn n (s\<lparr>arrays := arrays s @ ys\<rparr>) {a. length (arrays s) \<le> a} (snd kv))"
proof (induction kvs arbitrary: s)
  case Nil
  have "s\<lparr>arrays := arrays s @ []\<rparr> = s" by simp
  then show ?case by (intro exI [of _ "[]"]) simp
next
  case (Cons pair rest)
  obtain k v where pair: "pair = (k, v)" by (cases pair)
  let ?F = "{a. length (arrays s) \<le> a}"
  from Cons.prems pair have "treeIn n s A v" by simp
  from copy [OF this] obtain c ys1 where
    c: "mValueCopy n v s = Done (c, s\<lparr>arrays := arrays s @ ys1\<rparr>)"
    and c_tree: "treeOf n (s\<lparr>arrays := arrays s @ ys1\<rparr>) c = treeOf n s v"
    and c_new: "treeIn n (s\<lparr>arrays := arrays s @ ys1\<rparr>) ?F c"
    by blast
  let ?s1 = "s\<lparr>arrays := arrays s @ ys1\<rparr>"
  from Cons.prems have "\<forall>kv \<in> set rest. treeIn n s A (snd kv)" by simp
  with tree_stable [OF append_stable [of A s ys1]]
  have rest1: "\<forall>kv \<in> set rest. treeIn n ?s1 A (snd kv) \<and> treeOf n ?s1 (snd kv) = treeOf n s (snd kv)"
    by blast
  then have "\<forall>kv \<in> set rest. treeIn n ?s1 A (snd kv)" by blast
  from Cons.IH [OF this] obtain cs ys2 where
    cs: "copyChildren n rest ?s1 = Done (cs, ?s1\<lparr>arrays := arrays ?s1 @ ys2\<rparr>)"
    and keys: "map fst cs = map fst rest"
    and trees: "map (\<lambda>kv. treeOf n (?s1\<lparr>arrays := arrays ?s1 @ ys2\<rparr>) (snd kv)) cs
        = map (\<lambda>kv. treeOf n ?s1 (snd kv)) rest"
    and new: "\<forall>kv \<in> set cs. treeIn n (?s1\<lparr>arrays := arrays ?s1 @ ys2\<rparr>)
        {a. length (arrays ?s1) \<le> a} (snd kv)"
    by blast
  let ?s2 = "s\<lparr>arrays := arrays s @ (ys1 @ ys2)\<rparr>"
  have s2: "?s1\<lparr>arrays := arrays ?s1 @ ys2\<rparr> = ?s2" by simp
  from c cs have run: "copyChildren n (pair # rest) s = Done ((k, c) # cs, ?s2)"
    by (simp add: pair andThen_def s2)
  from tree_stable [OF append_stable [of ?F ?s1 ys2] c_new] c_tree
  have c2: "treeIn n ?s2 ?F c" "treeOf n ?s2 c = treeOf n s v"
    by (simp_all add: s2)
  from rest1 have "map (\<lambda>kv. treeOf n ?s1 (snd kv)) rest = map (\<lambda>kv. treeOf n s (snd kv)) rest"
    by simp
  with trees have trees2: "map (\<lambda>kv. treeOf n ?s2 (snd kv)) cs = map (\<lambda>kv. treeOf n s (snd kv)) rest"
    by (simp add: s2)
  have "{a. length (arrays ?s1) \<le> a} \<subseteq> ?F" by auto
  with new have new2: "\<forall>kv \<in> set cs. treeIn n ?s2 ?F (snd kv)"
    by (auto simp: s2 intro: treeIn_mono)
  from run keys c2 trees2 new2 show ?case
    by (intro exI [of _ "(k, c) # cs"] exI [of _ "ys1 @ ys2"]) (simp add: pair)
qed

lemma copy_tree:
  "treeIn n s A v \<Longrightarrow>
     \<exists>c ys. mValueCopy n v s = Done (c, s\<lparr>arrays := arrays s @ ys\<rparr>)
       \<and> treeOf n (s\<lparr>arrays := arrays s @ ys\<rparr>) c = treeOf n s v
       \<and> treeIn n (s\<lparr>arrays := arrays s @ ys\<rparr>) {a. length (arrays s) \<le> a} c"
proof (induction n arbitrary: v s)
  case 0
  then obtain x where "v = Scalar x" by (cases v) simp_all
  moreover have "s\<lparr>arrays := arrays s @ []\<rparr> = s" by simp
  ultimately show ?case by (intro exI [of _ "Scalar x"] exI [of _ "[]"]) simp
next
  case (Suc n)
  show ?case
  proof (cases v)
    case (Scalar x)
    moreover have "s\<lparr>arrays := arrays s @ []\<rparr> = s" by simp
    ultimately show ?thesis by (intro exI [of _ "Scalar x"] exI [of _ "[]"]) simp
  next
    case (ArrayObject a)
    let ?F = "{a. length (arrays s) \<le> a}"
    from Suc.prems ArrayObject have a: "a < length (arrays s)"
      and children: "\<forall>kv \<in> set (arrayChildren (arrayAt s a)). treeIn n s A (snd kv)"
      by (simp_all add: arrayAt_def)
    from copy_children_tree [of n A, OF Suc.IH children] obtain cs ys where
      cs: "copyChildren n (arrayChildren (arrayAt s a)) s = Done (cs, s\<lparr>arrays := arrays s @ ys\<rparr>)"
      and keys: "map fst cs = map fst (arrayChildren (arrayAt s a))"
      and trees: "map (\<lambda>kv. treeOf n (s\<lparr>arrays := arrays s @ ys\<rparr>) (snd kv)) cs
          = map (\<lambda>kv. treeOf n s (snd kv)) (arrayChildren (arrayAt s a))"
      and new: "\<forall>kv \<in> set cs. treeIn n (s\<lparr>arrays := arrays s @ ys\<rparr>) ?F (snd kv)"
      by blast
    let ?s1 = "s\<lparr>arrays := arrays s @ ys\<rparr>"
    let ?node = "\<lparr>arrayValue = arrayValue (arrayAt s a), arrayChildren = cs\<rparr>"
    let ?new = "length (arrays s) + length ys"
    let ?s' = "s\<lparr>arrays := arrays s @ (ys @ [?node])\<rparr>"
    have s': "?s1\<lparr>arrays := arrays ?s1 @ [?node]\<rparr> = ?s'" by simp
    from cs have run: "mValueCopy (Suc n) v s = Done (ArrayObject ?new, ?s')"
      by (simp add: ArrayObject andThen_def)
    from new tree_stable [OF append_stable [of ?F ?s1 "[?node]"]]
    have stable: "\<forall>kv \<in> set cs. treeIn n ?s' ?F (snd kv)
        \<and> treeOf n ?s' (snd kv) = treeOf n ?s1 (snd kv)"
      by (simp add: s')
    then have "map (\<lambda>kv. treeOf n ?s' (snd kv)) cs = map (\<lambda>kv. treeOf n ?s1 (snd kv)) cs"
      by simp
    with trees have "map (\<lambda>kv. treeOf n ?s' (snd kv)) cs
        = map (\<lambda>kv. treeOf n s (snd kv)) (arrayChildren (arrayAt s a))"
      by simp
    with keys have pairs: "map (\<lambda>kv. (fst kv, treeOf n ?s' (snd kv))) cs
        = map (\<lambda>kv. (fst kv, treeOf n s (snd kv))) (arrayChildren (arrayAt s a))"
      by (rule map_pair_eq)
    have at: "arrayAt ?s' ?new = ?node" "arrays ?s' ! ?new = ?node"
      by (simp_all add: arrayAt_def nth_append)
    from pairs have tree: "treeOf (Suc n) ?s' (ArrayObject ?new) = treeOf (Suc n) s v"
      by (simp add: ArrayObject at)
    from stable have "treeIn (Suc n) ?s' ?F (ArrayObject ?new)"
      by (simp add: at)
    with run tree show ?thesis
      by (intro exI [of _ "ArrayObject ?new"] exI [of _ "ys @ [?node]"]) simp
  qed
qed

text \<open>
  The loop of the merge, for a destination \<open>d\<close> that is a node of the state
  and source children that are trees without \<open>d\<close>: it ends, every source child
  is in the destination as a copy made of new nodes, the other children of the
  destination are what they were, and so is every other node of the state.
\<close>

lemma merge_children_tree:
  assumes "d < length (arrays s)" and "distinct (map fst kvs)"
    and "\<forall>kv \<in> set kvs. treeIn n s (- {d}) (snd kv)"
  shows "\<exists>xs. mergeChildren n d kvs s = Done (s\<lparr>arrays := xs\<rparr>)
     \<and> length (arrays s) \<le> length xs
     \<and> (\<forall>a < length (arrays s). a \<noteq> d \<longrightarrow> xs ! a = arrays s ! a)
     \<and> arrayValue (xs ! d) = arrayValue (arrays s ! d)
     \<and> (\<forall>kv \<in> set kvs. \<exists>c. map_of (arrayChildren (xs ! d)) (fst kv) = Some c
           \<and> treeOf n (s\<lparr>arrays := xs\<rparr>) c = treeOf n s (snd kv)
           \<and> treeIn n (s\<lparr>arrays := xs\<rparr>) {a. length (arrays s) \<le> a} c)
     \<and> (\<forall>k. k \<notin> fst ` set kvs
           \<longrightarrow> map_of (arrayChildren (xs ! d)) k = map_of (arrayChildren (arrays s ! d)) k)"
  using assms
proof (induction kvs arbitrary: s)
  case Nil
  have "s\<lparr>arrays := arrays s\<rparr> = s" by simp
  then show ?case by (intro exI [of _ "arrays s"]) simp
next
  case (Cons pair rest)
  obtain key v where pair: "pair = (key, v)" by (cases pair)
  let ?L = "length (arrays s)"
  let ?F = "{a. ?L \<le> a}"
  note d = Cons.prems(1)
  from Cons.prems(2) pair have fresh_key: "key \<notin> fst ` set rest" and distinct: "distinct (map fst rest)"
    by simp_all
  from Cons.prems(3) pair have v: "treeIn n s (- {d}) v"
    and rest: "\<forall>kv \<in> set rest. treeIn n s (- {d}) (snd kv)" by simp_all
  from copy_tree [OF v] obtain c ys where
    copy: "mValueCopy n v s = Done (c, s\<lparr>arrays := arrays s @ ys\<rparr>)"
    and c_tree: "treeOf n (s\<lparr>arrays := arrays s @ ys\<rparr>) c = treeOf n s v"
    and c_new: "treeIn n (s\<lparr>arrays := arrays s @ ys\<rparr>) ?F c"
    by blast
  let ?s1 = "s\<lparr>arrays := arrays s @ ys\<rparr>"
  let ?node = "(arrays s ! d)\<lparr>arrayChildren := assocSet key c (arrayChildren (arrays s ! d))\<rparr>"
  let ?zs = "(arrays s @ ys)[d := ?node]"
  let ?s2 = "s\<lparr>arrays := ?zs\<rparr>"
  from d have set2: "mArraySet d key c ?s1 = ?s2"
    by (simp add: mArraySet_def arrayAt_def nth_append)
  have len2: "length (arrays ?s2) = ?L + length ys" by simp
  from d have d2: "d < length (arrays ?s2)" by simp
  have to_s2: "\<forall>a \<in> - {d}. a < length (arrays s)
      \<longrightarrow> a < length (arrays ?s2) \<and> arrays ?s2 ! a = arrays s ! a"
    by (simp add: nth_append)
  from rest tree_stable [OF to_s2]
  have rest2: "\<forall>kv \<in> set rest. treeIn n ?s2 (- {d}) (snd kv)
      \<and> treeOf n ?s2 (snd kv) = treeOf n s (snd kv)"
    by blast
  then have "\<forall>kv \<in> set rest. treeIn n ?s2 (- {d}) (snd kv)" by blast
  from Cons.IH [OF d2 distinct this] obtain xs where
    run: "mergeChildren n d rest ?s2 = Done (?s2\<lparr>arrays := xs\<rparr>)"
    and len: "length (arrays ?s2) \<le> length xs"
    and others: "\<forall>a < length (arrays ?s2). a \<noteq> d \<longrightarrow> xs ! a = arrays ?s2 ! a"
    and self: "arrayValue (xs ! d) = arrayValue (arrays ?s2 ! d)"
    and copies: "\<forall>kv \<in> set rest. \<exists>c'. map_of (arrayChildren (xs ! d)) (fst kv) = Some c'
        \<and> treeOf n (?s2\<lparr>arrays := xs\<rparr>) c' = treeOf n ?s2 (snd kv)
        \<and> treeIn n (?s2\<lparr>arrays := xs\<rparr>) {a. length (arrays ?s2) \<le> a} c'"
    and kept: "\<forall>k. k \<notin> fst ` set rest
        \<longrightarrow> map_of (arrayChildren (xs ! d)) k = map_of (arrayChildren (arrays ?s2 ! d)) k"
    by blast
  let ?final = "s\<lparr>arrays := xs\<rparr>"
  have final: "?s2\<lparr>arrays := xs\<rparr> = ?final" by simp
  from copy run have finished: "mergeChildren n d (pair # rest) s = Done ?final"
    by (simp add: pair andThen_def set2)
  from len have len': "?L \<le> length xs" by simp
  from others d have others': "\<forall>a < ?L. a \<noteq> d \<longrightarrow> xs ! a = arrays s ! a"
    by (simp add: nth_append)
  from self d have self': "arrayValue (xs ! d) = arrayValue (arrays s ! d)"
    by (simp add: nth_append)
  have s1_to_s2: "\<forall>a \<in> ?F. a < length (arrays ?s1)
      \<longrightarrow> a < length (arrays ?s2) \<and> arrays ?s2 ! a = arrays ?s1 ! a"
    using d by simp
  from tree_stable [OF s1_to_s2 c_new] c_tree
  have c2: "treeIn n ?s2 ?F c" "treeOf n ?s2 c = treeOf n s v" by simp_all
  have s2_to_final: "\<forall>a \<in> ?F. a < length (arrays ?s2)
      \<longrightarrow> a < length (arrays ?final) \<and> arrays ?final ! a = arrays ?s2 ! a"
    using others len d by auto
  from tree_stable [OF s2_to_final c2(1)] c2(2)
  have c_final: "treeIn n ?final ?F c" "treeOf n ?final c = treeOf n s v" by simp_all
  from kept fresh_key d have "map_of (arrayChildren (xs ! d)) key = Some c"
    by (simp add: nth_append map_of_assocSet)
  with c_final have first: "\<exists>c'. map_of (arrayChildren (xs ! d)) key = Some c'
      \<and> treeOf n ?final c' = treeOf n s v \<and> treeIn n ?final ?F c'"
    by blast
  have sub: "{a. length (arrays ?s2) \<le> a} \<subseteq> ?F" by auto
  have later: "\<forall>kv \<in> set rest. \<exists>c'. map_of (arrayChildren (xs ! d)) (fst kv) = Some c'
      \<and> treeOf n ?final c' = treeOf n s (snd kv) \<and> treeIn n ?final ?F c'"
  proof
    fix kv
    assume kv: "kv \<in> set rest"
    with copies obtain c' where c': "map_of (arrayChildren (xs ! d)) (fst kv) = Some c'"
      and t: "treeOf n (?s2\<lparr>arrays := xs\<rparr>) c' = treeOf n ?s2 (snd kv)"
      and i: "treeIn n (?s2\<lparr>arrays := xs\<rparr>) {a. length (arrays ?s2) \<le> a} c'"
      by blast
    from kv rest2 t have "treeOf n ?final c' = treeOf n s (snd kv)" by (simp add: final)
    moreover from treeIn_mono [OF sub i] have "treeIn n ?final ?F c'" by (simp add: final)
    ultimately show "\<exists>c'. map_of (arrayChildren (xs ! d)) (fst kv) = Some c'
        \<and> treeOf n ?final c' = treeOf n s (snd kv) \<and> treeIn n ?final ?F c'"
      using c' by blast
  qed
  from kept d have kept': "\<forall>k. k \<notin> fst ` set (pair # rest)
      \<longrightarrow> map_of (arrayChildren (xs ! d)) k = map_of (arrayChildren (arrays s ! d)) k"
    by (auto simp: pair nth_append map_of_assocSet)
  from finished len' others' self' first later kept' show ?case
    by (intro exI [of _ xs]) (simp add: pair)
qed

text \<open>The check for overlapping variables, said with prefixes.\<close>

lemma same_positions:
  "list_all (\<lambda>(l, r). l = r) (zip lefts rights)
   = (take (length lefts) rights = lefts \<or> take (length rights) lefts = rights)"
proof (induction lefts arbitrary: rights)
  case Nil
  show ?case by simp
next
  case (Cons l lefts)
  then show ?case by (cases rights) auto
qed

lemma doVariablesOverlap_prefix:
  "doVariablesOverlap leftName rightName lefts rights
   = (leftName = rightName
      \<and> (take (length lefts) rights = lefts \<or> take (length rights) lefts = rights))"
  by (simp add: doVariablesOverlap_def same_positions)

text \<open>
  The part of \<^verbatim>\<open>interpretMerge\<close> that makes the destination an array node:
  a scalar is replaced by a new node with the scalar as its self-value.
\<close>

definition destinationArray :: "MReference \<Rightarrow> InterpreterState \<Rightarrow> (addr \<times> InterpreterState) outcome" where
  "destinationArray destinationReference state3 =
     andThen (getReferenceValue state3 destinationReference) (\<lambda>found.
       case found of
         ArrayObject a \<Rightarrow> Done (a, state3)
       | Scalar x \<Rightarrow>
           (let (a, state4) = newArray x state3
            in andThen (setReferenceValue destinationReference (ArrayObject a) state4)
                 (\<lambda>state5. Done (a, state5))))"

lemma interpretMerge_unfold:
  assumes "interpretSubscripts E (variableSubscripts left) state = Done (Some lefts, s1)"
    and "interpretSubscripts E (variableSubscripts right) s1 = Done (Some rights, s2)"
    and "\<not> doVariablesOverlap (variableName left) (variableName right) lefts rights"
  shows "interpretMerge n E node left right state
     = andThen (getVariableReference E left s2 (length lefts) (Some lefts) True)
         (\<lambda>(destinationReference, s3).
            case destinationReference of
              None \<Rightarrow> Done (Halt, s3)
            | Some dref \<Rightarrow>
                andThen (destinationArray dref s3) (\<lambda>(destination, s6).
                  andThen (getVariableReference E right s6 (length rights) (Some rights) False)
                    (\<lambda>(sourceReference, s7).
                       case sourceReference of
                         None \<Rightarrow> Done (Halt, s7)
                       | Some sref \<Rightarrow>
                           andThen (getReferenceValue s7 sref) (\<lambda>source.
                             case source of
                               Scalar x \<Rightarrow> Done (Continue, s7)
                             | ArrayObject b \<Rightarrow>
                                 andThen (mergeChildren n destination
                                            (arrayChildren (arrayAt s7 b)) s7)
                                   (\<lambda>s8. Done (Continue, s8))))))"
proof -
  have assoc: "andThen (andThen m f) g = andThen m (\<lambda>x. andThen (f x) g)" for m :: "'a outcome"
    and f :: "'a \<Rightarrow> 'b outcome" and g :: "'b \<Rightarrow> 'c outcome"
    by (cases m) (simp_all add: andThen_def)
  show ?thesis
    unfolding interpretMerge_def destinationArray_def assoc
    using assms by (simp add: andThen_def)
qed

text \<open>
  With the subscript values given, the resolution of a reference evaluates
  nothing; it reports at most that the variable does not exist.
\<close>

definition onlyMissing :: "InterpreterState \<Rightarrow> InterpreterState \<Rightarrow> bool" where
  "onlyMissing s s' =
     (\<exists>new. errors s' = errors s @ new \<and> (\<forall>e \<in> set new. message e = ''Variable does not exist''))"

lemma onlyMissing_same: "errors s' = errors s \<Longrightarrow> onlyMissing s s'"
  by (simp add: onlyMissing_def)

lemma onlyMissing_trans: "onlyMissing s s' \<Longrightarrow> onlyMissing s' s'' \<Longrightarrow> onlyMissing s s''"
  by (auto simp: onlyMissing_def)

lemma loop_values_errors:
  "getReferenceLoop E name environment subscripts (Some keys) canCreate indices
     v array subscriptKey s = Done (found, s1) \<Longrightarrow> errors s1 = errors s"
proof (induction indices arbitrary: v array subscriptKey s)
  case Nil
  then show ?case by (auto split: option.splits)
next
  case (Cons i rest)
  from Cons.prems obtain node s2 where
    phase: "(case v of
          Some (ArrayObject a) \<Rightarrow> Done (Some a, s)
        | _ \<Rightarrow>
            if \<not> canCreate then Done (None, s)
            else
              (let (a, state1) =
                     newArray (case v of Some (Scalar x) \<Rightarrow> x | _ \<Rightarrow> MStr []) s
               in if 0 < i then
                    (case (array, subscriptKey) of
                       (Some parent, Some k) \<Rightarrow> Done (Some a, mArraySet parent k (ArrayObject a) state1)
                     | _ \<Rightarrow> Throw TypeError)
                  else
                    (case environment of
                       None \<Rightarrow> Throw TypeError
                     | Some e \<Rightarrow> Done (Some a, environmentSet e name (Value (ArrayObject a)) state1))))
       = Done (node, s2)"
    and rest: "(case node of
              None \<Rightarrow> Done (NullReference, s2)
            | Some a \<Rightarrow>
                andThen (getSubscriptKey E s2 i subscripts (Some keys)) (\<lambda>(key, state3).
                  case key of
                    None \<Rightarrow> Done (UndefinedReference, state3)
                  | Some k \<Rightarrow>
                      if k = [] then Done (UndefinedReference, state3)
                      else getReferenceLoop E name environment subscripts (Some keys) canCreate rest
                             (mArrayGet state3 a k) (Some a) (Some k) state3)) = Done (found, s1)"
    by (simp only: getReferenceLoop.simps) (auto dest!: andThen_Done)
  from phase have errors2: "errors s2 = errors s"
    by (auto simp: newArray_def mArraySet_def environmentSet_def Let_def
        split: option.splits MValue.splits if_splits)
  show ?case
  proof (cases node)
    case None
    with rest errors2 show ?thesis by simp
  next
    case (Some a)
    with rest have
      "(case (if i < length keys then Some (keys ! i) else None) of
          None \<Rightarrow> Done (UndefinedReference, s2)
        | Some k \<Rightarrow>
            if k = [] then Done (UndefinedReference, s2)
            else getReferenceLoop E name environment subscripts (Some keys) canCreate rest
                   (mArrayGet s2 a k) (Some a) (Some k) s2) = Done (found, s1)"
      by (simp add: getSubscriptKey_def andThen_def)
    then have "errors s1 = errors s2"
      by (auto split: option.splits if_splits dest: Cons.IH)
    with errors2 show ?thesis by simp
  qed
qed

lemma getVariableReference_values_errors:
  assumes "getVariableReference E node s subscriptCount (Some keys) canCreate = Done (reference, s1)"
  shows "onlyMissing s s1"
proof -
  from assms obtain found s0 where
    get: "getReference E (variableName node) s subscriptCount (Some (variableSubscripts node))
            (Some keys) canCreate = Done (found, s0)"
    and out: "(case found of
            NullReference \<Rightarrow>
              Done (None, reportError ''Variable does not exist'' (variableRange node) s0)
          | UndefinedReference \<Rightarrow> Done (None, s0)
          | FoundReference r \<Rightarrow> Done (Some r, s0)) = Done (reference, s1)"
    by (auto simp: getVariableReference_def dest!: andThen_Done)
  from get have "errors s0 = errors s"
    by (auto simp: getReference_def Let_def dest!: andThen_Done dest: loop_values_errors
        split: option.splits Slot.splits prod.splits if_splits)
  with out show ?thesis
    by (cases found) (auto simp: onlyMissing_def reportError_def)
qed

lemma destinationArray_errors:
  "destinationArray dref s = Done (d, s1) \<Longrightarrow> errors s1 = errors s"
  by (auto simp: destinationArray_def newArray_def setReferenceValue_def mArraySet_def
      environmentSet_def Let_def dest!: andThen_Done
      split: MValue.splits MReference.splits option.splits)

lemma mergeChildren_errors:
  "mergeChildren n d kvs s = Done s1 \<Longrightarrow> errors s1 = errors s"
proof (induction kvs arbitrary: s)
  case Nil
  then show ?case by simp
next
  case (Cons pair rest)
  obtain key v where pair: "pair = (key, v)" by (cases pair)
  from Cons.prems pair obtain c s0 where copy: "mValueCopy n v s = Done (c, s0)"
    and rest: "mergeChildren n d rest (mArraySet d key c s0) = Done s1"
    by (auto dest!: andThen_Done)
  from copy obtain xs where "s0 = s\<lparr>arrays := xs\<rparr>" by (auto dest: copy_changes_arrays(1))
  then have "errors (mArraySet d key c s0) = errors s" by (simp add: mArraySet_def)
  with Cons.IH [OF rest] show ?case by simp
qed

lemma interpretMerge_errors:
  assumes "interpretSubscripts E (variableSubscripts left) state = Done (Some lefts, s1)"
    and "interpretSubscripts E (variableSubscripts right) s1 = Done (Some rights, s2)"
    and "\<not> doVariablesOverlap (variableName left) (variableName right) lefts rights"
    and "interpretMerge n E node left right state = Done (result, final)"
  shows "onlyMissing s2 final"
proof -
  from assms(4) [unfolded interpretMerge_unfold [OF assms(1-3)]]
  obtain dref s3 where
    dst: "getVariableReference E left s2 (length lefts) (Some lefts) True = Done (dref, s3)"
    and after: "(case dref of
              None \<Rightarrow> Done (Halt, s3)
            | Some dref \<Rightarrow>
                andThen (destinationArray dref s3) (\<lambda>(destination, s6).
                  andThen (getVariableReference E right s6 (length rights) (Some rights) False)
                    (\<lambda>(sourceReference, s7).
                       case sourceReference of
                         None \<Rightarrow> Done (Halt, s7)
                       | Some sref \<Rightarrow>
                           andThen (getReferenceValue s7 sref) (\<lambda>source.
                             case source of
                               Scalar x \<Rightarrow> Done (Continue, s7)
                             | ArrayObject b \<Rightarrow>
                                 andThen (mergeChildren n destination
                                            (arrayChildren (arrayAt s7 b)) s7)
                                   (\<lambda>s8. Done (Continue, s8)))))) = Done (result, final)"
    by (auto dest!: andThen_Done)
  from dst have m3: "onlyMissing s2 s3" by (rule getVariableReference_values_errors)
  show ?thesis
  proof (cases dref)
    case None
    with after m3 show ?thesis by simp
  next
    case (Some r)
    with after obtain d s6 sref s7 where
      dest: "destinationArray r s3 = Done (d, s6)"
      and src: "getVariableReference E right s6 (length rights) (Some rights) False = Done (sref, s7)"
      and last: "(case sref of
                         None \<Rightarrow> Done (Halt, s7)
                       | Some sref \<Rightarrow>
                           andThen (getReferenceValue s7 sref) (\<lambda>source.
                             case source of
                               Scalar x \<Rightarrow> Done (Continue, s7)
                             | ArrayObject b \<Rightarrow>
                                 andThen (mergeChildren n d (arrayChildren (arrayAt s7 b)) s7)
                                   (\<lambda>s8. Done (Continue, s8)))) = Done (result, final)"
      by (auto dest!: andThen_Done)
    from dest have "errors s6 = errors s3" by (rule destinationArray_errors)
    with m3 have m6: "onlyMissing s2 s6" by (simp add: onlyMissing_def)
    from src have "onlyMissing s6 s7" by (rule getVariableReference_values_errors)
    with m6 have m7: "onlyMissing s2 s7" by (rule onlyMissing_trans)
    from last have "errors final = errors s7"
      by (auto dest!: andThen_Done dest: mergeChildren_errors split: option.splits MValue.splits)
    with m7 show ?thesis by (simp add: onlyMissing_def)
  qed
qed

text \<open>
  Claim C6: with the subscripts of both variables evaluated, the merge reports that
  the variables overlap exactly when they have the same name and one list of
  subscript values is a prefix of the other; it then halts. Otherwise the
  merge reports nothing but a variable that does not exist, and when the
  destination \<open>d\<close> and the source \<open>b\<close> are array nodes, the source children
  being trees of depth at most \<open>n\<close> that do not contain \<open>d\<close>, it ends with
  \<open>Continue\<close>: every child of the source is a child of the destination under
  the same key, as the same tree made of new nodes; the children of the
  destination under other keys are what they were, and so is every other
  array node.
\<close>

theorem merge_overlap_and_copy:
  assumes "interpretSubscripts E (variableSubscripts left) state = Done (Some lefts, s1)"
    and "interpretSubscripts E (variableSubscripts right) s1 = Done (Some rights, s2)"
  shows "(variableName left = variableName right
          \<and> (take (length lefts) rights = lefts \<or> take (length rights) lefts = rights)
          \<longrightarrow> interpretMerge n E node left right state
              = Done (Halt, reportError ''Cannot merge overlapping variables'' node s2))
     \<and> (\<not> (variableName left = variableName right
             \<and> (take (length lefts) rights = lefts \<or> take (length rights) lefts = rights))
          \<longrightarrow> (\<forall>result final. interpretMerge n E node left right state = Done (result, final)
                 \<longrightarrow> (\<exists>new. errors final = errors s2 @ new
                        \<and> (\<forall>e \<in> set new. message e = ''Variable does not exist'')))
              \<and> (\<forall>dref s3 d s6 sref s7 b.
                    getVariableReference E left s2 (length lefts) (Some lefts) True
                      = Done (Some dref, s3)
                    \<and> destinationArray dref s3 = Done (d, s6)
                    \<and> getVariableReference E right s6 (length rights) (Some rights) False
                        = Done (Some sref, s7)
                    \<and> getReferenceValue s7 sref = Done (ArrayObject b)
                    \<and> d < length (arrays s7)
                    \<and> distinct (map fst (arrayChildren (arrayAt s7 b)))
                    \<and> (\<forall>kv \<in> set (arrayChildren (arrayAt s7 b)). treeIn n s7 (- {d}) (snd kv))
                    \<longrightarrow> (\<exists>final. interpretMerge n E node left right state = Done (Continue, final)
                           \<and> (\<forall>kv \<in> set (arrayChildren (arrayAt s7 b)).
                                 \<exists>c. mArrayGet final d (fst kv) = Some c
                                   \<and> treeOf n final c = treeOf n s7 (snd kv)
                                   \<and> treeIn n final {a. length (arrays s7) \<le> a} c)
                           \<and> (\<forall>k. mArrayGet s7 b k = None
                                 \<longrightarrow> mArrayGet final d k = mArrayGet s7 d k)
                           \<and> (\<forall>a. a \<noteq> d \<longrightarrow> arrayAt final a = arrayAt s7 a
                                       \<or> length (arrays s7) \<le> a))))"
proof (intro conjI impI allI)
  assume "variableName left = variableName right
      \<and> (take (length lefts) rights = lefts \<or> take (length rights) lefts = rights)"
  then have "doVariablesOverlap (variableName left) (variableName right) lefts rights"
    by (simp add: doVariablesOverlap_prefix)
  with assms show "interpretMerge n E node left right state
      = Done (Halt, reportError ''Cannot merge overlapping variables'' node s2)"
    by (simp add: interpretMerge_def andThen_def)
next
  fix result final
  assume "\<not> (variableName left = variableName right
      \<and> (take (length lefts) rights = lefts \<or> take (length rights) lefts = rights))"
    and run: "interpretMerge n E node left right state = Done (result, final)"
  then have "\<not> doVariablesOverlap (variableName left) (variableName right) lefts rights"
    by (simp add: doVariablesOverlap_prefix)
  from interpretMerge_errors [OF assms this run]
  show "\<exists>new. errors final = errors s2 @ new
      \<and> (\<forall>e \<in> set new. message e = ''Variable does not exist'')"
    by (simp add: onlyMissing_def)
next
  fix dref s3 d s6 sref s7 b
  assume "\<not> (variableName left = variableName right
      \<and> (take (length lefts) rights = lefts \<or> take (length rights) lefts = rights))"
  then have apart: "\<not> doVariablesOverlap (variableName left) (variableName right) lefts rights"
    by (simp add: doVariablesOverlap_prefix)
  assume "getVariableReference E left s2 (length lefts) (Some lefts) True = Done (Some dref, s3)
      \<and> destinationArray dref s3 = Done (d, s6)
      \<and> getVariableReference E right s6 (length rights) (Some rights) False = Done (Some sref, s7)
      \<and> getReferenceValue s7 sref = Done (ArrayObject b)
      \<and> d < length (arrays s7)
      \<and> distinct (map fst (arrayChildren (arrayAt s7 b)))
      \<and> (\<forall>kv \<in> set (arrayChildren (arrayAt s7 b)). treeIn n s7 (- {d}) (snd kv))"
  then have dst: "getVariableReference E left s2 (length lefts) (Some lefts) True = Done (Some dref, s3)"
    and dest: "destinationArray dref s3 = Done (d, s6)"
    and src: "getVariableReference E right s6 (length rights) (Some rights) False = Done (Some sref, s7)"
    and source: "getReferenceValue s7 sref = Done (ArrayObject b)"
    and d: "d < length (arrays s7)"
    and keys: "distinct (map fst (arrayChildren (arrayAt s7 b)))"
    and trees: "\<forall>kv \<in> set (arrayChildren (arrayAt s7 b)). treeIn n s7 (- {d}) (snd kv)"
    by simp_all
  let ?children = "arrayChildren (arrayAt s7 b)"
  from merge_children_tree [OF d keys trees] obtain xs where
    loop: "mergeChildren n d ?children s7 = Done (s7\<lparr>arrays := xs\<rparr>)"
    and len: "length (arrays s7) \<le> length xs"
    and others: "\<forall>a < length (arrays s7). a \<noteq> d \<longrightarrow> xs ! a = arrays s7 ! a"
    and copies: "\<forall>kv \<in> set ?children. \<exists>c. map_of (arrayChildren (xs ! d)) (fst kv) = Some c
        \<and> treeOf n (s7\<lparr>arrays := xs\<rparr>) c = treeOf n s7 (snd kv)
        \<and> treeIn n (s7\<lparr>arrays := xs\<rparr>) {a. length (arrays s7) \<le> a} c"
    and kept: "\<forall>k. k \<notin> fst ` set ?children
        \<longrightarrow> map_of (arrayChildren (xs ! d)) k = map_of (arrayChildren (arrays s7 ! d)) k"
    by blast
  let ?final = "s7\<lparr>arrays := xs\<rparr>"
  have run: "interpretMerge n E node left right state = Done (Continue, ?final)"
    unfolding interpretMerge_unfold [OF assms apart]
    by (simp add: dst dest src source loop andThen_def)
  from d len have at_d: "arrayAt ?final d = xs ! d" "arrayAt s7 d = arrays s7 ! d"
    by (simp_all add: arrayAt_def)
  from copies have copied: "\<forall>kv \<in> set ?children. \<exists>c. mArrayGet ?final d (fst kv) = Some c
      \<and> treeOf n ?final c = treeOf n s7 (snd kv)
      \<and> treeIn n ?final {a. length (arrays s7) \<le> a} c"
    by (simp add: mArrayGet_def at_d)
  have absent: "k \<notin> fst ` set ?children" if "mArrayGet s7 b k = None" for k
    using that by (simp add: mArrayGet_def map_of_eq_None_iff)
  with kept have preserved: "\<forall>k. mArrayGet s7 b k = None
      \<longrightarrow> mArrayGet ?final d k = mArrayGet s7 d k"
    by (simp add: mArrayGet_def at_d)
  from others len have untouched: "\<forall>a. a \<noteq> d \<longrightarrow> arrayAt ?final a = arrayAt s7 a
      \<or> length (arrays s7) \<le> a"
    by (auto simp: arrayAt_def)
  from run copied preserved untouched
  show "\<exists>final. interpretMerge n E node left right state = Done (Continue, final)
      \<and> (\<forall>kv \<in> set ?children. \<exists>c. mArrayGet final d (fst kv) = Some c
            \<and> treeOf n final c = treeOf n s7 (snd kv)
            \<and> treeIn n final {a. length (arrays s7) \<le> a} c)
      \<and> (\<forall>k. mArrayGet s7 b k = None \<longrightarrow> mArrayGet final d k = mArrayGet s7 d k)
      \<and> (\<forall>a. a \<noteq> d \<longrightarrow> arrayAt final a = arrayAt s7 a \<or> length (arrays s7) \<le> a)"
    by blast
qed

definition mergeState :: InterpreterState where
  "mergeState =
     initialState\<lparr>environments := [[(''d'', Value (ArrayObject 0)), (''s'', Value (ArrayObject 1))]],
       arrays :=
         [\<lparr>arrayValue = MStr [],
            arrayChildren = [(''k'', Scalar (MStr ''old'')), (''z'', Scalar (MStr ''keep''))]\<rparr>,
          \<lparr>arrayValue = MStr [],
            arrayChildren = [(''k'', Scalar (MStr ''new'')), (''m'', ArrayObject 2)]\<rparr>,
          \<lparr>arrayValue = MStr ''v'', arrayChildren = [(''j'', Scalar (MStr ''deep''))]\<rparr>]\<rparr>"

theorem merge_overlap_and_copy_witness:
  "(\<exists>final.
      interpretMerge 2 (interpE 2) ((0, 1), (0, 8))
        (VariableNode ((0, 3), (0, 4)) (Identifier ((0, 3), (0, 4)) ''d'') [])
        (VariableNode ((0, 5), (0, 6)) (Identifier ((0, 5), (0, 6)) ''s'') [])
        mergeState = Done (Continue, final)
      \<and> (\<forall>kv \<in> set (arrayChildren (arrayAt mergeState 1)).
            \<exists>c. mArrayGet final 0 (fst kv) = Some c
              \<and> treeOf 2 final c = treeOf 2 mergeState (snd kv)
              \<and> treeIn 2 final {a. length (arrays mergeState) \<le> a} c)
      \<and> (\<forall>k. mArrayGet mergeState 1 k = None
            \<longrightarrow> mArrayGet final 0 k = mArrayGet mergeState 0 k)
      \<and> (\<forall>a. a \<noteq> 0 \<longrightarrow> arrayAt final a = arrayAt mergeState a
                  \<or> length (arrays mergeState) \<le> a))
   \<and> interpretMerge 2 (interpE 2) ((0, 1), (0, 11))
        (VariableNode ((0, 3), (0, 9)) (Identifier ((0, 3), (0, 4)) ''d'')
           [StringLiteral ((0, 5), (0, 8)) ''k''])
        (VariableNode ((0, 10), (0, 11)) (Identifier ((0, 10), (0, 11)) ''d'') [])
        mergeState
      = Done (Halt, reportError ''Cannot merge overlapping variables'' ((0, 1), (0, 11)) mergeState)"
proof -
  let ?d = "VariableNode ((0, 3), (0, 4)) (Identifier ((0, 3), (0, 4)) ''d'') []"
  let ?s = "VariableNode ((0, 5), (0, 6)) (Identifier ((0, 5), (0, 6)) ''s'') []"
  let ?dk = "VariableNode ((0, 3), (0, 9)) (Identifier ((0, 3), (0, 4)) ''d'')
      [StringLiteral ((0, 5), (0, 8)) ''k'']"
  let ?d' = "VariableNode ((0, 10), (0, 11)) (Identifier ((0, 10), (0, 11)) ''d'') []"
  have two: "(2::nat) = Suc (Suc 0)" by simp
  have none: "interpretSubscripts (interpE 2) [] mergeState = Done (Some [], mergeState)" by simp
  have left: "interpretSubscripts (interpE 2) (variableSubscripts ?d) mergeState
      = Done (Some [], mergeState)" by simp
  have right: "interpretSubscripts (interpE 2) (variableSubscripts ?s) mergeState
      = Done (Some [], mergeState)" by simp
  have apart: "\<not> (variableName ?d = variableName ?s
      \<and> (take (length ([] :: string list)) [] = ([] :: string list)
          \<or> take (length ([] :: string list)) [] = ([] :: string list)))" by simp
  have dst: "getVariableReference (interpE 2) ?d mergeState (length ([] :: string list)) (Some []) True
      = Done (Some (EnvironmentReference (Some 0) ''d''), mergeState)"
    by (simp add: mergeState_def initialState_def reference_defs combinator_defs)
  have dest: "destinationArray (EnvironmentReference (Some 0) ''d'') mergeState
      = Done (0, mergeState)"
    by (simp add: destinationArray_def mergeState_def initialState_def reference_defs
        combinator_defs)
  have src: "getVariableReference (interpE 2) ?s mergeState (length ([] :: string list)) (Some []) False
      = Done (Some (EnvironmentReference (Some 0) ''s''), mergeState)"
    by (simp add: mergeState_def initialState_def reference_defs combinator_defs)
  have source: "getReferenceValue mergeState (EnvironmentReference (Some 0) ''s'')
      = Done (ArrayObject 1)"
    by (simp add: mergeState_def initialState_def reference_defs)
  have d: "0 < length (arrays mergeState)" by (simp add: mergeState_def)
  have keys: "distinct (map fst (arrayChildren (arrayAt mergeState 1)))"
    by (simp add: mergeState_def arrayAt_def)
  have trees: "\<forall>kv \<in> set (arrayChildren (arrayAt mergeState 1)).
      treeIn 2 mergeState (- {0}) (snd kv)"
    unfolding two by (simp add: mergeState_def arrayAt_def)
  have first: "\<exists>final.
      interpretMerge 2 (interpE 2) ((0, 1), (0, 8)) ?d ?s mergeState = Done (Continue, final)
      \<and> (\<forall>kv \<in> set (arrayChildren (arrayAt mergeState 1)).
            \<exists>c. mArrayGet final 0 (fst kv) = Some c
              \<and> treeOf 2 final c = treeOf 2 mergeState (snd kv)
              \<and> treeIn 2 final {a. length (arrays mergeState) \<le> a} c)
      \<and> (\<forall>k. mArrayGet mergeState 1 k = None
            \<longrightarrow> mArrayGet final 0 k = mArrayGet mergeState 0 k)
      \<and> (\<forall>a. a \<noteq> 0 \<longrightarrow> arrayAt final a = arrayAt mergeState a
                  \<or> length (arrays mergeState) \<le> a)"
    using merge_overlap_and_copy [OF left right, of 2 "((0, 1), (0, 8))"]
      apart dst dest src source d keys trees
    by blast
  have left': "interpretSubscripts (interpE 2) (variableSubscripts ?dk) mergeState
      = Done (Some [''k''], mergeState)"
    unfolding two
    by (simp add: interpretExpression_def combinator_defs mValueToString_def)
  have right': "interpretSubscripts (interpE 2) (variableSubscripts ?d') mergeState
      = Done (Some [], mergeState)" by simp
  have overlap: "variableName ?dk = variableName ?d'
      \<and> (take (length [''k'']) [] = [''k''] \<or> take (length ([] :: string list)) [''k''] = [])"
    by simp
  from merge_overlap_and_copy [OF left' right', of 2 "((0, 1), (0, 11))"] overlap
  have second: "interpretMerge 2 (interpE 2) ((0, 1), (0, 11)) ?dk ?d' mergeState
      = Done (Halt, reportError ''Cannot merge overlapping variables'' ((0, 1), (0, 11)) mergeState)"
    by blast
  from first second show ?thesis by blast
qed

end
